theory Spec2Isabelle
  imports Complex_Main "HOL-Library.Multiset"
begin

section \<open>Cards and the deck (shared/src/common.ts, townService/src/town/CardGameArea.ts)\<close>

text \<open>
  The \<^verbatim>\<open>Card\<close> type of \<^verbatim>\<open>CoveyTownSocket.d.ts\<close> is a tagged union:
  number cards carry a colour and a value, draw-two, reverse and skip cards a colour, the
  two wild cards nothing. Colours are strings (the colour filter of a deck is any string
  the caller sends).
\<close>

datatype card =
    NumberCard string nat
  | DrawTwoCard string
  | ReverseCard string
  | SkipCard string
  | WildCard
  | WildDrawFourCard

datatype cardType = NUMBER | DRAW_TWO | REVERSE | SKIP | WILD | WILD_DRAW_FOUR

fun typeOf :: "card \<Rightarrow> cardType" where
  "typeOf (NumberCard c v) = NUMBER"
| "typeOf (DrawTwoCard c) = DRAW_TWO"
| "typeOf (ReverseCard c) = REVERSE"
| "typeOf (SkipCard c) = SKIP"
| "typeOf WildCard = WILD"
| "typeOf WildDrawFourCard = WILD_DRAW_FOUR"

text \<open>The \<^verbatim>\<open>color\<close> field; the wild cards have none (\<^verbatim>\<open>undefined\<close>).\<close>

fun colorOf :: "card \<Rightarrow> string option" where
  "colorOf (NumberCard c v) = Some c"
| "colorOf (DrawTwoCard c) = Some c"
| "colorOf (ReverseCard c) = Some c"
| "colorOf (SkipCard c) = Some c"
| "colorOf WildCard = None"
| "colorOf WildDrawFourCard = None"

definition RED :: string where "RED = ''red''"
definition YELLOW :: string where "YELLOW = ''yellow''"
definition BLUE :: string where "BLUE = ''blue''"
definition GREEN :: string where "GREEN = ''green''"

definition ALL_CARD_COLORS :: "string list" where
  "ALL_CARD_COLORS = [RED, YELLOW, BLUE, GREEN]"

definition MIN_PLAYERS :: nat where "MIN_PLAYERS = 2"
definition MAX_PLAYERS :: nat where "MAX_PLAYERS = 8"
definition DEFAULT_HAND_SIZE :: nat where "DEFAULT_HAND_SIZE = 7"

text \<open>
  \<^verbatim>\<open>color || cardColor\<close>: JavaScript takes the right operand when the left one is
  \<^verbatim>\<open>undefined\<close> or the empty string.
\<close>

definition actualColor :: "string option \<Rightarrow> string \<Rightarrow> string" where
  "actualColor color cardColor =
     (case color of None \<Rightarrow> cardColor | Some c \<Rightarrow> if c = [] then cardColor else c)"

text \<open>
  One pass of the outer loop of \<^verbatim>\<open>genUnoDeck\<close>: the ten number cards, then two rounds
  of draw-two, reverse, skip.
\<close>

definition colorCards :: "string \<Rightarrow> card list" where
  "colorCards c =
     map (NumberCard c) [0..<10] @
     concat (replicate 2 [DrawTwoCard c, ReverseCard c, SkipCard c])"

definition genUnoDeck :: "string option \<Rightarrow> card list" where
  "genUnoDeck color =
     concat (map (\<lambda>cardColor. colorCards (actualColor color cardColor)) ALL_CARD_COLORS) @
     (if color = None then concat (replicate 4 [WildCard, WildDrawFourCard]) else [])"

text \<open>
  The multiplicities the specification gives for the full deck: per colour one card of each
  value 0 to 9 and two each of draw-two, reverse and skip; four wild and four wild-draw-four.
\<close>

fun fullDeckCount :: "card \<Rightarrow> nat" where
  "fullDeckCount (NumberCard c v) = (if c \<in> set ALL_CARD_COLORS \<and> v < 10 then 1 else 0)"
| "fullDeckCount (DrawTwoCard c) = (if c \<in> set ALL_CARD_COLORS then 2 else 0)"
| "fullDeckCount (ReverseCard c) = (if c \<in> set ALL_CARD_COLORS then 2 else 0)"
| "fullDeckCount (SkipCard c) = (if c \<in> set ALL_CARD_COLORS then 2 else 0)"
| "fullDeckCount WildCard = 4"
| "fullDeckCount WildDrawFourCard = 4"

text \<open>
  What the code builds for a colour filter \<open>c\<close>: the outer loop still runs once per entry
  of \<^verbatim>\<open>ALL_CARD_COLORS\<close>, so every card of colour \<open>c\<close> is there four times over.
\<close>

fun singleColorCount :: "string \<Rightarrow> card \<Rightarrow> nat" where
  "singleColorCount c (NumberCard c' v) = (if c' = c \<and> v < 10 then 4 else 0)"
| "singleColorCount c (DrawTwoCard c') = (if c' = c then 8 else 0)"
| "singleColorCount c (ReverseCard c') = (if c' = c then 8 else 0)"
| "singleColorCount c (SkipCard c') = (if c' = c then 8 else 0)"
| "singleColorCount c WildCard = 0"
| "singleColorCount c WildDrawFourCard = 0"

section \<open>JavaScript array helpers\<close>

text \<open>
  \<^verbatim>\<open>xs[i]\<close>: \<^verbatim>\<open>undefined\<close> (here \<open>None\<close>) outside \<open>0 \<le> i < xs.length\<close>.
\<close>

definition jsIndex :: "'a list \<Rightarrow> int \<Rightarrow> 'a option" where
  "jsIndex xs i = (if 0 \<le> i \<and> i < int (length xs) then Some (xs ! nat i) else None)"

text \<open>\<^verbatim>\<open>xs.findIndex(P)\<close>: the first index whose element satisfies \<open>P\<close>, or \<open>-1\<close>.\<close>

fun findIndexFrom :: "('a \<Rightarrow> bool) \<Rightarrow> 'a list \<Rightarrow> int \<Rightarrow> int" where
  "findIndexFrom P [] k = - 1"
| "findIndexFrom P (x # xs) k = (if P x then k else findIndexFrom P xs (k + 1))"

definition findIndex :: "('a \<Rightarrow> bool) \<Rightarrow> 'a list \<Rightarrow> int" where
  "findIndex P xs = findIndexFrom P xs 0"

text \<open>
  \<^verbatim>\<open>xs.splice(start, 1)\<close>: a negative start counts from the end (so \<open>-1\<close> removes the
  last element), a start beyond the end removes nothing.
\<close>

definition splice1 :: "'a list \<Rightarrow> int \<Rightarrow> 'a list" where
  "splice1 xs start =
     (let len = int (length xs);
          s = (if start < 0 then max (len + start) 0 else min start len)
      in take (nat s) xs @ drop (nat s + 1) xs)"

section \<open>JavaScript numbers\<close>

text \<open>
  A Number is an IEEE 754 double: a finite value (\<open>Finite 0\<close> is \<^verbatim>\<open>+0\<close>), the negative
  zero, an infinity or \<^verbatim>\<open>NaN\<close>. The finite doubles are the reals \<open>m * 2 ^ q\<close> with
  \<open>\<bar>m\<bar> < 2 ^ 53\<close> and \<open>- 1074 \<le> q \<le> 971\<close>; an array length, an index and a numeric
  literal of the code are among them.
\<close>

datatype number = Finite real | NegZero | PosInfinity | NegInfinity | NaN

definition ofNat :: "nat \<Rightarrow> number" where
  "ofNat n = Finite (real n)"

definition signedZero :: "bool \<Rightarrow> number" where
  "signedZero neg = (if neg then NegZero else Finite 0)"

definition infinity :: "bool \<Rightarrow> number" where
  "infinity neg = (if neg then NegInfinity else PosInfinity)"

definition isZero :: "number \<Rightarrow> bool" where
  "isZero a \<longleftrightarrow> a = Finite 0 \<or> a = NegZero"

definition isInfinite :: "number \<Rightarrow> bool" where
  "isInfinite a \<longleftrightarrow> a = PosInfinity \<or> a = NegInfinity"

fun negative :: "number \<Rightarrow> bool" where
  "negative (Finite x) = (x < 0)"
| "negative NegZero = True"
| "negative PosInfinity = False"
| "negative NegInfinity = True"
| "negative NaN = False"

fun valueOf :: "number \<Rightarrow> real" where
  "valueOf (Finite x) = x"
| "valueOf NegZero = 0"
| "valueOf PosInfinity = 0"
| "valueOf NegInfinity = 0"
| "valueOf NaN = 0"

text \<open>
  Rounding of an exact result to the nearest double, a tie to the even significand. The
  last place of \<open>x\<close> has the weight \<open>2 ^ ulpExponent x\<close>: 52 binary places below the
  leading one, and \<open>2 ^ - 1074\<close> for the subnormal numbers. A result of magnitude
  \<open>2 ^ 1024\<close> or more after rounding is an infinity. \<open>neg\<close> is the sign an exact zero takes;
  a non-zero result that rounds to zero keeps its own sign.
\<close>

definition roundHalfEven :: "real \<Rightarrow> int" where
  "roundHalfEven z =
     (let f = \<lfloor>z\<rfloor>
      in if z - of_int f < 1 / 2 then f
         else if 1 / 2 < z - of_int f then f + 1
         else if even f then f else f + 1)"

definition ulpExponent :: "real \<Rightarrow> int" where
  "ulpExponent x = max \<lfloor>log 2 \<bar>x\<bar>\<rfloor> (- 1022) - 52"

definition nearestMagnitude :: "real \<Rightarrow> real" where
  "nearestMagnitude x =
     of_int (roundHalfEven (\<bar>x\<bar> / 2 powi ulpExponent x)) * 2 powi ulpExponent x"

definition roundDouble :: "bool \<Rightarrow> real \<Rightarrow> number" where
  "roundDouble neg x =
     (if x = 0 then signedZero neg
      else let y = nearestMagnitude x
           in if 2 ^ 1024 \<le> y then infinity (x < 0)
              else if y = 0 then signedZero (x < 0)
              else Finite (if x < 0 then - y else y))"

text \<open>
  The operators \<^verbatim>\<open>+\<close>, \<^verbatim>\<open>-\<close>, \<^verbatim>\<open>*\<close> and \<^verbatim>\<open>/\<close> on Numbers. A sum that is exactly zero is
  \<^verbatim>\<open>-0\<close> only when both operands are; a product and a quotient have the sign of their
  operands' signs combined, also when they are zero or infinite.
\<close>

fun numNeg :: "number \<Rightarrow> number" where
  "numNeg (Finite x) = (if x = 0 then NegZero else Finite (- x))"
| "numNeg NegZero = Finite 0"
| "numNeg PosInfinity = NegInfinity"
| "numNeg NegInfinity = PosInfinity"
| "numNeg NaN = NaN"

definition numAdd :: "number \<Rightarrow> number \<Rightarrow> number" where
  "numAdd a b =
     (if a = NaN \<or> b = NaN then NaN
      else if isInfinite a \<and> isInfinite b then (if a = b then a else NaN)
      else if isInfinite a then a
      else if isInfinite b then b
      else roundDouble (a = NegZero \<and> b = NegZero) (valueOf a + valueOf b))"

definition numSub :: "number \<Rightarrow> number \<Rightarrow> number" where
  "numSub a b = numAdd a (numNeg b)"

definition numMul :: "number \<Rightarrow> number \<Rightarrow> number" where
  "numMul a b =
     (if a = NaN \<or> b = NaN then NaN
      else if isInfinite a \<or> isInfinite b
      then (if isZero a \<or> isZero b then NaN else infinity (negative a \<noteq> negative b))
      else roundDouble (negative a \<noteq> negative b) (valueOf a * valueOf b))"

definition numDiv :: "number \<Rightarrow> number \<Rightarrow> number" where
  "numDiv a b =
     (if a = NaN \<or> b = NaN then NaN
      else if isInfinite a
      then (if isInfinite b then NaN else infinity (negative a \<noteq> negative b))
      else if isInfinite b then signedZero (negative a \<noteq> negative b)
      else if isZero b
      then (if isZero a then NaN else infinity (negative a \<noteq> negative b))
      else roundDouble (negative a \<noteq> negative b) (valueOf a / valueOf b))"

text \<open>
  \<^verbatim>\<open>10 ** x\<close>. ECMAScript fixes the result for \<^verbatim>\<open>NaN\<close>, the zeros and the infinities, and
  leaves every other exponent to the engine, which returns an approximation of its own
  choosing: \<open>pw x\<close> is the engine's answer for the finite, non-zero exponent \<open>x\<close>.
\<close>

fun tenToThe :: "(real \<Rightarrow> number) \<Rightarrow> number \<Rightarrow> number" where
  "tenToThe pw (Finite x) = (if x = 0 then Finite 1 else pw x)"
| "tenToThe pw NegZero = Finite 1"
| "tenToThe pw PosInfinity = PosInfinity"
| "tenToThe pw NegInfinity = Finite 0"
| "tenToThe pw NaN = NaN"

text \<open>
  \<^verbatim>\<open>Math.round\<close>: the nearest integer, a half upwards; a value in \<open>[- 1/2, 0)\<close> gives
  \<^verbatim>\<open>-0\<close>; \<^verbatim>\<open>NaN\<close>, the zeros and the infinities are returned as they are.
\<close>

fun mathRound :: "number \<Rightarrow> number" where
  "mathRound (Finite x) =
     (if 0 < x \<and> x < 1 / 2 then Finite 0
      else if x < 0 \<and> - (1 / 2) \<le> x then NegZero
      else Finite (of_int \<lfloor>x + 1 / 2\<rfloor>))"
| "mathRound NegZero = NegZero"
| "mathRound PosInfinity = PosInfinity"
| "mathRound NegInfinity = NegInfinity"
| "mathRound NaN = NaN"

section \<open>The game state (types/CoveyTownSocket.d.ts)\<close>

record cardGamePlayer =
  playerId :: string
  username :: string

record playableMove =
  moveType :: bool
  moveCard :: "int option"
  moveColor :: "string option"

definition DRAW :: bool where "DRAW = True"
definition PLAY :: bool where "PLAY = False"

datatype basicMove =
    Playable playableMove
  | ReceiveHand "card list"
  | QuitMove
  | SkipMove

record fullMove =
  movePlayerId :: "string option"
  timestamp :: nat
  move :: basicMove

record eloRating =
  eloPlayerId :: string
  eloUsername :: string
  rating :: number
  numPlayed :: nat

record eloRatingChange =
  changePlayer :: cardGamePlayer
  prevElo :: number
  newElo :: number

record ongoingCardGame =
  gameId :: string
  players :: "cardGamePlayer list"
  activePlayers :: "int list"
  spectators :: "string list"
  winners :: "int list"
  hands :: "card list list"
  moves :: "fullMove list"
  deck :: "card list"
  discardPile :: "card list"
  currentColor :: string
  lastDrawPlayed :: "nat option"
  currentPlayerIdx :: int
  playerDirection :: bool
  prevEloRatings :: "eloRating list"
  eloRatingChanges :: "eloRatingChange list"
  cardsDrawnDuringGame :: "card list"
  startingTopCardDiscardPile :: card
  initialHands :: "card list list"
  startTime :: nat

section \<open>Outcomes of a call\<close>

text \<open>
  Every \<^verbatim>\<open>throw new Error(...)\<close> of the source is a constructor; \<open>TypeError\<close> is the
  exception JavaScript raises when a property of \<^verbatim>\<open>undefined\<close> is read or called.
\<close>

datatype error =
    MustSpecifyCard
  | DrawMustBePlayed
  | WildWithoutColor
  | DifferentColor
  | DiscardPileEmpty
  | CannotQuitNotActive
  | NoGameWithThisId
  | PlayerNotActive
  | NotThisPlayersTurn
  | TooFewPlayers
  | TooManyPlayers
  | FailedToDealCards
  | CardGameHasEnded
  | NotEnoughTimePassed
  | EmailUndefined
  | InvalidGoogleAccount
  | AlreadyJoined
  | NotJoined
  | AlreadySpectating
  | NotSpectating
  | TypeError

text \<open>
  The functions of the source mutate the game in place, so a call that throws leaves
  behind the state it had reached: \<open>Throws e s\<close> carries that state. \<open>Diverges\<close> is a
  call that never returns.
\<close>

datatype 's outcome = Returns 's | Throws error 's | Diverges

definition andThen :: "'s outcome \<Rightarrow> ('s \<Rightarrow> 's outcome) \<Rightarrow> 's outcome" where
  "andThen r f = (case r of Returns s \<Rightarrow> f s | Throws e s \<Rightarrow> Throws e s | Diverges \<Rightarrow> Diverges)"

section \<open>shuffleCards\<close>

text \<open>
  \<^verbatim>\<open>Math.random()\<close> is an input of the model: \<open>rnd i\<close> is a natural number drawn for
  iteration \<open>i\<close>, and \<open>rnd i mod (length cards - i)\<close> stands for
  \<^verbatim>\<open>Math.floor(Math.random() * (deck.length - i))\<close>, which ranges over exactly the same
  values \<open>0, ..., length cards - i - 1\<close>.
\<close>

definition swapAt :: "nat \<Rightarrow> nat \<Rightarrow> 'a list \<Rightarrow> 'a list" where
  "swapAt i j xs = xs[i := xs ! j, j := xs ! i]"

function shuffleFrom :: "(nat \<Rightarrow> nat) \<Rightarrow> nat \<Rightarrow> 'a list \<Rightarrow> 'a list" where
  "shuffleFrom rnd i cards =
     (if i + 1 < length cards
      then shuffleFrom rnd (i + 1) (swapAt i (i + rnd i mod (length cards - i)) cards)
      else cards)"
  by pat_completeness auto
termination
  by (relation "measure (\<lambda>(rnd, i, cards). length cards - i)") (auto simp: swapAt_def)

declare shuffleFrom.simps [simp del]

definition shuffleCards :: "(nat \<Rightarrow> nat) \<Rightarrow> 'a list \<Rightarrow> 'a list" where
  "shuffleCards rnd cards = shuffleFrom rnd 0 cards"

section \<open>advanceMove and updateIfGameEnded\<close>

text \<open>One pass of the body of the \<^verbatim>\<open>do ... while\<close> loop; \<open>n\<close> is \<^verbatim>\<open>players.length\<close>.\<close>

definition advanceStep :: "bool \<Rightarrow> int \<Rightarrow> int \<Rightarrow> int" where
  "advanceStep dir n idx =
     (if dir then (if idx + 1 = n then 0 else idx + 1)
      else (if idx - 1 < 0 then n - 1 else idx - 1))"

text \<open>
  The loop itself. Nothing in the source bounds it, so it is a partial function:
  \<open>None\<close> is a loop that never ends.
\<close>

partial_function (option) advanceLoop :: "bool \<Rightarrow> int \<Rightarrow> int list \<Rightarrow> int \<Rightarrow> int option" where
  "advanceLoop dir n act idx =
     (let idx' = advanceStep dir n idx
      in if idx' \<in> set act then Some idx' else advanceLoop dir n act idx')"

definition advanceMove :: "ongoingCardGame \<Rightarrow> ongoingCardGame outcome" where
  "advanceMove g =
     (if activePlayers g = [] then Returns g
      else case advanceLoop (playerDirection g) (int (length (players g)))
                  (activePlayers g) (currentPlayerIdx g) of
             None \<Rightarrow> Diverges
           | Some i \<Rightarrow> Returns (g\<lparr>currentPlayerIdx := i\<rparr>))"

definition updateIfGameEnded ::
  "ongoingCardGame \<Rightarrow> (ongoingCardGame \<Rightarrow> ongoingCardGame outcome) \<Rightarrow> ongoingCardGame outcome" where
  "updateIfGameEnded g callback =
     (if length (activePlayers g) = 1
      then callback (g\<lparr>winners := winners g @ [activePlayers g ! 0], activePlayers := []\<rparr>)
      else Returns g)"

section \<open>drawCard and playDrawMove\<close>

text \<open>
  The two \<^verbatim>\<open>if\<close> blocks of \<^verbatim>\<open>drawCard\<close>: \<open>refillDeck\<close> rebuilds an empty deck from the
  discard pile, \<open>takeTopCard\<close> moves the first card of the deck to the current hand.
  \<open>rnd\<close> feeds the shuffle of the rebuilt deck. The deck is assigned before the discard
  pile is looked at, so the exception for an empty discard pile leaves the (empty) new
  deck behind. Pushing onto \<^verbatim>\<open>hands[currentPlayerIdx]\<close> is a \<open>TypeError\<close> when there is no
  such hand.
\<close>

definition refillDeck :: "(nat \<Rightarrow> nat) \<Rightarrow> ongoingCardGame \<Rightarrow> ongoingCardGame outcome" where
  "refillDeck rnd g =
     (if deck g = [] then
        (let newDeck = shuffleCards rnd (butlast (discardPile g));
             g1 = g\<lparr>deck := newDeck\<rparr>
         in if discardPile g = [] then Throws DiscardPileEmpty g1
            else Returns (g1\<lparr>discardPile := [last (discardPile g)]\<rparr>))
      else Returns g)"

definition takeTopCard :: "ongoingCardGame \<Rightarrow> ongoingCardGame outcome" where
  "takeTopCard g =
     (if deck g \<noteq> [] then
        (case jsIndex (hands g) (currentPlayerIdx g) of
           None \<Rightarrow> Throws TypeError g
         | Some hand \<Rightarrow>
             Returns (g\<lparr>hands := (hands g)[nat (currentPlayerIdx g) := hand @ [hd (deck g)]],
                        cardsDrawnDuringGame := cardsDrawnDuringGame g @ [hd (deck g)],
                        deck := tl (deck g)\<rparr>))
      else Returns g)"

definition drawCard :: "(nat \<Rightarrow> nat) \<Rightarrow> ongoingCardGame \<Rightarrow> ongoingCardGame outcome" where
  "drawCard rnd g = andThen (refillDeck rnd g) takeTopCard"

text \<open>
  The \<^verbatim>\<open>for\<close> loop of \<^verbatim>\<open>playDrawMove\<close>: \<open>k\<close> draws are left, the next one is draw number
  \<open>i\<close> and shuffles (if it has to) with \<open>rnds i\<close>.
\<close>

fun drawLoop :: "(nat \<Rightarrow> nat \<Rightarrow> nat) \<Rightarrow> nat \<Rightarrow> nat \<Rightarrow> ongoingCardGame \<Rightarrow> ongoingCardGame outcome" where
  "drawLoop rnds i 0 g = Returns g"
| "drawLoop rnds i (Suc k) g = andThen (drawCard (rnds i) g) (drawLoop rnds (i + 1) k)"

text \<open>\<^verbatim>\<open>cardGame.lastDrawPlayed || 1\<close>: \<^verbatim>\<open>undefined\<close> and \<open>0\<close> both give \<open>1\<close>.\<close>

definition numDraws :: "nat option \<Rightarrow> nat" where
  "numDraws l = (case l of None \<Rightarrow> 1 | Some n \<Rightarrow> if n = 0 then 1 else n)"

definition playDrawMove :: "(nat \<Rightarrow> nat \<Rightarrow> nat) \<Rightarrow> ongoingCardGame \<Rightarrow> ongoingCardGame outcome" where
  "playDrawMove rnds g =
     andThen (drawLoop rnds 0 (numDraws (lastDrawPlayed g)) g)
       (\<lambda>g1. advanceMove (g1\<lparr>lastDrawPlayed := None\<rparr>))"

section \<open>playMove\<close>

text \<open>
  The part of \<^verbatim>\<open>playMove\<close> after the checks (lines 155 to 178): the card leaves the hand
  for the discard pile, an emptied hand makes its player a winner, the card's effect is
  applied and the turn advances. \<open>activeIdx\<close> was computed on entry.
\<close>

definition removeCard :: "ongoingCardGame \<Rightarrow> card list \<Rightarrow> int \<Rightarrow> card \<Rightarrow> ongoingCardGame" where
  "removeCard g curHand c curCard =
     g\<lparr>hands := (hands g)[nat (currentPlayerIdx g) := splice1 curHand c],
       discardPile := discardPile g @ [curCard]\<rparr>"

definition winCheck ::
  "int \<Rightarrow> (ongoingCardGame \<Rightarrow> ongoingCardGame outcome) \<Rightarrow> card list \<Rightarrow> ongoingCardGame \<Rightarrow>
   ongoingCardGame outcome" where
  "winCheck activeIdx callback newHand g =
     (if length newHand = 0
      then updateIfGameEnded
             (g\<lparr>winners := winners g @ [currentPlayerIdx g],
                activePlayers := splice1 (activePlayers g) activeIdx\<rparr>) callback
      else Returns g)"

definition reverseEffect :: "card \<Rightarrow> ongoingCardGame \<Rightarrow> ongoingCardGame outcome" where
  "reverseEffect curCard g =
     (if typeOf curCard = REVERSE then
        (if length (activePlayers g) = 2 then advanceMove g
         else Returns (g\<lparr>playerDirection := \<not> playerDirection g\<rparr>))
      else Returns g)"

definition skipEffect :: "card \<Rightarrow> ongoingCardGame \<Rightarrow> ongoingCardGame outcome" where
  "skipEffect curCard g = (if typeOf curCard = SKIP then advanceMove g else Returns g)"

definition drawEffect :: "card \<Rightarrow> ongoingCardGame \<Rightarrow> ongoingCardGame" where
  "drawEffect curCard g =
     (if typeOf curCard = DRAW_TWO \<or> typeOf curCard = WILD_DRAW_FOUR
      then g\<lparr>lastDrawPlayed := Some (if typeOf curCard = DRAW_TWO then 2 else 4)\<rparr>
      else g)"

text \<open>Lines 155 to 163: the card is discarded and a win is recorded.\<close>

definition discardStage ::
  "int \<Rightarrow> (ongoingCardGame \<Rightarrow> ongoingCardGame outcome) \<Rightarrow> card list \<Rightarrow> int \<Rightarrow> card \<Rightarrow>
   ongoingCardGame \<Rightarrow> ongoingCardGame outcome" where
  "discardStage activeIdx callback curHand c curCard g =
     winCheck activeIdx callback (splice1 curHand c) (removeCard g curHand c curCard)"

text \<open>Lines 164 to 178: the effect of the card, then the move's own advance.\<close>

definition cardEffects :: "card \<Rightarrow> ongoingCardGame \<Rightarrow> ongoingCardGame outcome" where
  "cardEffects curCard g1 =
     andThen (reverseEffect curCard g1)
       (\<lambda>g2. andThen (skipEffect curCard g2)
         (\<lambda>g3. advanceMove (drawEffect curCard g3)))"

definition applyCard ::
  "int \<Rightarrow> (ongoingCardGame \<Rightarrow> ongoingCardGame outcome) \<Rightarrow> card list \<Rightarrow> int \<Rightarrow> card \<Rightarrow>
   ongoingCardGame \<Rightarrow> ongoingCardGame outcome" where
  "applyCard activeIdx callback curHand c curCard g =
     andThen (discardStage activeIdx callback curHand c curCard g) (cardEffects curCard)"

definition playMove ::
  "ongoingCardGame \<Rightarrow> playableMove \<Rightarrow> (nat \<Rightarrow> nat \<Rightarrow> nat) \<Rightarrow>
   (ongoingCardGame \<Rightarrow> ongoingCardGame outcome) \<Rightarrow> ongoingCardGame outcome" where
  "playMove g mv rnds callback =
     (let activeIdx = findIndex (\<lambda>n. n = currentPlayerIdx g) (activePlayers g) in
      if moveType mv = DRAW then playDrawMove rnds g
      else
        (case moveCard mv of
           None \<Rightarrow> Throws MustSpecifyCard g
         | Some c \<Rightarrow>
             if lastDrawPlayed g \<noteq> None then Throws DrawMustBePlayed g
             else
               (case jsIndex (hands g) (currentPlayerIdx g) of
                  None \<Rightarrow> Throws TypeError g
                | Some curHand \<Rightarrow>
                    (case jsIndex curHand c of
                       None \<Rightarrow> Throws TypeError g
                     | Some curCard \<Rightarrow>
                         if typeOf curCard = WILD \<or> typeOf curCard = WILD_DRAW_FOUR then
                           (case moveColor mv of
                              None \<Rightarrow> Throws WildWithoutColor g
                            | Some col \<Rightarrow>
                                applyCard activeIdx callback curHand c curCard
                                  (g\<lparr>currentColor := col\<rparr>))
                         else if colorOf curCard \<noteq> Some (currentColor g)
                           then Throws DifferentColor g
                         else applyCard activeIdx callback curHand c curCard g))))"

section \<open>quitCardGame\<close>

text \<open>
  \<open>pid\<close> is the \<^verbatim>\<open>playerId\<close> argument (a string or \<^verbatim>\<open>undefined\<close>), \<open>now\<close> the value of
  \<^verbatim>\<open>Date.now()\<close>. Reading \<^verbatim>\<open>players[playerIdx].playerId\<close> comes after the splice.
\<close>

definition quitCardGame ::
  "ongoingCardGame \<Rightarrow> string option \<Rightarrow> nat \<Rightarrow>
   (ongoingCardGame \<Rightarrow> ongoingCardGame outcome) \<Rightarrow> ongoingCardGame outcome" where
  "quitCardGame g pid now callback =
     (let playerIdx = findIndex (\<lambda>p. Some (playerId p) = pid) (players g);
          activeIdx = findIndex (\<lambda>n. n = playerIdx) (activePlayers g)
      in if activeIdx = - 1 then Throws CannotQuitNotActive g
         else
           (let g1 = g\<lparr>activePlayers := splice1 (activePlayers g) activeIdx\<rparr> in
            case jsIndex (players g1) playerIdx of
              None \<Rightarrow> Throws TypeError g1
            | Some p \<Rightarrow>
                andThen
                  (updateIfGameEnded
                     (g1\<lparr>moves := moves g1 @
                          [\<lparr>movePlayerId = Some (playerId p), timestamp = now, move = QuitMove\<rparr>]\<rparr>)
                     callback)
                  (\<lambda>g2. if playerIdx = currentPlayerIdx g2 then advanceMove g2 else Returns g2)))"

section \<open>Ratings at the end of a game (CardGameArea.ts)\<close>

text \<open>\<^verbatim>\<open>_choose2\<close>: \<^verbatim>\<open>(n * (n - 1)) / 2\<close>.\<close>

definition choose2 :: "number \<Rightarrow> number" where
  "choose2 n = numDiv (numMul n (numSub n (Finite 1))) (Finite 2)"

text \<open>
  The \<^verbatim>\<open>for\<close> loop that accumulates \<^verbatim>\<open>totalExpectedScore\<close>, from \<^verbatim>\<open>0\<close>, over the previous
  ratings in their order.
\<close>

definition totalExpectedScore ::
  "(real \<Rightarrow> number) \<Rightarrow> string \<Rightarrow> number \<Rightarrow> eloRating list \<Rightarrow> number" where
  "totalExpectedScore pw pid selfRating elos =
     foldl (\<lambda>total elo.
              if pid \<noteq> eloPlayerId elo
              then (let ratingDifference = numDiv (numSub (rating elo) selfRating) (Finite 400)
                    in numAdd total
                         (numDiv (Finite 1) (numAdd (Finite 1) (tenToThe pw ratingDifference))))
              else total)
       (Finite 0) elos"

text \<open>
  \<^verbatim>\<open>players.find(p => p.playerId === prevElo.playerId)?.username || 'Anonymous'\<close>.
\<close>

definition usernameOrAnonymous :: "cardGamePlayer list \<Rightarrow> string \<Rightarrow> string" where
  "usernameOrAnonymous ps pid =
     (case find (\<lambda>p. playerId p = pid) ps of
        None \<Rightarrow> ''Anonymous''
      | Some p \<Rightarrow> if username p = [] then ''Anonymous'' else username p)"

text \<open>
  Without a previous rating for the player, \<^verbatim>\<open>prevElo\<close> is \<^verbatim>\<open>undefined\<close> and reading
  \<^verbatim>\<open>prevElo.rating\<close> is a \<open>TypeError\<close> (in the loop when there are previous ratings of
  others, in \<^verbatim>\<open>newRating\<close> when there are none; nothing is written before either).
  \<open>ranking\<close> is an index of \<^verbatim>\<open>winners\<close> or its length. The product is
  \<^verbatim>\<open>(50 * (n - 1)) * (actualScore - expectedScore)\<close>, as \<^verbatim>\<open>*\<close> associates.
\<close>

definition calculateNewEloRatingChange ::
  "(real \<Rightarrow> number) \<Rightarrow> string \<Rightarrow> nat \<Rightarrow> ongoingCardGame \<Rightarrow> error + eloRatingChange" where
  "calculateNewEloRatingChange pw pid ranking g =
     (case find (\<lambda>elo. eloPlayerId elo = pid) (prevEloRatings g) of
        None \<Rightarrow> Inl TypeError
      | Some pe \<Rightarrow>
          (let n = ofNat (length (prevEloRatings g));
               expectedScore =
                 numDiv (totalExpectedScore pw pid (rating pe) (prevEloRatings g)) (choose2 n);
               actualScore = numDiv (numSub (numSub n (ofNat ranking)) (Finite 1)) (choose2 n);
               newRating =
                 numAdd (rating pe)
                   (numMul (numMul (Finite 50) (numSub n (Finite 1)))
                      (numSub actualScore expectedScore))
           in Inr \<lparr>changePlayer =
                      \<lparr>playerId = pid,
                       username = usernameOrAnonymous (players g) (eloPlayerId pe)\<rparr>,
                    prevElo = rating pe,
                    newElo = mathRound newRating\<rparr>))"

text \<open>
  The two \<^verbatim>\<open>forEach\<close> loops of \<^verbatim>\<open>_calculateNewElos\<close>: the winners with their rank, then
  every player with no entry yet, at rank \<^verbatim>\<open>winners.length\<close>.
\<close>

fun winnersLoop ::
  "(real \<Rightarrow> number) \<Rightarrow> ongoingCardGame \<Rightarrow> int list \<Rightarrow> nat \<Rightarrow> eloRatingChange list \<Rightarrow>
   error + eloRatingChange list" where
  "winnersLoop pw g [] rankIdx acc = Inr acc"
| "winnersLoop pw g (winnerIdx # ws) rankIdx acc =
     (case jsIndex (players g) winnerIdx of
        None \<Rightarrow> Inl TypeError
      | Some p \<Rightarrow>
          (case calculateNewEloRatingChange pw (playerId p) rankIdx g of
             Inl e \<Rightarrow> Inl e
           | Inr ch \<Rightarrow> winnersLoop pw g ws (rankIdx + 1) (acc @ [ch])))"

fun playersLoop ::
  "(real \<Rightarrow> number) \<Rightarrow> ongoingCardGame \<Rightarrow> cardGamePlayer list \<Rightarrow> eloRatingChange list \<Rightarrow>
   error + eloRatingChange list" where
  "playersLoop pw g [] acc = Inr acc"
| "playersLoop pw g (p # ps) acc =
     (if \<not> list_ex (\<lambda>elo. playerId (changePlayer elo) = playerId p) acc
      then (case calculateNewEloRatingChange pw (playerId p) (length (winners g)) g of
              Inl e \<Rightarrow> Inl e
            | Inr ch \<Rightarrow> playersLoop pw g ps (acc @ [ch]))
      else playersLoop pw g ps acc)"

definition calculateNewElos ::
  "(real \<Rightarrow> number) \<Rightarrow> ongoingCardGame \<Rightarrow> error + eloRatingChange list" where
  "calculateNewElos pw g =
     (case winnersLoop pw g (winners g) 0 [] of
        Inl e \<Rightarrow> Inl e
      | Inr acc \<Rightarrow> playersLoop pw g (players g) acc)"

text \<open>
  \<^verbatim>\<open>_onGameEnd\<close>, the callback the server passes to \<^verbatim>\<open>playMove\<close> and \<^verbatim>\<open>quitCardGame\<close>.
  \<^verbatim>\<open>_saveMatchHistory\<close> is asynchronous and only talks to the database: it changes nothing
  of the game and cannot throw into its caller.
\<close>

definition onGameEnd :: "(real \<Rightarrow> number) \<Rightarrow> ongoingCardGame \<Rightarrow> ongoingCardGame outcome" where
  "onGameEnd pw g =
     (case calculateNewElos pw g of
        Inl e \<Rightarrow> Throws e g
      | Inr changes \<Rightarrow> Returns (g\<lparr>eloRatingChanges := changes\<rparr>))"

text \<open>
  The assignment at the end of the asynchronous \<^verbatim>\<open>_storePrevEloRatings\<close>; \<open>elos\<close> is what
  the rating store answered.
\<close>

definition storePrevEloRatings :: "eloRating list \<Rightarrow> ongoingCardGame \<Rightarrow> ongoingCardGame" where
  "storePrevEloRatings elos g = g\<lparr>prevEloRatings := elos\<rparr>"

text \<open>
  Both callbacks of the repository (the server's \<^verbatim>\<open>_onGameEnd\<close> and the replay's
  \<^verbatim>\<open>updateEloRatingChanges\<close>) write nothing but \<^verbatim>\<open>eloRatingChanges\<close>, and return.
\<close>

definition ratingsOnly :: "(ongoingCardGame \<Rightarrow> ongoingCardGame outcome) \<Rightarrow> bool" where
  "ratingsOnly callback \<longleftrightarrow>
     (\<forall>g. case callback g of
            Returns g' \<Rightarrow> g' = g\<lparr>eloRatingChanges := eloRatingChanges g'\<rparr>
          | Throws e g' \<Rightarrow> g' = g\<lparr>eloRatingChanges := eloRatingChanges g'\<rparr>
          | Diverges \<Rightarrow> False)"

section \<open>The card game area (CardGameArea.ts)\<close>

record player =
  playerObjId :: string
  googleEmail :: "string option"
  googleAccountName :: "string option"

record nonStartedCardGame =
  nsId :: string
  nsPlayers :: "cardGamePlayer list"

text \<open>
  The two lists a \<^verbatim>\<open>CardGameArea\<close> holds. Its occupants and the emitter that broadcasts
  \<^verbatim>\<open>_emitAreaChanged\<close> are outside the game state.
\<close>

record cardGameArea =
  nonStartedGames :: "nonStartedCardGame list"
  ongoingGames :: "ongoingCardGame list"

text \<open>
  \<^verbatim>\<open>find\<close> returns a reference to the first game with the id, and the game is mutated in
  place: the new state of the game replaces that first match.
\<close>

fun replaceFirst :: "('a \<Rightarrow> bool) \<Rightarrow> 'a \<Rightarrow> 'a list \<Rightarrow> 'a list" where
  "replaceFirst P y [] = []"
| "replaceFirst P y (x # xs) = (if P x then y # xs else x # replaceFirst P y xs)"

definition putGame :: "cardGameArea \<Rightarrow> string \<Rightarrow> ongoingCardGame \<Rightarrow> cardGameArea" where
  "putGame a gid g = a\<lparr>ongoingGames := replaceFirst (\<lambda>game. gameId game = gid) g (ongoingGames a)\<rparr>"

definition inArea ::
  "cardGameArea \<Rightarrow> string \<Rightarrow> ongoingCardGame outcome \<Rightarrow> cardGameArea outcome" where
  "inArea a gid r =
     (case r of
        Returns g \<Rightarrow> Returns (putGame a gid g)
      | Throws e g \<Rightarrow> Throws e (putGame a gid g)
      | Diverges \<Rightarrow> Diverges)"

subsection \<open>Pending games\<close>

text \<open>\<open>newId\<close> is the result of \<^verbatim>\<open>nanoid()\<close>.\<close>

definition createCardGame :: "cardGameArea \<Rightarrow> player \<Rightarrow> string \<Rightarrow> cardGameArea outcome" where
  "createCardGame a pl newId =
     (case (googleEmail pl, googleAccountName pl) of
        (Some email, Some name) \<Rightarrow>
          Returns (a\<lparr>nonStartedGames := nonStartedGames a @
                     [\<lparr>nsId = newId, nsPlayers = [\<lparr>playerId = email, username = name\<rparr>]\<rparr>]\<rparr>)
      | _ \<Rightarrow> Throws InvalidGoogleAccount a)"

definition joinCardGame :: "cardGameArea \<Rightarrow> string \<Rightarrow> player \<Rightarrow> cardGameArea outcome" where
  "joinCardGame a gid pl =
     (case find (\<lambda>game. nsId game = gid) (nonStartedGames a) of
        None \<Rightarrow> Throws NoGameWithThisId a
      | Some cardGame \<Rightarrow>
          if list_ex (\<lambda>p. Some (playerId p) = googleEmail pl) (nsPlayers cardGame)
          then Throws AlreadyJoined a
          else
            (case (googleEmail pl, googleAccountName pl) of
               (Some email, Some name) \<Rightarrow>
                 Returns (a\<lparr>nonStartedGames :=
                            replaceFirst (\<lambda>game. nsId game = gid)
                              (cardGame\<lparr>nsPlayers := nsPlayers cardGame @
                                 [\<lparr>playerId = email, username = name\<rparr>]\<rparr>)
                              (nonStartedGames a)\<rparr>)
             | _ \<Rightarrow> Throws InvalidGoogleAccount a))"

definition leaveNonStartedCardGame ::
  "cardGameArea \<Rightarrow> string \<Rightarrow> player \<Rightarrow> cardGameArea outcome" where
  "leaveNonStartedCardGame a gid pl =
     (let cardGameIndex = findIndex (\<lambda>game. nsId game = gid) (nonStartedGames a) in
      if cardGameIndex = - 1 then Throws NoGameWithThisId a
      else
        (let cardGame = nonStartedGames a ! nat cardGameIndex;
             toRemove = findIndex (\<lambda>p. Some (playerId p) = googleEmail pl) (nsPlayers cardGame)
         in if toRemove = - 1 then Throws NotJoined a
            else
              (let cardGame' = cardGame\<lparr>nsPlayers := splice1 (nsPlayers cardGame) toRemove\<rparr>;
                   a1 = a\<lparr>nonStartedGames := (nonStartedGames a)[nat cardGameIndex := cardGame']\<rparr>
               in if length (nsPlayers cardGame') = 0
                  then Returns (a1\<lparr>nonStartedGames := splice1 (nonStartedGames a1) cardGameIndex\<rparr>)
                  else Returns a1)))"

subsection \<open>startCardGame\<close>

text \<open>
  Dealing: player \<open>p\<close> receives the seven cards from index \<open>7 * p\<close> on. The deck has 64 or
  72 cards and at most 8 players are dealt to, so every index read (at most \<open>7 * 8 + 2\<close>)
  is inside the deck.
\<close>

definition dealHands :: "nat \<Rightarrow> card list \<Rightarrow> card list list" where
  "dealHands n cards =
     map (\<lambda>p. take DEFAULT_HAND_SIZE (drop (p * DEFAULT_HAND_SIZE) cards)) [0..<n]"

definition isWild :: "card \<Rightarrow> bool" where
  "isWild c \<longleftrightarrow> typeOf c = WILD \<or> typeOf c = WILD_DRAW_FOUR"

text \<open>
  The \<^verbatim>\<open>for (let j = 0; j < 100; j += 1)\<close> loop, with \<open>k\<close> attempts left. Each attempt
  shuffles the same array again (with the random numbers \<open>rnds j\<close>), deals to the \<open>n\<close>
  players and looks at the next card; the first attempt whose next card is not wild
  ends the loop with its deck. \<open>None\<close>: every attempt found a wild card, and
  \<^verbatim>\<open>moves\<close> is still empty after the loop.
\<close>

fun dealLoop :: "(nat \<Rightarrow> nat \<Rightarrow> nat) \<Rightarrow> nat \<Rightarrow> nat \<Rightarrow> nat \<Rightarrow> card list \<Rightarrow> card list option" where
  "dealLoop rnds n 0 j cards = None"
| "dealLoop rnds n (Suc k) j cards =
     (let cards' = shuffleCards (rnds j) cards;
          discardCard = cards' ! (n * DEFAULT_HAND_SIZE)
      in if \<not> isWild discardCard then Some cards'
         else dealLoop rnds n k (j + 1) cards')"

text \<open>The game pushed onto \<^verbatim>\<open>_ongoingGames\<close>, from the deck of the attempt that succeeded.\<close>

definition newGame :: "nonStartedCardGame \<Rightarrow> card list \<Rightarrow> nat \<Rightarrow> ongoingCardGame" where
  "newGame cardGame cards now =
     (let n = length (nsPlayers cardGame);
          discardIdx = n * DEFAULT_HAND_SIZE;
          discardCard = cards ! discardIdx;
          drawTwo = (typeOf discardCard = DRAW_TWO);
          dealt = dealHands n cards;
          finalHands = (if drawTwo
                        then dealt[0 := dealt ! 0 @ [cards ! (discardIdx + 1), cards ! (discardIdx + 2)]]
                        else dealt);
          nextIdx = (if drawTwo then discardIdx + 3 else discardIdx + 1)
      in \<lparr>gameId = nsId cardGame,
          players = nsPlayers cardGame,
          activePlayers = map int [0..<n],
          spectators = [],
          winners = [],
          hands = finalHands,
          moves = map (\<lambda>i. \<lparr>movePlayerId = Some (playerId (nsPlayers cardGame ! i)),
                             timestamp = now,
                             move = ReceiveHand (finalHands ! i)\<rparr>) [0..<n],
          deck = drop nextIdx cards,
          discardPile = [discardCard],
          currentColor = (case colorOf discardCard of Some c \<Rightarrow> c | None \<Rightarrow> RED),
          lastDrawPlayed = None,
          currentPlayerIdx = (if typeOf discardCard = SKIP \<or> drawTwo then 1 else 0),
          playerDirection = (typeOf discardCard \<noteq> REVERSE),
          prevEloRatings = [],
          eloRatingChanges = [],
          cardsDrawnDuringGame = [],
          startingTopCardDiscardPile = discardCard,
          initialHands = finalHands,
          startTime = now\<rparr>)"

text \<open>
  The pending game is spliced out of \<^verbatim>\<open>_nonStartedGames\<close> before the cards are dealt,
  so the exception after a hundred failed attempts leaves the area without it.
\<close>

definition startCardGame ::
  "cardGameArea \<Rightarrow> string \<Rightarrow> string option \<Rightarrow> (nat \<Rightarrow> nat \<Rightarrow> nat) \<Rightarrow> nat \<Rightarrow> cardGameArea outcome" where
  "startCardGame a gid color rnds now =
     (let cardGameIndex = findIndex (\<lambda>game. nsId game = gid) (nonStartedGames a) in
      if cardGameIndex = - 1 then Throws NoGameWithThisId a
      else
        (let cardGame = nonStartedGames a ! nat cardGameIndex in
         if length (nsPlayers cardGame) < MIN_PLAYERS then Throws TooFewPlayers a
         else if length (nsPlayers cardGame) > MAX_PLAYERS then Throws TooManyPlayers a
         else
           (let a1 = a\<lparr>nonStartedGames := splice1 (nonStartedGames a) cardGameIndex\<rparr> in
            case dealLoop rnds (length (nsPlayers cardGame)) 100 0 (genUnoDeck color) of
              None \<Rightarrow> Throws FailedToDealCards a1
            | Some cards \<Rightarrow>
                Returns (a1\<lparr>ongoingGames := ongoingGames a1 @ [newGame cardGame cards now]\<rparr>))))"

subsection \<open>Moves on an ongoing game\<close>

definition MOVE_TIMEOUT :: nat where "MOVE_TIMEOUT = 20000"

definition areaPlayMove ::
  "(real \<Rightarrow> number) \<Rightarrow> cardGameArea \<Rightarrow> string \<Rightarrow> player \<Rightarrow> playableMove \<Rightarrow> (nat \<Rightarrow> nat \<Rightarrow> nat) \<Rightarrow> nat \<Rightarrow>
   cardGameArea outcome" where
  "areaPlayMove pw a gid pl mv rnds now =
     (case find (\<lambda>game. gameId game = gid) (ongoingGames a) of
        None \<Rightarrow> Throws NoGameWithThisId a
      | Some g \<Rightarrow>
          if findIndex (\<lambda>n. n = currentPlayerIdx g) (activePlayers g) = - 1
          then Throws PlayerNotActive a
          else
            (case jsIndex (players g) (currentPlayerIdx g) of
               None \<Rightarrow> Throws TypeError a
             | Some p \<Rightarrow>
                 if Some (playerId p) \<noteq> googleEmail pl then Throws NotThisPlayersTurn a
                 else
                   inArea a gid
                     (andThen (playMove g mv rnds (onGameEnd pw))
                        (\<lambda>g'. Returns (g'\<lparr>moves := moves g' @
                                 [\<lparr>movePlayerId = googleEmail pl, timestamp = now,
                                   move = Playable mv\<rparr>]\<rparr>)))))"

definition skipMove ::
  "cardGameArea \<Rightarrow> string \<Rightarrow> (nat \<Rightarrow> nat \<Rightarrow> nat) \<Rightarrow> nat \<Rightarrow> cardGameArea outcome" where
  "skipMove a gid rnds now =
     (case find (\<lambda>game. gameId game = gid) (ongoingGames a) of
        None \<Rightarrow> Throws NoGameWithThisId a
      | Some g \<Rightarrow>
          if length (activePlayers g) = 0 then Throws CardGameHasEnded a
          else if moves g = [] then Throws TypeError a
          else if now - timestamp (last (moves g)) \<le> MOVE_TIMEOUT then Throws NotEnoughTimePassed a
          else
            (case jsIndex (players g) (currentPlayerIdx g) of
               None \<Rightarrow> Throws TypeError a
             | Some p \<Rightarrow>
                 inArea a gid
                   (playDrawMove rnds
                      (g\<lparr>moves := moves g @
                           [\<lparr>movePlayerId = Some (playerId p), timestamp = now,
                             move = SkipMove\<rparr>]\<rparr>))))"

definition quitOngoingCardGame ::
  "(real \<Rightarrow> number) \<Rightarrow> cardGameArea \<Rightarrow> string \<Rightarrow> player \<Rightarrow> nat \<Rightarrow> cardGameArea outcome" where
  "quitOngoingCardGame pw a gid pl now =
     (case find (\<lambda>game. gameId game = gid) (ongoingGames a) of
        None \<Rightarrow> Throws NoGameWithThisId a
      | Some g \<Rightarrow>
          if googleEmail pl = None then Throws EmailUndefined a
          else inArea a gid (quitCardGame g (googleEmail pl) now (onGameEnd pw)))"

definition spectateCardGame :: "cardGameArea \<Rightarrow> string \<Rightarrow> player \<Rightarrow> cardGameArea outcome" where
  "spectateCardGame a gid pl =
     (case find (\<lambda>game. gameId game = gid) (ongoingGames a) of
        None \<Rightarrow> Throws NoGameWithThisId a
      | Some g \<Rightarrow>
          if list_ex (\<lambda>p. p = playerObjId pl) (spectators g) then Throws AlreadySpectating a
          else Returns (putGame a gid (g\<lparr>spectators := spectators g @ [playerObjId pl]\<rparr>)))"

definition stopSpectatingCardGame ::
  "cardGameArea \<Rightarrow> string \<Rightarrow> player \<Rightarrow> cardGameArea outcome" where
  "stopSpectatingCardGame a gid pl =
     (case find (\<lambda>game. gameId game = gid) (ongoingGames a) of
        None \<Rightarrow> Throws NoGameWithThisId a
      | Some g \<Rightarrow>
          (let spectatorIdx = findIndex (\<lambda>p. p = playerObjId pl) (spectators g) in
           if spectatorIdx = - 1 then Throws NotSpectating a
           else Returns (putGame a gid (g\<lparr>spectators := splice1 (spectators g) spectatorIdx\<rparr>))))"

text \<open>
  The area after answers of the rating store have arrived for the game with id \<open>gid\<close>.
\<close>

definition ratingsArrive :: "cardGameArea \<Rightarrow> string \<Rightarrow> eloRating list \<Rightarrow> cardGameArea" where
  "ratingsArrive a gid elos =
     (case find (\<lambda>game. gameId game = gid) (ongoingGames a) of
        None \<Rightarrow> a
      | Some g \<Rightarrow> putGame a gid (storePrevEloRatings elos g))"

text \<open>\<^verbatim>\<open>remove\<close>, when the last occupant leaves.\<close>

definition clearGames :: "cardGameArea \<Rightarrow> cardGameArea" where
  "clearGames a = a\<lparr>nonStartedGames := [], ongoingGames := []\<rparr>"

subsection \<open>The states an area reaches\<close>

text \<open>
  An area starts empty (\<^verbatim>\<open>fromMapObject\<close>) and changes through the methods that the
  controller calls and through the arrival of the ratings. A method that throws has still
  run, so the state it leaves behind is reached too. (\<^verbatim>\<open>updateModel\<close>, which overwrites
  both lists with whatever model it is handed, is not among them.)
\<close>

definition afterCall :: "'s outcome \<Rightarrow> 's \<Rightarrow> bool" where
  "afterCall r s' \<longleftrightarrow> (case r of Returns s \<Rightarrow> s = s' | Throws e s \<Rightarrow> s = s' | Diverges \<Rightarrow> False)"

inductive reachableArea :: "(real \<Rightarrow> number) \<Rightarrow> cardGameArea \<Rightarrow> bool"
  for pw :: "real \<Rightarrow> number" where
  r_empty: "reachableArea pw \<lparr>nonStartedGames = [], ongoingGames = []\<rparr>"
| r_create: "reachableArea pw a \<Longrightarrow> afterCall (createCardGame a pl newId) a' \<Longrightarrow> reachableArea pw a'"
| r_join: "reachableArea pw a \<Longrightarrow> afterCall (joinCardGame a gid pl) a' \<Longrightarrow> reachableArea pw a'"
| r_leave: "reachableArea pw a \<Longrightarrow> afterCall (leaveNonStartedCardGame a gid pl) a' \<Longrightarrow> reachableArea pw a'"
| r_start: "reachableArea pw a \<Longrightarrow> afterCall (startCardGame a gid color rnds now) a' \<Longrightarrow> reachableArea pw a'"
| r_ratings: "reachableArea pw a \<Longrightarrow> reachableArea pw (ratingsArrive a gid elos)"
| r_play: "reachableArea pw a \<Longrightarrow> afterCall (areaPlayMove pw a gid pl mv rnds now) a' \<Longrightarrow> reachableArea pw a'"
| r_skip: "reachableArea pw a \<Longrightarrow> afterCall (skipMove a gid rnds now) a' \<Longrightarrow> reachableArea pw a'"
| r_quit: "reachableArea pw a \<Longrightarrow> afterCall (quitOngoingCardGame pw a gid pl now) a' \<Longrightarrow> reachableArea pw a'"
| r_spectate: "reachableArea pw a \<Longrightarrow> afterCall (spectateCardGame a gid pl) a' \<Longrightarrow> reachableArea pw a'"
| r_stop: "reachableArea pw a \<Longrightarrow> afterCall (stopSpectatingCardGame a gid pl) a' \<Longrightarrow> reachableArea pw a'"
| r_clear: "reachableArea pw a \<Longrightarrow> reachableArea pw (clearGames a)"

section \<open>Quantities the properties speak of\<close>

text \<open>
  \<open>k\<close> steps from \<open>idx\<close> around the \<open>n\<close> seats: by \<open>+1\<close> with wraparound to \<open>0\<close> when the
  direction is ascending, by \<open>-1\<close> with wraparound to the last index otherwise.
\<close>

definition stepsFrom :: "bool \<Rightarrow> int \<Rightarrow> int \<Rightarrow> nat \<Rightarrow> int" where
  "stepsFrom dir n idx k = (if dir then (idx + int k) mod n else (idx - int k) mod n)"

text \<open>
  The indices of a game are indices into \<^verbatim>\<open>players\<close>, as the declaration of
  \<^verbatim>\<open>OngoingCardGame\<close> says of \<^verbatim>\<open>activePlayers\<close> and \<^verbatim>\<open>currentPlayerIdx\<close>.
\<close>

definition indicesInRange :: "ongoingCardGame \<Rightarrow> bool" where
  "indicesInRange g \<longleftrightarrow>
     list_all (\<lambda>a. 0 \<le> a \<and> a < int (length (players g))) (activePlayers g) \<and>
     0 \<le> currentPlayerIdx g \<and> currentPlayerIdx g < int (length (players g))"

text \<open>
  The invariant of \<^verbatim>\<open>activePlayers\<close>: never exactly one entry, and every entry an index
  into \<^verbatim>\<open>players\<close>.
\<close>

definition seatsOk :: "ongoingCardGame \<Rightarrow> bool" where
  "seatsOk g \<longleftrightarrow>
     length (activePlayers g) \<noteq> 1 \<and>
     list_all (\<lambda>a. 0 \<le> a \<and> a < int (length (players g))) (activePlayers g)"

text \<open>
  In \<^verbatim>\<open>quitCardGame\<close>: the index of the player who quits, and the game once the player
  has left \<^verbatim>\<open>activePlayers\<close> and the quit is on the log.
\<close>

definition quitterIdx :: "ongoingCardGame \<Rightarrow> string option \<Rightarrow> int" where
  "quitterIdx g pid = findIndex (\<lambda>p. Some (playerId p) = pid) (players g)"

definition quitLogged :: "ongoingCardGame \<Rightarrow> string option \<Rightarrow> nat \<Rightarrow> ongoingCardGame" where
  "quitLogged g pid now =
     g\<lparr>activePlayers := splice1 (activePlayers g)
          (findIndex (\<lambda>n. n = quitterIdx g pid) (activePlayers g)),
       moves := moves g @
          [\<lparr>movePlayerId = Some (playerId (players g ! nat (quitterIdx g pid))),
            timestamp = now, move = QuitMove\<rparr>]\<rparr>"

definition gamesOk :: "cardGameArea \<Rightarrow> bool" where
  "gamesOk a \<longleftrightarrow> list_all seatsOk (ongoingGames a)"

text \<open>Two states with the same players, active players and winners.\<close>

definition sameSeats :: "ongoingCardGame \<Rightarrow> ongoingCardGame \<Rightarrow> bool" where
  "sameSeats g g' \<longleftrightarrow>
     activePlayers g' = activePlayers g \<and> players g' = players g \<and> winners g' = winners g"

text \<open>
  In \<^verbatim>\<open>playMove\<close>: \<^verbatim>\<open>activeIdx\<close>, the position of the current player in
  \<^verbatim>\<open>activePlayers\<close>; \<^verbatim>\<open>curHand\<close>, the current player's hand (empty here when there is none);
  and the game with the colour a wild card was played with.
\<close>

definition currentActiveIdx :: "ongoingCardGame \<Rightarrow> int" where
  "currentActiveIdx g = findIndex (\<lambda>n. n = currentPlayerIdx g) (activePlayers g)"

definition currentHand :: "ongoingCardGame \<Rightarrow> card list" where
  "currentHand g = (case jsIndex (hands g) (currentPlayerIdx g) of Some hand \<Rightarrow> hand | None \<Rightarrow> [])"

definition withColor :: "ongoingCardGame \<Rightarrow> playableMove \<Rightarrow> card \<Rightarrow> ongoingCardGame" where
  "withColor g mv curCard =
     (case moveColor mv of
        Some col \<Rightarrow> if isWild curCard then g\<lparr>currentColor := col\<rparr> else g
      | None \<Rightarrow> g)"

text \<open>
  In the loop of \<^verbatim>\<open>startCardGame\<close>: the deck of attempt \<open>j + m\<close>, when \<open>cards\<close> is the
  deck before attempt \<open>j\<close>.
\<close>

fun laterDeck :: "(nat \<Rightarrow> nat \<Rightarrow> nat) \<Rightarrow> nat \<Rightarrow> card list \<Rightarrow> nat \<Rightarrow> card list" where
  "laterDeck rnds j cards 0 = shuffleCards (rnds j) cards"
| "laterDeck rnds j cards (Suc m) = laterDeck rnds (Suc j) (shuffleCards (rnds j) cards) m"

text \<open>
  The rating formula as the specification states it, over the real numbers: the expected
  score is the sum, over the other players' prior ratings, of
  \<open>1 / (1 + 10 ^ ((opponent - self) / 400))\<close>, divided by \<open>C(n, 2)\<close>; the actual score is
  \<open>(n - rank - 1) / C(n, 2)\<close>; the new rating is the nearest integer to the prior rating
  plus \<open>50 * (n - 1) * (actual - expected)\<close>.
\<close>

definition claimedExpectedScore :: "real \<Rightarrow> real list \<Rightarrow> nat \<Rightarrow> real" where
  "claimedExpectedScore selfRating opponents n =
     (\<Sum>r\<leftarrow>opponents. 1 / (1 + 10 powr ((r - selfRating) / 400))) / real (n choose 2)"

definition claimedActualScore :: "nat \<Rightarrow> nat \<Rightarrow> real" where
  "claimedActualScore n rank = (real n - real rank - 1) / real (n choose 2)"

definition claimedNewRating :: "real \<Rightarrow> real list \<Rightarrow> nat \<Rightarrow> nat \<Rightarrow> int" where
  "claimedNewRating prior opponents n rank =
     \<lfloor>prior + 50 * (real n - 1) *
        (claimedActualScore n rank - claimedExpectedScore prior opponents n) + 1 / 2\<rfloor>"

text \<open>
  The same formula in the arithmetic of Numbers: every operation is rounded to a double,
  the sum is taken from \<^verbatim>\<open>0\<close> in the order of the opponents, the product is
  \<open>(50 * (n - 1)) * (actual - expected)\<close>, and the result goes through \<^verbatim>\<open>Math.round\<close>.
\<close>

definition specExpectedScore ::
  "(real \<Rightarrow> number) \<Rightarrow> number \<Rightarrow> number list \<Rightarrow> nat \<Rightarrow> number" where
  "specExpectedScore pw selfRating opponents n =
     numDiv
       (foldl numAdd (Finite 0)
          (map (\<lambda>r. numDiv (Finite 1)
                       (numAdd (Finite 1)
                          (tenToThe pw (numDiv (numSub r selfRating) (Finite 400)))))
             opponents))
       (ofNat (n choose 2))"

definition specActualScore :: "nat \<Rightarrow> nat \<Rightarrow> number" where
  "specActualScore n rank =
     numDiv (numSub (numSub (ofNat n) (ofNat rank)) (Finite 1)) (ofNat (n choose 2))"

definition specNewRating ::
  "(real \<Rightarrow> number) \<Rightarrow> number \<Rightarrow> number list \<Rightarrow> nat \<Rightarrow> nat \<Rightarrow> number" where
  "specNewRating pw prior opponents n rank =
     mathRound
       (numAdd prior
          (numMul (numMul (Finite 50) (numSub (ofNat n) (Finite 1)))
             (numSub (specActualScore n rank) (specExpectedScore pw prior opponents n))))"

text \<open>
  The prior ratings of the players other than \<open>pid\<close>, and the state of a game whose
  prior ratings have arrived: one per player, in the order of the players.
\<close>

definition opponentRatings :: "string \<Rightarrow> ongoingCardGame \<Rightarrow> number list" where
  "opponentRatings pid g =
     map rating (filter (\<lambda>elo. eloPlayerId elo \<noteq> pid) (prevEloRatings g))"

definition ratingsLoaded :: "ongoingCardGame \<Rightarrow> bool" where
  "ratingsLoaded g \<longleftrightarrow> map eloPlayerId (prevEloRatings g) = map playerId (players g)"

text \<open>
  The rank of the player with index \<open>k\<close> at the end: the position in \<^verbatim>\<open>winners\<close>, or
  \<^verbatim>\<open>winners.length\<close> for a player never added to it. The standings list the players by
  rank: the winners in their order, then the others in the order of \<^verbatim>\<open>players\<close>.
\<close>

definition finalRank :: "ongoingCardGame \<Rightarrow> int \<Rightarrow> nat" where
  "finalRank g k =
     (if k \<in> set (winners g) then nat (findIndex (\<lambda>w. w = k) (winners g))
      else length (winners g))"

definition standings :: "ongoingCardGame \<Rightarrow> nat list" where
  "standings g =
     map nat (winners g) @ filter (\<lambda>k. int k \<notin> set (winners g)) [0..<length (players g)]"

text \<open>
  The rating change of the player with index \<open>k\<close> at a rank: the player's id and name
  (\<^verbatim>\<open>'Anonymous'\<close> for an empty name), the prior rating, and the new rating by the formula.
\<close>

definition specChange ::
  "(real \<Rightarrow> number) \<Rightarrow> ongoingCardGame \<Rightarrow> nat \<Rightarrow> nat \<Rightarrow> eloRatingChange" where
  "specChange pw g k rank =
     \<lparr>changePlayer =
        \<lparr>playerId = playerId (players g ! k),
         username = (if username (players g ! k) = [] then ''Anonymous''
                     else username (players g ! k))\<rparr>,
      prevElo = rating (prevEloRatings g ! k),
      newElo = specNewRating pw (rating (prevEloRatings g ! k))
                 (opponentRatings (playerId (players g ! k)) g) (length (players g)) rank\<rparr>"

text \<open>The rating changes of all players, in the order of the standings.\<close>

definition specChanges :: "(real \<Rightarrow> number) \<Rightarrow> ongoingCardGame \<Rightarrow> eloRatingChange list" where
  "specChanges pw g = map (\<lambda>k. specChange pw g k (finalRank g (int k))) (standings g)"

text \<open>Where the cards of a game are: the deck, the discard pile and the hands.\<close>

definition cardsOf :: "ongoingCardGame \<Rightarrow> card list \<times> card list \<times> card list list" where
  "cardsOf g = (deck g, discardPile g, hands g)"

text \<open>The number of cards in the three places together.\<close>

definition totalCards :: "ongoingCardGame \<Rightarrow> nat" where
  "totalCards g = length (deck g) + length (discardPile g) + sum_list (map length (hands g))"

text \<open>
  The operations of a game in play, each with the inputs it reads from outside (random
  numbers for a reshuffle, the clock for the log); \<open>applyOps\<close> runs them in order and
  stops at the first that does not return.
\<close>

datatype gameOp =
    PlayOp playableMove "nat \<Rightarrow> nat \<Rightarrow> nat"
  | SkipOp "nat \<Rightarrow> nat \<Rightarrow> nat"
  | QuitOp "string option" nat

fun applyOp ::
  "(ongoingCardGame \<Rightarrow> ongoingCardGame outcome) \<Rightarrow> ongoingCardGame \<Rightarrow> gameOp \<Rightarrow>
   ongoingCardGame outcome" where
  "applyOp callback g (PlayOp mv rnds) = playMove g mv rnds callback"
| "applyOp callback g (SkipOp rnds) = playDrawMove rnds g"
| "applyOp callback g (QuitOp pid now) = quitCardGame g pid now callback"

fun applyOps ::
  "(ongoingCardGame \<Rightarrow> ongoingCardGame outcome) \<Rightarrow> ongoingCardGame \<Rightarrow> gameOp list \<Rightarrow>
   ongoingCardGame outcome" where
  "applyOps callback g [] = Returns g"
| "applyOps callback g (op # ops) = andThen (applyOp callback g op) (\<lambda>g'. applyOps callback g' ops)"

text \<open>
  The card a play move names: \<^verbatim>\<open>hands[currentPlayerIdx][move.card]\<close>, \<open>None\<close> when the
  index is not a valid index into the current player's hand.
\<close>

definition playedCard :: "ongoingCardGame \<Rightarrow> int \<Rightarrow> card option" where
  "playedCard g c =
     (case jsIndex (hands g) (currentPlayerIdx g) of None \<Rightarrow> None | Some hand \<Rightarrow> jsIndex hand c)"

text \<open>
  The reasons for which a play move is to be rejected: no card index, a pending draw,
  an index that names no card of the hand, a wild card without a replacement colour, a
  coloured card of another colour than the current one.
\<close>

definition rejected :: "ongoingCardGame \<Rightarrow> playableMove \<Rightarrow> bool" where
  "rejected g mv \<longleftrightarrow>
     (case moveCard mv of
        None \<Rightarrow> True
      | Some c \<Rightarrow>
          lastDrawPlayed g \<noteq> None \<or>
          (case playedCard g c of
             None \<Rightarrow> True
           | Some curCard \<Rightarrow>
               if isWild curCard then moveColor mv = None
               else colorOf curCard \<noteq> Some (currentColor g)))"

text \<open>The exception each reason raises, the first of them when several apply.\<close>

definition rejectionError :: "ongoingCardGame \<Rightarrow> playableMove \<Rightarrow> error" where
  "rejectionError g mv =
     (case moveCard mv of
        None \<Rightarrow> MustSpecifyCard
      | Some c \<Rightarrow>
          if lastDrawPlayed g \<noteq> None then DrawMustBePlayed
          else (case playedCard g c of
                  None \<Rightarrow> TypeError
                | Some curCard \<Rightarrow> if isWild curCard then WildWithoutColor else DifferentColor))"

section \<open>Example games\<close>

definition alice :: cardGamePlayer where
  "alice = \<lparr>playerId = ''alice@example.com'', username = ''Alice''\<rparr>"

definition bob :: cardGamePlayer where
  "bob = \<lparr>playerId = ''bob@example.com'', username = ''Bob''\<rparr>"

definition carol :: cardGamePlayer where
  "carol = \<lparr>playerId = ''carol@example.com'', username = ''Carol''\<rparr>"

definition eloOf :: "cardGamePlayer \<Rightarrow> eloRating" where
  "eloOf p = \<lparr>eloPlayerId = playerId p, eloUsername = username p, rating = Finite 1000, numPlayed = 0\<rparr>"

text \<open>Three players, Alice to move on a red 5, the direction ascending.\<close>

definition threePlayerGame :: ongoingCardGame where
  "threePlayerGame =
     \<lparr>gameId = ''game'',
      players = [alice, bob, carol],
      activePlayers = [0, 1, 2],
      spectators = [],
      winners = [],
      hands = [[NumberCard ''red'' 3, ReverseCard ''red'', WildCard],
               [SkipCard ''blue'', NumberCard ''red'' 9],
               [NumberCard ''green'' 7]],
      moves = [],
      deck = [NumberCard ''yellow'' 1, NumberCard ''yellow'' 2],
      discardPile = [NumberCard ''red'' 5],
      currentColor = ''red'',
      lastDrawPlayed = None,
      currentPlayerIdx = 0,
      playerDirection = True,
      prevEloRatings = [eloOf alice, eloOf bob, eloOf carol],
      eloRatingChanges = [],
      cardsDrawnDuringGame = [],
      startingTopCardDiscardPile = NumberCard ''red'' 5,
      initialHands = [],
      startTime = 0\<rparr>"

text \<open>Two players, Alice to move.\<close>

definition twoPlayerGame :: ongoingCardGame where
  "twoPlayerGame =
     threePlayerGame
       \<lparr>players := [alice, bob],
        activePlayers := [0, 1],
        hands := [[NumberCard ''red'' 3, ReverseCard ''red'', WildCard],
                  [SkipCard ''blue'', NumberCard ''red'' 9]],
        prevEloRatings := [eloOf alice, eloOf bob]\<rparr>"

definition aliceUser :: player where
  "aliceUser = \<lparr>playerObjId = ''p1'', googleEmail = Some ''alice@example.com'',
                 googleAccountName = Some ''Alice''\<rparr>"

definition bobUser :: player where
  "bobUser = \<lparr>playerObjId = ''p2'', googleEmail = Some ''bob@example.com'',
               googleAccountName = Some ''Bob''\<rparr>"

definition twoPlayerArea :: cardGameArea where
  "twoPlayerArea = \<lparr>nonStartedGames = [], ongoingGames = [twoPlayerGame]\<rparr>"

text \<open>A pending game of Alice and Bob.\<close>

definition pendingArea :: cardGameArea where
  "pendingArea =
     \<lparr>nonStartedGames = [\<lparr>nsId = ''game'', nsPlayers = [alice, bob]\<rparr>], ongoingGames = []\<rparr>"

text \<open>
  Random numbers for a deal that fails: in the first shuffle the card at index 14 (the
  card turned over after two hands of seven) is swapped with the card at index 64, the
  first wild card of the new deck; nothing else ever moves.
\<close>

definition wildOnTop :: "nat \<Rightarrow> nat \<Rightarrow> nat" where
  "wildOnTop j i = (if j = 0 \<and> i = 14 then 50 else 0)"

text \<open>Random numbers that are all zero: every shuffle leaves the cards as they are.\<close>

definition noShuffle :: "nat \<Rightarrow> nat \<Rightarrow> nat" where
  "noShuffle j i = 0"

text \<open>An engine whose \<^verbatim>\<open>**\<close> is the correctly rounded power.\<close>

definition nearestPower :: "real \<Rightarrow> number" where
  "nearestPower x = roundDouble False (10 powr x)"

text \<open>
  The two-player game at its end, Bob the winner and Alice second, before the ratings are
  computed.
\<close>

definition bobWins :: ongoingCardGame where
  "bobWins = twoPlayerGame\<lparr>winners := [1, 0], activePlayers := []\<rparr>"

text \<open>
  The two-player game while the answers of the rating store are outstanding
  (\<^verbatim>\<open>prevEloRatings\<close> is empty, as \<^verbatim>\<open>startCardGame\<close> sets it); and the game at its end
  when both players are rated \<open>2 ^ 53\<close>.
\<close>

definition unratedGame :: ongoingCardGame where
  "unratedGame = twoPlayerGame\<lparr>prevEloRatings := []\<rparr>"

definition highRatedGame :: ongoingCardGame where
  "highRatedGame =
     bobWins\<lparr>prevEloRatings :=
       [\<lparr>eloPlayerId = ''alice@example.com'', eloUsername = ''Alice'',
         rating = Finite 9007199254740992, numPlayed = 0\<rparr>,
        \<lparr>eloPlayerId = ''bob@example.com'', eloUsername = ''Bob'',
         rating = Finite 9007199254740992, numPlayed = 0\<rparr>]\<rparr>"

section \<open>Deck construction\<close>

lemma count_list_map_NumberCard:
  "count_list (map (NumberCard c) [0..<n]) x =
     (case x of NumberCard c' v \<Rightarrow> if c' = c \<and> v < n then 1 else 0 | _ \<Rightarrow> 0)"
  by (induction n) (auto split: card.splits)

lemma count_list_colorCards:
  "count_list (colorCards c) x =
     (case x of
        NumberCard c' v \<Rightarrow> if c' = c \<and> v < 10 then 1 else 0
      | DrawTwoCard c' \<Rightarrow> if c' = c then 2 else 0
      | ReverseCard c' \<Rightarrow> if c' = c then 2 else 0
      | SkipCard c' \<Rightarrow> if c' = c then 2 else 0
      | _ \<Rightarrow> 0)"
  by (simp add: colorCards_def count_list_map_NumberCard numeral_2_eq_2 split: card.splits)

lemma length_colorCards: "length (colorCards c) = 16"
  by (simp add: colorCards_def numeral_2_eq_2)

lemma length_genUnoDeck_None: "length (genUnoDeck None) = 72"
  by (simp add: genUnoDeck_def ALL_CARD_COLORS_def length_colorCards numeral_eq_Suc)

lemma length_genUnoDeck_Some: "length (genUnoDeck (Some c)) = 64"
  by (simp add: genUnoDeck_def ALL_CARD_COLORS_def length_colorCards)

lemma count_genUnoDeck_None: "count_list (genUnoDeck None) x = fullDeckCount x"
  by (cases x)
     (auto simp: genUnoDeck_def ALL_CARD_COLORS_def actualColor_def count_list_colorCards
        RED_def YELLOW_def BLUE_def GREEN_def numeral_eq_Suc)

lemma count_genUnoDeck_Some:
  "c \<noteq> [] \<Longrightarrow> count_list (genUnoDeck (Some c)) x = singleColorCount c x"
  by (cases x)
     (auto simp: genUnoDeck_def ALL_CARD_COLORS_def actualColor_def count_list_colorCards)

lemma no_wild_genUnoDeck_Some:
  "WildCard \<notin> set (genUnoDeck (Some c))" "WildDrawFourCard \<notin> set (genUnoDeck (Some c))"
  by (auto simp: genUnoDeck_def ALL_CARD_COLORS_def colorCards_def numeral_2_eq_2)

text \<open>
  C1 (as amended). With no colour filter \<^verbatim>\<open>genUnoDeck\<close> returns exactly 72 cards with
  exactly the stated multiplicities (per colour one of each value 0 to 9 and two each of
  draw-two, reverse and skip; four wild, four wild-draw-four). With a colour filter it
  returns exactly 64 cards, never 16, none of them wild; for a non-empty colour string
  they are four copies of each number card 0 to 9 and eight each of draw-two, reverse and
  skip, all of that colour.
\<close>

theorem genUnoDeck_composition:
  "length (genUnoDeck None) = 72 \<and>
   (\<forall>x. count_list (genUnoDeck None) x = fullDeckCount x) \<and>
   (\<forall>c. length (genUnoDeck (Some c)) = 64 \<and>
        WildCard \<notin> set (genUnoDeck (Some c)) \<and>
        WildDrawFourCard \<notin> set (genUnoDeck (Some c)) \<and>
        (c \<noteq> [] \<longrightarrow> (\<forall>x. count_list (genUnoDeck (Some c)) x = singleColorCount c x)))"
  using length_genUnoDeck_None count_genUnoDeck_None length_genUnoDeck_Some
    no_wild_genUnoDeck_Some count_genUnoDeck_Some
  by blast

theorem genUnoDeck_composition_witness:
  "length (genUnoDeck (Some ''red'')) = 64 \<and>
   count_list (genUnoDeck (Some ''red'')) (NumberCard ''red'' 5) = 4 \<and>
   count_list (genUnoDeck (Some ''red'')) (SkipCard ''red'') = 8 \<and>
   count_list (genUnoDeck (Some ''red'')) (SkipCard ''blue'') = 0 \<and>
   count_list (genUnoDeck None) (NumberCard ''red'' 5) = 1 \<and>
   count_list (genUnoDeck None) WildCard = 4"
  using genUnoDeck_composition
  by (simp add: ALL_CARD_COLORS_def RED_def YELLOW_def BLUE_def GREEN_def)

theorem genUnoDeck_single_color_counterexample:
  "length (genUnoDeck (Some ''red'')) \<noteq> 16"
  by (simp add: length_genUnoDeck_Some)

section \<open>Turn advancement\<close>

lemma advanceLoop_first:
  "0 < k \<Longrightarrow> (advanceStep dir n ^^ k) idx \<in> set act \<Longrightarrow>
   (\<forall>j. 0 < j \<and> j < k \<longrightarrow> (advanceStep dir n ^^ j) idx \<notin> set act) \<Longrightarrow>
   advanceLoop dir n act idx = Some ((advanceStep dir n ^^ k) idx)"
proof (induction k arbitrary: idx)
  case 0
  then show ?case by simp
next
  case (Suc k)
  show ?case
  proof (cases "k = 0")
    case True
    with Suc.prems show ?thesis
      by (subst advanceLoop.simps) simp
  next
    case False
    from Suc.prems(3) False have notin: "advanceStep dir n idx \<notin> set act"
      by (metis Suc_lessI funpow_0 less_Suc0 o_apply zero_less_Suc funpow.simps(2) lessI)
    have step: "(advanceStep dir n ^^ j) (advanceStep dir n idx) = (advanceStep dir n ^^ Suc j) idx" for j
      by (simp add: funpow_swap1)
    have "advanceLoop dir n act (advanceStep dir n idx) =
          Some ((advanceStep dir n ^^ k) (advanceStep dir n idx))"
    proof (rule Suc.IH)
      show "0 < k" using False by simp
      show "(advanceStep dir n ^^ k) (advanceStep dir n idx) \<in> set act"
        using Suc.prems(2) step by simp
      show "\<forall>j. 0 < j \<and> j < k \<longrightarrow> (advanceStep dir n ^^ j) (advanceStep dir n idx) \<notin> set act"
        using Suc.prems(3) step by (metis Suc_less_eq zero_less_Suc)
    qed
    with notin step show ?thesis
      by (subst advanceLoop.simps) simp
  qed
qed

lemma advanceStep_up:
  "0 \<le> idx \<Longrightarrow> idx < n \<Longrightarrow> (advanceStep True n ^^ k) idx = (idx + int k) mod n"
proof (induction k)
  case 0
  then show ?case by simp
next
  case (Suc k)
  let ?m = "(idx + int k) mod n"
  have r: "0 \<le> ?m" "?m < n" using Suc.prems by simp_all
  have "(idx + int (Suc k)) mod n = (?m + 1) mod n"
    by (metis add.assoc mod_add_left_eq of_nat_Suc add.commute)
  also have "\<dots> = (if ?m + 1 = n then 0 else ?m + 1)"
    using r by auto
  finally show ?case using Suc by (simp add: advanceStep_def)
qed

lemma advanceStep_down:
  "0 \<le> idx \<Longrightarrow> idx < n \<Longrightarrow> (advanceStep False n ^^ k) idx = (idx - int k) mod n"
proof (induction k)
  case 0
  then show ?case by simp
next
  case (Suc k)
  let ?m = "(idx - int k) mod n"
  have r: "0 \<le> ?m" "?m < n" using Suc.prems by simp_all
  have "(idx - int (Suc k)) mod n = (?m - 1) mod n"
    by (metis diff_diff_eq mod_diff_left_eq of_nat_Suc add.commute)
  also have "\<dots> = (if ?m - 1 < 0 then n - 1 else ?m - 1)"
  proof (cases "?m = 0")
    case True
    then have "(?m - 1) mod n = (- 1) mod n" by simp
    also have "\<dots> = n - 1" using Suc.prems by (simp add: zmod_minus1)
    finally show ?thesis using True by simp
  next
    case False
    with r show ?thesis by auto
  qed
  finally show ?case using Suc by (simp add: advanceStep_def)
qed

lemma advanceStep_funpow:
  "0 \<le> idx \<Longrightarrow> idx < n \<Longrightarrow> (advanceStep dir n ^^ k) idx = stepsFrom dir n idx k"
  by (cases dir) (simp_all add: stepsFrom_def advanceStep_up advanceStep_down)

lemma reach_active:
  assumes "0 \<le> idx" "idx < n" "0 \<le> a" "a < n"
  shows "\<exists>k. 0 < k \<and> k \<le> nat n \<and> stepsFrom dir n idx k = a"
proof -
  have same: "stepsFrom dir n idx (nat n) = idx"
    using assms by (simp add: stepsFrom_def)
  consider "a = idx" | "idx < a" | "a < idx" by linarith
  then show ?thesis
  proof cases
    case 1
    with same assms show ?thesis by (intro exI[of _ "nat n"]) simp
  next
    case 2
    show ?thesis
    proof (cases dir)
      case True
      with 2 assms show ?thesis
        by (intro exI[of _ "nat (a - idx)"]) (simp add: stepsFrom_def)
    next
      case False
      have "(idx - int (nat (idx + n - a))) mod n = (a - n) mod n"
        using 2 assms by (simp add: algebra_simps)
      also have "\<dots> = a" using assms by simp
      finally show ?thesis using False 2 assms
        by (intro exI[of _ "nat (idx + n - a)"]) (simp add: stepsFrom_def)
    qed
  next
    case 3
    show ?thesis
    proof (cases dir)
      case False
      with 3 assms show ?thesis
        by (intro exI[of _ "nat (idx - a)"]) (simp add: stepsFrom_def)
    next
      case True
      have "(idx + int (nat (n - idx + a))) mod n = (a + n) mod n"
        using 3 assms by (simp add: algebra_simps)
      also have "\<dots> = a" using assms by simp
      finally show ?thesis using True 3 assms
        by (intro exI[of _ "nat (n - idx + a)"]) (simp add: stepsFrom_def)
    qed
  qed
qed

lemma advanceLoop_returns:
  assumes "0 \<le> idx" "idx < n" "a \<in> set act" "0 \<le> a" "a < n"
  shows "\<exists>k. 0 < k \<and> k \<le> nat n \<and>
             advanceLoop dir n act idx = Some (stepsFrom dir n idx k) \<and>
             stepsFrom dir n idx k \<in> set act \<and>
             (\<forall>j. 0 < j \<and> j < k \<longrightarrow> stepsFrom dir n idx j \<notin> set act)"
proof -
  let ?P = "\<lambda>k. 0 < k \<and> stepsFrom dir n idx k \<in> set act"
  from reach_active[OF assms(1,2,4,5), of dir] assms(3)
  obtain k0 where k0: "?P k0" "k0 \<le> nat n" by auto
  define k where "k = (LEAST k. ?P k)"
  have Pk: "?P k" unfolding k_def using k0(1) by (rule LeastI)
  have le: "k \<le> k0" unfolding k_def using k0(1) by (rule Least_le)
  have min: "\<forall>j. 0 < j \<and> j < k \<longrightarrow> stepsFrom dir n idx j \<notin> set act"
    unfolding k_def using not_less_Least by blast
  have "advanceLoop dir n act idx = Some ((advanceStep dir n ^^ k) idx)"
    by (rule advanceLoop_first) (use Pk min assms in \<open>simp_all add: advanceStep_funpow\<close>)
  with Pk le k0(2) min assms show ?thesis
    by (intro exI[of _ k]) (simp add: advanceStep_funpow)
qed

lemma advanceMove_returns:
  assumes "activePlayers g \<noteq> []" "indicesInRange g"
  shows "\<exists>k. 0 < k \<and> k \<le> length (players g) \<and>
           advanceMove g =
             Returns (g\<lparr>currentPlayerIdx :=
                stepsFrom (playerDirection g) (int (length (players g))) (currentPlayerIdx g) k\<rparr>) \<and>
           stepsFrom (playerDirection g) (int (length (players g))) (currentPlayerIdx g) k =
             (advanceStep (playerDirection g) (int (length (players g))) ^^ k) (currentPlayerIdx g) \<and>
           stepsFrom (playerDirection g) (int (length (players g))) (currentPlayerIdx g) k
             \<in> set (activePlayers g) \<and>
           (\<forall>j. 0 < j \<and> j < k \<longrightarrow>
              stepsFrom (playerDirection g) (int (length (players g))) (currentPlayerIdx g) j
                \<notin> set (activePlayers g))"
proof -
  from assms(1) obtain a where a: "a \<in> set (activePlayers g)"
    by (cases "activePlayers g") auto
  with assms(2) have ra: "0 \<le> a" "a < int (length (players g))"
    by (auto simp: indicesInRange_def list_all_iff)
  from assms(2) have ri: "0 \<le> currentPlayerIdx g" "currentPlayerIdx g < int (length (players g))"
    by (auto simp: indicesInRange_def)
  from advanceLoop_returns[OF ri a ra, of "playerDirection g"]
  obtain k where k: "0 < k" "k \<le> nat (int (length (players g)))"
    "advanceLoop (playerDirection g) (int (length (players g))) (activePlayers g) (currentPlayerIdx g)
       = Some (stepsFrom (playerDirection g) (int (length (players g))) (currentPlayerIdx g) k)"
    "stepsFrom (playerDirection g) (int (length (players g))) (currentPlayerIdx g) k
       \<in> set (activePlayers g)"
    "\<forall>j. 0 < j \<and> j < k \<longrightarrow>
       stepsFrom (playerDirection g) (int (length (players g))) (currentPlayerIdx g) j
         \<notin> set (activePlayers g)"
    by blast
  show ?thesis
    using k assms(1) ri
    by (intro exI[of _ k]) (simp add: advanceMove_def advanceStep_funpow)
qed

text \<open>
  C4. When \<^verbatim>\<open>activePlayers\<close> is empty \<^verbatim>\<open>advanceMove\<close> returns the game as it is. When it is
  not empty, and \<^verbatim>\<open>activePlayers\<close> and \<^verbatim>\<open>currentPlayerIdx\<close> are indices into \<^verbatim>\<open>players\<close>
  (the current index need not be an active one), \<^verbatim>\<open>advanceMove\<close> returns after \<open>k\<close>
  passes of its loop, \<open>0 < k \<le> players.length\<close>, having changed \<^verbatim>\<open>currentPlayerIdx\<close> and
  nothing else; the new index is \<open>k\<close> steps from the old one (by \<open>+1\<close> with wraparound to
  \<open>0\<close> when \<^verbatim>\<open>playerDirection\<close> is true, by \<open>-1\<close> with wraparound to the last index when
  it is false), it is a member of \<^verbatim>\<open>activePlayers\<close>, and no index passed on the way is.
\<close>

theorem advanceMove_lands_on_active_player:
  "(activePlayers g = [] \<longrightarrow> advanceMove g = Returns g) \<and>
   (activePlayers g \<noteq> [] \<and> indicesInRange g \<longrightarrow>
      (\<exists>k. 0 < k \<and> k \<le> length (players g) \<and>
         advanceMove g =
           Returns (g\<lparr>currentPlayerIdx :=
              stepsFrom (playerDirection g) (int (length (players g))) (currentPlayerIdx g) k\<rparr>) \<and>
         stepsFrom (playerDirection g) (int (length (players g))) (currentPlayerIdx g) k =
           (advanceStep (playerDirection g) (int (length (players g))) ^^ k) (currentPlayerIdx g) \<and>
         stepsFrom (playerDirection g) (int (length (players g))) (currentPlayerIdx g) k
           \<in> set (activePlayers g) \<and>
         (\<forall>j. 0 < j \<and> j < k \<longrightarrow>
            stepsFrom (playerDirection g) (int (length (players g))) (currentPlayerIdx g) j
              \<notin> set (activePlayers g))))"
  using advanceMove_returns[of g] by (simp add: advanceMove_def)

text \<open>
  Bob (index 1) has left a three-player game on his own turn: the turn moves on to an
  active player.
\<close>

theorem advanceMove_lands_on_active_player_witness:
  "\<exists>g'. advanceMove (threePlayerGame\<lparr>activePlayers := [0, 2], currentPlayerIdx := 1\<rparr>) = Returns g' \<and>
        currentPlayerIdx g' \<in> {0, 2}"
  using advanceMove_lands_on_active_player
          [of "threePlayerGame\<lparr>activePlayers := [0, 2], currentPlayerIdx := 1\<rparr>"]
  by (auto simp: threePlayerGame_def indicesInRange_def)

section \<open>Rejected play moves\<close>

lemma playMove_rejected:
  "moveType mv = PLAY \<Longrightarrow> rejected g mv \<Longrightarrow>
   playMove g mv rnds callback = Throws (rejectionError g mv) g"
  by (auto simp: playMove_def rejected_def rejectionError_def playedCard_def isWild_def
        DRAW_def PLAY_def split: option.splits if_splits)

lemma replaceFirst_same: "find P xs = Some x \<Longrightarrow> replaceFirst P x xs = xs"
  by (induction xs) (auto split: if_splits)

lemma putGame_same:
  "find (\<lambda>game. gameId game = gid) (ongoingGames a) = Some g \<Longrightarrow> putGame a gid g = a"
  by (simp add: putGame_def replaceFirst_same)

lemma areaPlayMove_rejected:
  "moveType mv = PLAY \<Longrightarrow> rejected g mv \<Longrightarrow>
   find (\<lambda>game. gameId game = gid) (ongoingGames a) = Some g \<Longrightarrow>
   \<exists>e. areaPlayMove pw a gid pl mv rnds now = Throws e a"
  by (auto simp: areaPlayMove_def playMove_rejected andThen_def inArea_def putGame_same
        split: option.splits)

text \<open>
  C3. A play-card move on an ongoing game is rejected when it names no card
  (\<open>MustSpecifyCard\<close>), when a draw is pending (\<open>DrawMustBePlayed\<close>), when the index names
  no card of the current player's hand (the \<open>TypeError\<close> of reading \<^verbatim>\<open>.type\<close> of
  \<^verbatim>\<open>undefined\<close>, which the controller reports like every other \<^verbatim>\<open>Error\<close>), when a wild
  card comes without a colour (\<open>WildWithoutColor\<close>) and when a coloured card has another
  colour than the current one (\<open>DifferentColor\<close>). In each case \<^verbatim>\<open>playMove\<close> of
  \<^verbatim>\<open>common.ts\<close> throws with the game exactly as it was, and \<^verbatim>\<open>playMove\<close> of the area
  throws with the whole area exactly as it was: hands, discard pile, current colour, turn
  and the move log included.
\<close>

theorem play_move_rejected_atomically:
  "moveType mv = PLAY \<and> rejected g mv \<longrightarrow>
     playMove g mv rnds callback = Throws (rejectionError g mv) g \<and>
     (find (\<lambda>game. gameId game = gid) (ongoingGames a) = Some g \<longrightarrow>
        (\<exists>e. areaPlayMove pw a gid pl mv rnds now = Throws e a))"
  using playMove_rejected areaPlayMove_rejected by blast

text \<open>
  Alice, holding three cards, names card 7; she plays her wild card without a colour;
  and, through the area, she plays a card while she owes a draw.
\<close>

theorem play_move_rejected_atomically_witness:
  "playMove twoPlayerGame \<lparr>moveType = False, moveCard = Some 7, moveColor = None\<rparr>
     noShuffle (onGameEnd nearestPower) = Throws TypeError twoPlayerGame \<and>
   playMove twoPlayerGame \<lparr>moveType = False, moveCard = Some 2, moveColor = None\<rparr>
     noShuffle (onGameEnd nearestPower) = Throws WildWithoutColor twoPlayerGame \<and>
   (\<exists>e. areaPlayMove nearestPower (twoPlayerArea\<lparr>ongoingGames := [twoPlayerGame\<lparr>lastDrawPlayed := Some 2\<rparr>]\<rparr>)
          ''game'' aliceUser \<lparr>moveType = False, moveCard = Some 0, moveColor = None\<rparr> noShuffle 5
        = Throws e (twoPlayerArea\<lparr>ongoingGames := [twoPlayerGame\<lparr>lastDrawPlayed := Some 2\<rparr>]\<rparr>))"
proof -
  have 1: "playMove twoPlayerGame \<lparr>moveType = False, moveCard = Some 7, moveColor = None\<rparr>
     noShuffle (onGameEnd nearestPower) = Throws TypeError twoPlayerGame"
    using play_move_rejected_atomically
      [where mv = "\<lparr>moveType = False, moveCard = Some 7, moveColor = None\<rparr>"
          and g = twoPlayerGame and rnds = noShuffle and callback = "onGameEnd nearestPower"
          and gid = "''game''" and a = twoPlayerArea and pl = aliceUser and now = 5
          and pw = nearestPower]
    by (simp add: PLAY_def rejected_def rejectionError_def playedCard_def jsIndex_def
          twoPlayerGame_def threePlayerGame_def)
  have 2: "playMove twoPlayerGame \<lparr>moveType = False, moveCard = Some 2, moveColor = None\<rparr>
     noShuffle (onGameEnd nearestPower) = Throws WildWithoutColor twoPlayerGame"
    using play_move_rejected_atomically
      [where mv = "\<lparr>moveType = False, moveCard = Some 2, moveColor = None\<rparr>"
          and g = twoPlayerGame and rnds = noShuffle and callback = "onGameEnd nearestPower"
          and gid = "''game''" and a = twoPlayerArea and pl = aliceUser and now = 5
          and pw = nearestPower]
    by (simp add: PLAY_def rejected_def rejectionError_def playedCard_def jsIndex_def isWild_def
          twoPlayerGame_def threePlayerGame_def)
  have 3: "\<exists>e. areaPlayMove nearestPower (twoPlayerArea\<lparr>ongoingGames := [twoPlayerGame\<lparr>lastDrawPlayed := Some 2\<rparr>]\<rparr>)
          ''game'' aliceUser \<lparr>moveType = False, moveCard = Some 0, moveColor = None\<rparr> noShuffle 5
        = Throws e (twoPlayerArea\<lparr>ongoingGames := [twoPlayerGame\<lparr>lastDrawPlayed := Some 2\<rparr>]\<rparr>)"
    using play_move_rejected_atomically
      [where mv = "\<lparr>moveType = False, moveCard = Some 0, moveColor = None\<rparr>"
          and g = "twoPlayerGame\<lparr>lastDrawPlayed := Some 2\<rparr>"
          and rnds = noShuffle and callback = "onGameEnd nearestPower" and gid = "''game''"
          and a = "twoPlayerArea\<lparr>ongoingGames := [twoPlayerGame\<lparr>lastDrawPlayed := Some 2\<rparr>]\<rparr>"
          and pl = aliceUser and now = 5 and pw = nearestPower]
    by (simp add: PLAY_def rejected_def twoPlayerGame_def threePlayerGame_def)
  from 1 2 3 show ?thesis by blast
qed

section \<open>Shuffling and drawing\<close>

lemma length_swapAt [simp]: "length (swapAt i j xs) = length xs"
  by (simp add: swapAt_def)

lemma mset_swapAt: "i < length xs \<Longrightarrow> j < length xs \<Longrightarrow> mset (swapAt i j xs) = mset xs"
  unfolding swapAt_def by (rule mset_swap)

lemma shuffleFrom_perm:
  "mset (shuffleFrom rnd i xs) = mset xs \<and> length (shuffleFrom rnd i xs) = length xs"
proof (induction rnd i xs rule: shuffleFrom.induct)
  case (1 rnd i cards)
  show ?case
  proof (cases "i + 1 < length cards")
    case True
    have "rnd i mod (length cards - i) < length cards - i"
      using True by (intro mod_less_divisor) simp
    then have j: "i + rnd i mod (length cards - i) < length cards"
      by linarith
    from True have i: "i < length cards" by simp
    show ?thesis
      using 1[OF True] True mset_swapAt[OF i j]
      by (subst (1 2) shuffleFrom.simps) simp
  next
    case False
    then show ?thesis by (subst (1 2) shuffleFrom.simps) simp
  qed
qed

lemma mset_shuffleCards [simp]: "mset (shuffleCards rnd xs) = mset xs"
  by (simp add: shuffleCards_def shuffleFrom_perm)

lemma length_shuffleCards [simp]: "length (shuffleCards rnd xs) = length xs"
  by (simp add: shuffleCards_def shuffleFrom_perm)

lemma shuffleCards_Nil_iff [simp]: "shuffleCards rnd xs = [] \<longleftrightarrow> xs = []"
  by (metis length_0_conv length_shuffleCards)

lemma shuffleCards_short: "length xs \<le> 1 \<Longrightarrow> shuffleCards rnd xs = xs"
  by (simp add: shuffleCards_def shuffleFrom.simps)

lemma drawCard_one_discard:
  "deck g = [] \<Longrightarrow> length (discardPile g) = 1 \<Longrightarrow> drawCard rnd g = Returns g"
  by (cases "discardPile g") (auto simp: drawCard_def refillDeck_def takeTopCard_def andThen_def Let_def shuffleCards_short)

lemma drawCard_no_discard:
  "deck g = [] \<Longrightarrow> discardPile g = [] \<Longrightarrow> drawCard rnd g = Throws DiscardPileEmpty g"
  by (auto simp: drawCard_def refillDeck_def takeTopCard_def andThen_def Let_def shuffleCards_short)

lemma drawCard_reshuffle:
  assumes "deck g = []" "1 < length (discardPile g)"
  shows "shuffleCards rnd (butlast (discardPile g)) \<noteq> [] \<and>
     drawCard rnd g =
       (let newDeck = shuffleCards rnd (butlast (discardPile g));
            g2 = g\<lparr>deck := newDeck, discardPile := [last (discardPile g)]\<rparr>
        in case jsIndex (hands g) (currentPlayerIdx g) of
             None \<Rightarrow> Throws TypeError g2
           | Some hand \<Rightarrow>
               Returns (g2\<lparr>hands := (hands g)[nat (currentPlayerIdx g) := hand @ [hd newDeck]],
                            cardsDrawnDuringGame := cardsDrawnDuringGame g @ [hd newDeck],
                            deck := tl newDeck\<rparr>))"
proof -
  from assms(2) have ne: "butlast (discardPile g) \<noteq> []" "discardPile g \<noteq> []"
    by (cases "discardPile g"; cases "tl (discardPile g)"; auto)+
  then show ?thesis
    using assms(1)
    by (auto simp: drawCard_def refillDeck_def takeTopCard_def andThen_def Let_def split: option.splits)
qed

text \<open>
  C9 (as amended). On an empty deck: with exactly one card in the discard pile
  \<^verbatim>\<open>drawCard\<close> returns the game exactly as it was (no error, hand and drawn-card log
  unchanged); with an empty discard pile it throws \<open>DiscardPileEmpty\<close>, the game
  unchanged; with more than one card, the cards below the top one, shuffled (a
  permutation of them), become the deck, the discard pile keeps exactly its top card, and
  then the draw proceeds: the first card of the new deck goes to the current player's
  hand and onto the drawn-card log (or, without such a hand, a \<open>TypeError\<close> is raised
  after the reshuffle).
\<close>

theorem drawCard_on_empty_deck:
  "deck g = [] \<longrightarrow>
     (length (discardPile g) = 1 \<longrightarrow> drawCard rnd g = Returns g) \<and>
     (discardPile g = [] \<longrightarrow> drawCard rnd g = Throws DiscardPileEmpty g) \<and>
     (1 < length (discardPile g) \<longrightarrow>
        mset (shuffleCards rnd (butlast (discardPile g))) = mset (butlast (discardPile g)) \<and>
        shuffleCards rnd (butlast (discardPile g)) \<noteq> [] \<and>
        drawCard rnd g =
          (let newDeck = shuffleCards rnd (butlast (discardPile g));
               g2 = g\<lparr>deck := newDeck, discardPile := [last (discardPile g)]\<rparr>
           in case jsIndex (hands g) (currentPlayerIdx g) of
                None \<Rightarrow> Throws TypeError g2
              | Some hand \<Rightarrow>
                  Returns (g2\<lparr>hands := (hands g)[nat (currentPlayerIdx g) := hand @ [hd newDeck]],
                               cardsDrawnDuringGame := cardsDrawnDuringGame g @ [hd newDeck],
                               deck := tl newDeck\<rparr>)))"
  using drawCard_one_discard[of g rnd] drawCard_no_discard[of g rnd] drawCard_reshuffle[of g rnd]
  by (simp only: mset_shuffleCards) blast

text \<open>
  Alice draws from an empty deck: with only the top card on the discard pile nothing
  happens; with two cards below the top card she receives one of them.
\<close>

theorem drawCard_on_empty_deck_witness:
  "drawCard (noShuffle 0) (twoPlayerGame\<lparr>deck := [], discardPile := [NumberCard ''red'' 5]\<rparr>)
     = Returns (twoPlayerGame\<lparr>deck := [], discardPile := [NumberCard ''red'' 5]\<rparr>) \<and>
   drawCard (noShuffle 0)
     (twoPlayerGame\<lparr>deck := [],
                    discardPile := [SkipCard ''red'', NumberCard ''red'' 2, NumberCard ''red'' 5]\<rparr>)
     = Returns (twoPlayerGame
         \<lparr>deck := [NumberCard ''red'' 2],
          discardPile := [NumberCard ''red'' 5],
          hands := [[NumberCard ''red'' 3, ReverseCard ''red'', WildCard, SkipCard ''red''],
                    [SkipCard ''blue'', NumberCard ''red'' 9]],
          cardsDrawnDuringGame := [SkipCard ''red'']\<rparr>)"
proof -
  have 1: "drawCard (noShuffle 0) (twoPlayerGame\<lparr>deck := [], discardPile := [NumberCard ''red'' 5]\<rparr>)
     = Returns (twoPlayerGame\<lparr>deck := [], discardPile := [NumberCard ''red'' 5]\<rparr>)"
    using drawCard_on_empty_deck
      [of "twoPlayerGame\<lparr>deck := [], discardPile := [NumberCard ''red'' 5]\<rparr>" "noShuffle 0"]
    by simp
  have sh: "shuffleCards (noShuffle 0) [SkipCard ''red'', NumberCard ''red'' 2]
              = [SkipCard ''red'', NumberCard ''red'' 2]"
    by (simp add: shuffleCards_def shuffleFrom.simps noShuffle_def swapAt_def)
  have 2: "drawCard (noShuffle 0)
     (twoPlayerGame\<lparr>deck := [],
                    discardPile := [SkipCard ''red'', NumberCard ''red'' 2, NumberCard ''red'' 5]\<rparr>)
     = Returns (twoPlayerGame
         \<lparr>deck := [NumberCard ''red'' 2],
          discardPile := [NumberCard ''red'' 5],
          hands := [[NumberCard ''red'' 3, ReverseCard ''red'', WildCard, SkipCard ''red''],
                    [SkipCard ''blue'', NumberCard ''red'' 9]],
          cardsDrawnDuringGame := [SkipCard ''red'']\<rparr>)"
    using drawCard_on_empty_deck
      [of "twoPlayerGame\<lparr>deck := [],
             discardPile := [SkipCard ''red'', NumberCard ''red'' 2, NumberCard ''red'' 5]\<rparr>"
          "noShuffle 0"]
    by (simp add: sh Let_def jsIndex_def twoPlayerGame_def threePlayerGame_def)
  from 1 2 show ?thesis by blast
qed

theorem drawCard_empty_discard_counterexample:
  "deck (twoPlayerGame\<lparr>deck := [], discardPile := []\<rparr>) = [] \<and>
   length (discardPile (twoPlayerGame\<lparr>deck := [], discardPile := []\<rparr>)) \<le> 1 \<and>
   drawCard (noShuffle 0) (twoPlayerGame\<lparr>deck := [], discardPile := []\<rparr>)
     = Throws DiscardPileEmpty (twoPlayerGame\<lparr>deck := [], discardPile := []\<rparr>)"
  by (simp add: drawCard_no_discard)

section \<open>Outcomes, indices and array operations\<close>

lemma afterCall_simps [simp]:
  "afterCall (Returns s) s' \<longleftrightarrow> s = s'"
  "afterCall (Throws e s) s' \<longleftrightarrow> s = s'"
  "afterCall Diverges s' \<longleftrightarrow> False"
  by (simp_all add: afterCall_def)

lemma andThen_simps [simp]:
  "andThen (Returns s) f = f s"
  "andThen (Throws e s) f = Throws e s"
  "andThen Diverges f = Diverges"
  by (simp_all add: andThen_def)

lemma andThen_Returns_iff:
  "andThen r f = Returns s' \<longleftrightarrow> (\<exists>s. r = Returns s \<and> f s = Returns s')"
  by (cases r) auto

lemma afterCall_andThen:
  "afterCall (andThen r f) s' \<longleftrightarrow>
     (\<exists>e. r = Throws e s') \<or> (\<exists>s. r = Returns s \<and> afterCall (f s) s')"
  by (cases r) auto

lemma advanceMove_cases:
  "afterCall (advanceMove g) g' \<Longrightarrow>
   advanceMove g = Returns g' \<and> g' = g\<lparr>currentPlayerIdx := currentPlayerIdx g'\<rparr>"
  by (auto simp: advanceMove_def split: if_splits option.splits)

lemma advanceMove_Returns:
  "advanceMove g = Returns g' \<Longrightarrow> g' = g\<lparr>currentPlayerIdx := currentPlayerIdx g'\<rparr>"
  using advanceMove_cases[of g g'] by simp

lemma splice1_valid:
  "0 \<le> i \<Longrightarrow> i < int (length xs) \<Longrightarrow> splice1 xs i = take (nat i) xs @ drop (Suc (nat i)) xs"
  by (simp add: splice1_def Let_def min_def)

lemma length_splice1_valid:
  "0 \<le> i \<Longrightarrow> i < int (length xs) \<Longrightarrow> Suc (length (splice1 xs i)) = length xs"
  by (auto simp: splice1_valid min_def)

lemma set_splice1: "set (splice1 xs i) \<subseteq> set xs"
  by (auto simp: splice1_def Let_def dest: in_set_takeD in_set_dropD)

lemma findIndexFrom_found:
  "0 \<le> k \<Longrightarrow> findIndexFrom P xs k \<noteq> - 1 \<Longrightarrow>
   k \<le> findIndexFrom P xs k \<and> findIndexFrom P xs k < k + int (length xs) \<and>
   P (xs ! nat (findIndexFrom P xs k - k))"
proof (induction xs arbitrary: k)
  case Nil
  then show ?case by simp
next
  case (Cons x xs)
  show ?case
  proof (cases "P x")
    case True
    then show ?thesis by simp
  next
    case False
    with Cons.prems have ne: "findIndexFrom P xs (k + 1) \<noteq> - 1" by simp
    from Cons.IH[OF _ ne] Cons.prems(1)
    have ih: "k + 1 \<le> findIndexFrom P xs (k + 1)"
      "findIndexFrom P xs (k + 1) < k + 1 + int (length xs)"
      "P (xs ! nat (findIndexFrom P xs (k + 1) - (k + 1)))" by auto
    have "nat (findIndexFrom P xs (k + 1) - k) = Suc (nat (findIndexFrom P xs (k + 1) - (k + 1)))"
      using ih(1) by linarith
    with ih False show ?thesis by simp
  qed
qed

lemma findIndexFrom_none:
  "0 \<le> k \<Longrightarrow> findIndexFrom P xs k = - 1 \<longleftrightarrow> (\<forall>x \<in> set xs. \<not> P x)"
proof (induction xs arbitrary: k)
  case Nil
  then show ?case by simp
next
  case (Cons x xs)
  then show ?case by (cases "P x") auto
qed

lemma findIndex_found:
  "findIndex P xs \<noteq> - 1 \<Longrightarrow>
   0 \<le> findIndex P xs \<and> findIndex P xs < int (length xs) \<and> P (xs ! nat (findIndex P xs))"
  using findIndexFrom_found[of 0 P xs] by (simp add: findIndex_def)

lemma findIndex_none: "findIndex P xs = - 1 \<longleftrightarrow> (\<forall>x \<in> set xs. \<not> P x)"
  using findIndexFrom_none[of 0 P xs] by (simp add: findIndex_def)

lemma jsIndex_Some:
  "jsIndex xs i = Some x \<longleftrightarrow> 0 \<le> i \<and> i < int (length xs) \<and> xs ! nat i = x"
  by (auto simp: jsIndex_def)

lemma jsIndex_None: "jsIndex xs i = None \<longleftrightarrow> \<not> (0 \<le> i \<and> i < int (length xs))"
  by (auto simp: jsIndex_def)

lemma sum_list_length_update:
  "i < length xss \<Longrightarrow>
   sum_list (map length (xss[i := ys])) + length (xss ! i) = sum_list (map length xss) + length ys"
proof (induction xss arbitrary: i)
  case Nil
  then show ?case by simp
next
  case (Cons xs xss)
  then show ?case by (cases i) auto
qed

section \<open>The arithmetic of Numbers\<close>

text \<open>
  A real number \<open>m * 2 ^ q\<close> with \<open>\<bar>m\<bar> < 2 ^ 53\<close> and \<open>- 1074 \<le> q \<le> 971\<close> is a double, and
  rounding returns it as it is.
\<close>

lemma floor_log2:
  assumes "2 powi e \<le> x" "x < 2 powi (e + 1)"
  shows "\<lfloor>log 2 x\<rfloor> = e"
proof -
  have pos: "0 < x" using assms(1) by (smt (verit) zero_less_power_int)
  have "(2::real) powr (of_int e) = 2 powi e" by (rule powr_real_of_int') simp_all
  with assms(1) have "2 powr (of_int e) \<le> x" by simp
  then have a: "of_int e \<le> log 2 x" using pos by (subst le_log_iff) simp_all
  have "(2::real) powr (of_int (e + 1)) = 2 powi (e + 1)" by (rule powr_real_of_int') simp_all
  with assms(2) have "x < 2 powr (of_int (e + 1))" by simp
  then have b: "log 2 x < of_int (e + 1)" using pos by (subst log_less_iff) simp_all
  from a b show ?thesis by linarith
qed

lemma roundHalfEven_int [simp]: "roundHalfEven (of_int k) = k"
  by (simp add: roundHalfEven_def)

lemma ulpExponent_le:
  assumes x: "x = of_int m * 2 powi q" and m: "m \<noteq> 0" "\<bar>m\<bar> < 2 ^ 53" and q: "- 1074 \<le> q"
  shows "ulpExponent x \<le> q"
proof -
  have xpos: "0 < \<bar>x\<bar>" using x m by simp
  have "\<bar>x\<bar> = of_int \<bar>m\<bar> * 2 powi q" using x by (simp add: abs_mult)
  also have "\<dots> < 2 ^ 53 * 2 powi q"
    using m(2) by (intro mult_strict_right_mono) (simp_all add: of_int_less_iff[where 'a = real, symmetric] del: of_int_less_iff)
  also have "\<dots> = 2 powi (53 + q)" by (simp add: power_int_add)
  finally have lt: "\<bar>x\<bar> < 2 powi (53 + q)" .
  have "(2::real) powr (of_int (53 + q)) = 2 powi (53 + q)" by (rule powr_real_of_int') simp_all
  with lt have "\<bar>x\<bar> < 2 powr (of_int (53 + q))" by simp
  then have "log 2 \<bar>x\<bar> < of_int (53 + q)" using xpos by (subst log_less_iff) simp_all
  then have "\<lfloor>log 2 \<bar>x\<bar>\<rfloor> < 53 + q" by linarith
  with q show ?thesis by (simp add: ulpExponent_def)
qed

lemma nearestMagnitude_exact:
  assumes x: "x = of_int m * 2 powi q" and m: "m \<noteq> 0" "\<bar>m\<bar> < 2 ^ 53" and q: "- 1074 \<le> q"
  shows "nearestMagnitude x = \<bar>x\<bar>"
proof -
  define u where "u = ulpExponent x"
  from ulpExponent_le[OF x m q] have uq: "u \<le> q" by (simp add: u_def)
  have "(2::real) powi q = 2 powi (q - u) * 2 powi u"
    by (simp add: power_int_add[symmetric])
  also have "(2::real) powi (q - u) = 2 ^ nat (q - u)" using uq by (simp add: power_int_def)
  finally have e: "(2::real) powi q = 2 ^ nat (q - u) * 2 powi u" .
  have "\<bar>x\<bar> = of_int \<bar>m\<bar> * 2 powi q" using x by (simp add: abs_mult)
  also have "\<dots> = of_int (\<bar>m\<bar> * 2 ^ nat (q - u)) * 2 powi u" by (simp add: e)
  finally have ax: "\<bar>x\<bar> = of_int (\<bar>m\<bar> * 2 ^ nat (q - u)) * 2 powi u" .
  then have "\<bar>x\<bar> / 2 powi u = of_int (\<bar>m\<bar> * 2 ^ nat (q - u))" by simp
  then have "roundHalfEven (\<bar>x\<bar> / 2 powi u) = \<bar>m\<bar> * 2 ^ nat (q - u)"
    by (simp only: roundHalfEven_int)
  then show ?thesis unfolding nearestMagnitude_def u_def[symmetric] using ax by simp
qed

lemma roundDouble_exact:
  assumes x: "x = of_int m * 2 powi q" and m: "\<bar>m\<bar> < 2 ^ 53" and q: "- 1074 \<le> q" "q \<le> 971"
    and nz: "x \<noteq> 0"
  shows "roundDouble neg x = Finite x"
proof -
  from nz x have m0: "m \<noteq> 0" by auto
  from nearestMagnitude_exact[OF x m0 m q(1)] have n: "nearestMagnitude x = \<bar>x\<bar>" .
  have "\<bar>x\<bar> = of_int \<bar>m\<bar> * 2 powi q" using x by (simp add: abs_mult)
  also have "\<dots> < 2 ^ 53 * 2 powi q"
    using m by (intro mult_strict_right_mono) (simp_all add: of_int_less_iff[where 'a = real, symmetric] del: of_int_less_iff)
  also have "\<dots> \<le> 2 ^ 53 * 2 powi 971"
    using q(2) by (intro mult_left_mono power_int_increasing) simp_all
  also have "\<dots> = 2 ^ 1024" by (simp add: power_int_def)
  finally have "\<bar>x\<bar> < 2 ^ 1024" .
  with n nz show ?thesis by (simp add: roundDouble_def Let_def)
qed

lemma roundDouble_zero [simp]: "roundDouble neg 0 = signedZero neg"
  by (simp add: roundDouble_def)

lemma roundDouble_int:
  "k \<noteq> 0 \<Longrightarrow> \<bar>k\<bar> < 9007199254740992 \<Longrightarrow> roundDouble neg (of_int k) = Finite (of_int k)"
  by (rule roundDouble_exact[where m = k and q = 0]) simp_all

lemma roundDouble_numeral [simp]:
  "numeral k < (9007199254740992::int) \<Longrightarrow> roundDouble neg (numeral k) = Finite (numeral k)"
  using roundDouble_int[of "numeral k" neg] by simp

lemma roundDouble_neg_numeral [simp]:
  "numeral k < (9007199254740992::int) \<Longrightarrow>
   roundDouble neg (- numeral k) = Finite (- numeral k)"
  using roundDouble_int[of "- numeral k" neg] by simp

lemma roundDouble_one [simp]: "roundDouble neg 1 = Finite 1"
  using roundDouble_int[of 1 neg] by simp

lemma roundDouble_neg_one [simp]: "roundDouble neg (- 1) = Finite (- 1)"
  using roundDouble_int[of "- 1" neg] by simp

lemma roundDouble_half [simp]: "roundDouble neg (1 / 2) = Finite (1 / 2)"
  by (rule roundDouble_exact[where m = 1 and q = "- 1"]) simp_all

lemma roundDouble_neg_half [simp]: "roundDouble neg (- (1 / 2)) = Finite (- (1 / 2))"
  by (rule roundDouble_exact[where m = "- 1" and q = "- 1"]) simp_all

lemma numAdd_Finite [simp]: "numAdd (Finite a) (Finite b) = roundDouble False (a + b)"
  by (simp add: numAdd_def isInfinite_def)

lemma numSub_Finite [simp]: "numSub (Finite a) (Finite b) = roundDouble False (a - b)"
  by (simp add: numSub_def numAdd_def isInfinite_def)

lemma numMul_Finite [simp]:
  "numMul (Finite a) (Finite b) = roundDouble ((a < 0) \<noteq> (b < 0)) (a * b)"
  by (simp add: numMul_def isInfinite_def)

lemma numDiv_Finite [simp]:
  "numDiv (Finite a) (Finite b) =
     (if b = 0 then (if a = 0 then NaN else infinity (a < 0))
      else roundDouble ((a < 0) \<noteq> (b < 0)) (a / b))"
  by (simp add: numDiv_def isInfinite_def isZero_def)

text \<open>
  Above \<open>2 ^ 53\<close> the doubles are the even integers: \<open>2 ^ 53 + 25\<close> lies halfway between
  two of them and goes to the one with the even significand.
\<close>

lemma roundDouble_tie:
  "roundDouble neg 9007199254741017 = Finite 9007199254741016"
proof -
  have "\<lfloor>log 2 \<bar>9007199254741017::real\<bar>\<rfloor> = 53"
    by (rule floor_log2) (simp_all add: power_int_def)
  then have u: "ulpExponent 9007199254741017 = 1" by (simp add: ulpExponent_def)
  have f: "\<lfloor>9007199254741017 / 2 :: real\<rfloor> = 4503599627370508"
    by (simp add: floor_eq_iff)
  have "nearestMagnitude 9007199254741017 = 9007199254741016"
    by (simp add: nearestMagnitude_def u roundHalfEven_def f Let_def)
  then show ?thesis by (simp add: roundDouble_def)
qed

section \<open>The number of cards\<close>

lemma totalCards_advanceMove:
  "advanceMove g = Returns g' \<Longrightarrow> totalCards g' = totalCards g"
  by (auto simp: advanceMove_def totalCards_def split: if_splits option.splits)

lemma totalCards_refillDeck:
  "refillDeck rnd g = Returns g' \<Longrightarrow> totalCards g' = totalCards g"
proof -
  have "xs \<noteq> [] \<Longrightarrow> Suc (length (butlast xs)) = length xs" for xs :: "card list" by simp
  then show "refillDeck rnd g = Returns g' \<Longrightarrow> totalCards g' = totalCards g"
    by (auto simp: refillDeck_def Let_def totalCards_def split: if_splits)
qed

lemma totalCards_takeTopCard:
  assumes "takeTopCard g = Returns g'"
  shows "totalCards g' = totalCards g"
proof (cases "deck g = []")
  case True
  with assms show ?thesis by (simp add: takeTopCard_def)
next
  case False
  with assms obtain hand where h: "jsIndex (hands g) (currentPlayerIdx g) = Some hand"
    and g': "g' = g\<lparr>hands := (hands g)[nat (currentPlayerIdx g) := hand @ [hd (deck g)]],
                     cardsDrawnDuringGame := cardsDrawnDuringGame g @ [hd (deck g)],
                     deck := tl (deck g)\<rparr>"
    by (auto simp: takeTopCard_def split: option.splits)
  from h have i: "nat (currentPlayerIdx g) < length (hands g)"
    and hd: "hands g ! nat (currentPlayerIdx g) = hand"
    by (auto simp: jsIndex_Some)
  from sum_list_length_update[OF i, of "hand @ [hd (deck g)]"] hd
  have "sum_list (map length ((hands g)[nat (currentPlayerIdx g) := hand @ [hd (deck g)]]))
          = Suc (sum_list (map length (hands g)))" by simp
  moreover have "Suc (length (tl (deck g))) = length (deck g)" using False by simp
  ultimately show ?thesis
    by (simp add: g' totalCards_def)
qed

lemma totalCards_drawCard:
  "drawCard rnd g = Returns g' \<Longrightarrow> totalCards g' = totalCards g"
  by (auto simp: drawCard_def andThen_Returns_iff
        dest!: totalCards_refillDeck totalCards_takeTopCard)

lemma totalCards_drawLoop:
  "drawLoop rnds i k g = Returns g' \<Longrightarrow> totalCards g' = totalCards g"
proof (induction k arbitrary: i g)
  case 0
  then show ?case by simp
next
  case (Suc k)
  then show ?case
    by (auto simp: andThen_Returns_iff dest: totalCards_drawCard)
qed

lemma totalCards_playDrawMove:
  "playDrawMove rnds g = Returns g' \<Longrightarrow> totalCards g' = totalCards g"
proof -
  have "totalCards (s\<lparr>lastDrawPlayed := None\<rparr>) = totalCards s" for s
    by (simp add: totalCards_def)
  then show "playDrawMove rnds g = Returns g' \<Longrightarrow> totalCards g' = totalCards g"
    by (auto simp: playDrawMove_def andThen_Returns_iff
          dest!: totalCards_drawLoop totalCards_advanceMove)
qed

lemma ratingsOnly_Returns:
  "ratingsOnly callback \<Longrightarrow> callback g = Returns g' \<Longrightarrow>
   g' = g\<lparr>eloRatingChanges := eloRatingChanges g'\<rparr>"
  unfolding ratingsOnly_def by (erule allE[of _ g]) simp

lemma ratingsOnly_afterCall:
  "ratingsOnly callback \<Longrightarrow> afterCall (callback g) g' \<Longrightarrow>
   g' = g\<lparr>eloRatingChanges := eloRatingChanges g'\<rparr>"
  unfolding ratingsOnly_def by (erule allE[of _ g]) (auto simp: afterCall_def split: outcome.splits)

lemma totalCards_updateIfGameEnded:
  assumes "ratingsOnly callback" "updateIfGameEnded g callback = Returns g'"
  shows "totalCards g' = totalCards g"
proof (cases "length (activePlayers g) = 1")
  case True
  with assms(2) have "callback (g\<lparr>winners := winners g @ [activePlayers g ! 0], activePlayers := []\<rparr>) = Returns g'"
    by (simp add: updateIfGameEnded_def)
  from ratingsOnly_Returns[OF assms(1) this]
  have "totalCards g' = totalCards (g\<lparr>winners := winners g @ [activePlayers g ! 0], activePlayers := []\<rparr>)"
    by (metis (no_types, lifting) totalCards_def ongoingCardGame.select_convs(6,8,9)
        ongoingCardGame.surjective ongoingCardGame.update_convs(15))
  then show ?thesis by (simp add: totalCards_def)
next
  case False
  with assms(2) show ?thesis by (simp add: updateIfGameEnded_def)
qed

lemma totalCards_removeCard:
  assumes "jsIndex (hands g) (currentPlayerIdx g) = Some hand" "jsIndex hand c = Some curCard"
  shows "totalCards (removeCard g hand c curCard) = totalCards g"
proof -
  from assms(1) have i: "nat (currentPlayerIdx g) < length (hands g)"
    and hd: "hands g ! nat (currentPlayerIdx g) = hand"
    by (auto simp: jsIndex_Some)
  from assms(2) have c: "0 \<le> c" "c < int (length hand)" by (auto simp: jsIndex_Some)
  from sum_list_length_update[OF i, of "splice1 hand c"] hd length_splice1_valid[OF c]
  have "Suc (sum_list (map length ((hands g)[nat (currentPlayerIdx g) := splice1 hand c])))
          = sum_list (map length (hands g))" by simp
  then show ?thesis by (simp add: removeCard_def totalCards_def)
qed

lemma totalCards_winCheck:
  assumes "ratingsOnly callback" "winCheck activeIdx callback newHand g = Returns g'"
  shows "totalCards g' = totalCards g"
proof (cases "length newHand = 0")
  case True
  with assms(2) have "updateIfGameEnded
             (g\<lparr>winners := winners g @ [currentPlayerIdx g],
                activePlayers := splice1 (activePlayers g) activeIdx\<rparr>) callback = Returns g'"
    by (simp add: winCheck_def)
  from totalCards_updateIfGameEnded[OF assms(1) this] show ?thesis
    by (simp add: totalCards_def)
next
  case False
  with assms(2) show ?thesis by (simp add: winCheck_def)
qed

lemma totalCards_reverseEffect:
  "reverseEffect curCard g = Returns g' \<Longrightarrow> totalCards g' = totalCards g"
  by (auto simp: reverseEffect_def totalCards_def split: if_splits dest!: totalCards_advanceMove)

lemma totalCards_skipEffect:
  "skipEffect curCard g = Returns g' \<Longrightarrow> totalCards g' = totalCards g"
  by (auto simp: skipEffect_def split: if_splits dest!: totalCards_advanceMove)

lemma totalCards_drawEffect: "totalCards (drawEffect curCard g) = totalCards g"
  by (simp add: drawEffect_def totalCards_def)

lemma totalCards_cardEffects:
  "cardEffects curCard g = Returns g' \<Longrightarrow> totalCards g' = totalCards g"
  by (auto simp: cardEffects_def andThen_Returns_iff totalCards_drawEffect
        dest!: totalCards_reverseEffect totalCards_skipEffect totalCards_advanceMove)

lemma totalCards_applyCard:
  assumes "ratingsOnly callback"
    "jsIndex (hands g) (currentPlayerIdx g) = Some hand" "jsIndex hand c = Some curCard"
    "applyCard activeIdx callback hand c curCard g = Returns g'"
  shows "totalCards g' = totalCards g"
proof -
  from assms(4) obtain g1 where
    1: "winCheck activeIdx callback (splice1 hand c) (removeCard g hand c curCard) = Returns g1"
    and 2: "cardEffects curCard g1 = Returns g'"
    by (auto simp: applyCard_def discardStage_def andThen_Returns_iff)
  from totalCards_winCheck[OF assms(1) 1] totalCards_removeCard[OF assms(2,3)]
    totalCards_cardEffects[OF 2]
  show ?thesis by simp
qed

lemma totalCards_playMove:
  assumes "ratingsOnly callback" "playMove g mv rnds callback = Returns g'"
  shows "totalCards g' = totalCards g"
proof (cases "moveType mv = DRAW")
  case True
  with assms(2) show ?thesis by (simp add: playMove_def totalCards_playDrawMove)
next
  case False
  with assms(2) obtain c hand curCard where
    h: "jsIndex (hands g) (currentPlayerIdx g) = Some hand" and cc: "jsIndex hand c = Some curCard"
    and app: "applyCard (findIndex (\<lambda>n. n = currentPlayerIdx g) (activePlayers g)) callback hand c curCard g = Returns g'
       \<or> (\<exists>col. applyCard (findIndex (\<lambda>n. n = currentPlayerIdx g) (activePlayers g)) callback hand c curCard
              (g\<lparr>currentColor := col\<rparr>) = Returns g')"
    by (auto simp: playMove_def Let_def split: option.splits if_splits)
  from app show ?thesis
  proof
    assume "applyCard (findIndex (\<lambda>n. n = currentPlayerIdx g) (activePlayers g)) callback hand c curCard g = Returns g'"
    from totalCards_applyCard[OF assms(1) h cc this] show ?thesis .
  next
    assume "\<exists>col. applyCard (findIndex (\<lambda>n. n = currentPlayerIdx g) (activePlayers g)) callback hand c curCard
              (g\<lparr>currentColor := col\<rparr>) = Returns g'"
    then obtain col where a: "applyCard (findIndex (\<lambda>n. n = currentPlayerIdx g) (activePlayers g)) callback hand c curCard
              (g\<lparr>currentColor := col\<rparr>) = Returns g'" by blast
    have "totalCards g' = totalCards (g\<lparr>currentColor := col\<rparr>)"
      by (rule totalCards_applyCard[OF assms(1) _ cc a]) (simp add: h)
    then show ?thesis by (simp add: totalCards_def)
  qed
qed

lemma quitCardGame_unfold:
  "quitCardGame g pid now callback =
     (if findIndex (\<lambda>n. n = quitterIdx g pid) (activePlayers g) = - 1
      then Throws CannotQuitNotActive g
      else if jsIndex (players g) (quitterIdx g pid) = None
      then Throws TypeError
             (g\<lparr>activePlayers := splice1 (activePlayers g)
                  (findIndex (\<lambda>n. n = quitterIdx g pid) (activePlayers g))\<rparr>)
      else andThen (updateIfGameEnded (quitLogged g pid now) callback)
             (\<lambda>g2. if quitterIdx g pid = currentPlayerIdx g2 then advanceMove g2 else Returns g2))"
  unfolding quitCardGame_def Let_def quitterIdx_def quitLogged_def
  by (auto simp: jsIndex_def split: option.splits)

lemma quitCardGame_Returns:
  assumes "quitCardGame g pid now callback = Returns g'"
  shows "findIndex (\<lambda>n. n = quitterIdx g pid) (activePlayers g) \<noteq> - 1 \<and>
     jsIndex (players g) (quitterIdx g pid) \<noteq> None \<and>
     (\<exists>g2. updateIfGameEnded (quitLogged g pid now) callback = Returns g2 \<and>
        (if quitterIdx g pid = currentPlayerIdx g2 then advanceMove g2 else Returns g2) = Returns g')"
  using assms unfolding quitCardGame_unfold
  by (auto simp: andThen_Returns_iff split: if_splits)

lemma totalCards_quitCardGame:
  assumes "ratingsOnly callback" "quitCardGame g pid now callback = Returns g'"
  shows "totalCards g' = totalCards g"
proof -
  from quitCardGame_Returns[OF assms(2)] obtain g2 where
    u: "updateIfGameEnded (quitLogged g pid now) callback = Returns g2"
    and a: "(if quitterIdx g pid = currentPlayerIdx g2 then advanceMove g2 else Returns g2) = Returns g'"
    by blast
  from totalCards_updateIfGameEnded[OF assms(1) u]
  have "totalCards g2 = totalCards g" by (simp add: totalCards_def quitLogged_def)
  moreover from a have "totalCards g' = totalCards g2"
    by (auto split: if_splits dest: totalCards_advanceMove)
  ultimately show ?thesis by simp
qed

lemma totalCards_applyOps:
  "ratingsOnly callback \<Longrightarrow> applyOps callback g ops = Returns g' \<Longrightarrow> totalCards g' = totalCards g"
proof (induction ops arbitrary: g)
  case Nil
  then show ?case by simp
next
  case (Cons op ops)
  from Cons.prems(2) obtain g1 where 1: "applyOp callback g op = Returns g1"
    and 2: "applyOps callback g1 ops = Returns g'"
    by (auto simp: andThen_Returns_iff)
  from 1 Cons.prems(1) have "totalCards g1 = totalCards g"
    by (cases op) (auto dest: totalCards_playMove totalCards_playDrawMove totalCards_quitCardGame)
  with Cons.IH[OF Cons.prems(1) 2] show ?case by simp
qed

lemma ratingsOnly_onGameEnd: "ratingsOnly (onGameEnd pw)"
  by (auto simp: ratingsOnly_def onGameEnd_def split: sum.splits)

text \<open>The definitions with which the example games are evaluated.\<close>

lemmas game_defs = threePlayerGame_def twoPlayerGame_def alice_def bob_def carol_def eloOf_def

lemmas op_defs = playMove_def applyCard_def discardStage_def cardEffects_def winCheck_def
  removeCard_def reverseEffect_def skipEffect_def drawEffect_def advanceMove_def
  updateIfGameEnded_def playDrawMove_def drawCard_def refillDeck_def takeTopCard_def
  quitCardGame_def numDraws_def jsIndex_def findIndex_def splice1_def
  advanceLoop.simps advanceStep_def DRAW_def PLAY_def Let_def

lemmas elo_defs = onGameEnd_def calculateNewElos_def calculateNewEloRatingChange_def
  totalExpectedScore_def choose2_def usernameOrAnonymous_def ofNat_def signedZero_def

section \<open>Quitting\<close>

lemma ratingsOnly_Returns_ex:
  "ratingsOnly callback \<Longrightarrow> callback g = Returns g' \<Longrightarrow> \<exists>e. g' = g\<lparr>eloRatingChanges := e\<rparr>"
  using ratingsOnly_Returns by blast

lemma advanceMove_Returns_ex:
  "advanceMove g = Returns g' \<Longrightarrow> \<exists>i. g' = g\<lparr>currentPlayerIdx := i\<rparr>"
  using advanceMove_Returns by blast

lemma updateIfGameEnded_Returns:
  assumes "ratingsOnly callback" "updateIfGameEnded g callback = Returns g'"
  shows "(length (activePlayers g) \<noteq> 1 \<and> g' = g) \<or>
         (length (activePlayers g) = 1 \<and>
          (\<exists>e. g' = g\<lparr>winners := winners g @ [activePlayers g ! 0], activePlayers := [],
                  eloRatingChanges := e\<rparr>))"
proof (cases "length (activePlayers g) = 1")
  case True
  with assms(2) have "callback (g\<lparr>winners := winners g @ [activePlayers g ! 0], activePlayers := []\<rparr>) = Returns g'"
    by (simp add: updateIfGameEnded_def)
  from ratingsOnly_Returns_ex[OF assms(1) this] True show ?thesis by simp
next
  case False
  with assms(2) show ?thesis by (simp add: updateIfGameEnded_def)
qed

lemma quitCardGame_frame:
  assumes "ratingsOnly callback" "quitCardGame g pid now callback = Returns g'"
  shows "(\<exists>a w i e. g' = g\<lparr>activePlayers := a, winners := w, moves := moves (quitLogged g pid now),
                             currentPlayerIdx := i, eloRatingChanges := e\<rparr>) \<and>
         (length (activePlayers (quitLogged g pid now)) \<noteq> 1 \<longrightarrow>
            (\<exists>i. g' = (quitLogged g pid now)\<lparr>currentPlayerIdx := i\<rparr>) \<and>
            (quitterIdx g pid \<noteq> currentPlayerIdx g \<longrightarrow> g' = quitLogged g pid now) \<and>
            (quitterIdx g pid = currentPlayerIdx g \<longrightarrow> advanceMove (quitLogged g pid now) = Returns g')) \<and>
         (length (activePlayers (quitLogged g pid now)) = 1 \<longrightarrow>
            (\<exists>e. g' = (quitLogged g pid now)
                     \<lparr>winners := winners g @ [activePlayers (quitLogged g pid now) ! 0],
                      activePlayers := [], eloRatingChanges := e\<rparr>))"
proof -
  from quitCardGame_Returns[OF assms(2)] obtain g2 where
    u: "updateIfGameEnded (quitLogged g pid now) callback = Returns g2"
    and a: "(if quitterIdx g pid = currentPlayerIdx g2 then advanceMove g2 else Returns g2) = Returns g'"
    by blast
  have cur: "currentPlayerIdx (quitLogged g pid now) = currentPlayerIdx g"
    and win: "winners (quitLogged g pid now) = winners g"
    by (simp_all add: quitLogged_def)
  from updateIfGameEnded_Returns[OF assms(1) u] show ?thesis
  proof (elim disjE conjE exE)
    assume n1: "length (activePlayers (quitLogged g pid now)) \<noteq> 1" and g2: "g2 = quitLogged g pid now"
    have "\<exists>i. g' = (quitLogged g pid now)\<lparr>currentPlayerIdx := i\<rparr>"
    proof (cases "quitterIdx g pid = currentPlayerIdx g2")
      case True
      with a g2 show ?thesis by (auto dest: advanceMove_Returns_ex)
    next
      case False
      with a g2 have "g' = (quitLogged g pid now)\<lparr>currentPlayerIdx := currentPlayerIdx g\<rparr>"
        by (simp add: cur[symmetric])
      then show ?thesis by blast
    qed
    then obtain i where i: "g' = (quitLogged g pid now)\<lparr>currentPlayerIdx := i\<rparr>" by blast
    have 1: "\<exists>a w i e. g' = g\<lparr>activePlayers := a, winners := w, moves := moves (quitLogged g pid now),
                             currentPlayerIdx := i, eloRatingChanges := e\<rparr>"
      apply (rule exI[of _ "activePlayers (quitLogged g pid now)"])
      apply (rule exI[of _ "winners g"])
      apply (rule exI[of _ i])
      apply (rule exI[of _ "eloRatingChanges g"])
      apply (simp add: i quitLogged_def)
      done
    from a g2 cur have 2: "quitterIdx g pid \<noteq> currentPlayerIdx g \<longrightarrow> g' = quitLogged g pid now"
      and 3: "quitterIdx g pid = currentPlayerIdx g \<longrightarrow> advanceMove (quitLogged g pid now) = Returns g'"
      by auto
    have 4: "\<exists>i. g' = (quitLogged g pid now)\<lparr>currentPlayerIdx := i\<rparr>" using i by blast
    show ?thesis
      apply (intro conjI impI)
          apply (rule 1)
         apply (rule 4)
        apply (rule 2[rule_format], assumption)
       apply (rule 3[rule_format], assumption)
      using n1 apply simp
      done
  next
    fix e
    assume l1: "length (activePlayers (quitLogged g pid now)) = 1"
      and g2: "g2 = (quitLogged g pid now)
                 \<lparr>winners := winners (quitLogged g pid now) @ [activePlayers (quitLogged g pid now) ! 0],
                  activePlayers := [], eloRatingChanges := e\<rparr>"
    from a g2 have g': "g' = g2"
      by (auto simp: advanceMove_def split: if_splits)
    have 1: "\<exists>a w i e. g' = g\<lparr>activePlayers := a, winners := w, moves := moves (quitLogged g pid now),
                             currentPlayerIdx := i, eloRatingChanges := e\<rparr>"
      apply (rule exI[of _ "[]"])
      apply (rule exI[of _ "winners g @ [activePlayers (quitLogged g pid now) ! 0]"])
      apply (rule exI[of _ "currentPlayerIdx g"])
      apply (rule exI[of _ e])
      apply (simp add: g' g2 quitLogged_def)
      done
    have 5: "\<exists>e. g' = (quitLogged g pid now)
                     \<lparr>winners := winners g @ [activePlayers (quitLogged g pid now) ! 0],
                      activePlayers := [], eloRatingChanges := e\<rparr>"
      using g' g2 win by auto
    show ?thesis
      apply (intro conjI impI)
          apply (rule 1)
      using l1 apply simp
      using l1 apply simp
      using l1 apply simp
      apply (rule 5)
      done
  qed
qed

text \<open>
  C10 (as amended). A quit that returns changes, besides \<^verbatim>\<open>activePlayers\<close>, the move
  log (the quit is appended) and possibly \<^verbatim>\<open>winners\<close> and \<^verbatim>\<open>currentPlayerIdx\<close>, only what
  the game-end callback writes when the quit ends the game: \<^verbatim>\<open>eloRatingChanges\<close>, for a
  callback that writes the rating changes, as the callbacks of the repository do. Hands
  (the hand of the player who quits among them), deck, discard pile, current colour and
  \<^verbatim>\<open>lastDrawPlayed\<close> are unchanged. While the game goes on (more than one player is left)
  nothing but \<^verbatim>\<open>activePlayers\<close>, the log and \<^verbatim>\<open>currentPlayerIdx\<close> changes, and when it was the
  turn of the player who quits the new state is that of \<^verbatim>\<open>advanceMove\<close>: the turn passes
  on with the pending draw still set.
\<close>

theorem quit_moves_no_cards:
  "ratingsOnly callback \<and> quitCardGame g pid now callback = Returns g' \<longrightarrow>
     (\<exists>a w i e. g' = g\<lparr>activePlayers := a, winners := w, moves := moves (quitLogged g pid now),
                         currentPlayerIdx := i, eloRatingChanges := e\<rparr>) \<and>
     hands g' = hands g \<and> deck g' = deck g \<and> discardPile g' = discardPile g \<and>
     currentColor g' = currentColor g \<and> lastDrawPlayed g' = lastDrawPlayed g \<and>
     (length (activePlayers (quitLogged g pid now)) \<noteq> 1 \<longrightarrow>
        (\<exists>i. g' = (quitLogged g pid now)\<lparr>currentPlayerIdx := i\<rparr>) \<and>
        (quitterIdx g pid \<noteq> currentPlayerIdx g \<longrightarrow> g' = quitLogged g pid now) \<and>
        (quitterIdx g pid = currentPlayerIdx g \<longrightarrow> advanceMove (quitLogged g pid now) = Returns g')) \<and>
     (length (activePlayers (quitLogged g pid now)) = 1 \<longrightarrow>
        (\<exists>e. g' = (quitLogged g pid now)
                 \<lparr>winners := winners g @ [activePlayers (quitLogged g pid now) ! 0],
                  activePlayers := [], eloRatingChanges := e\<rparr>))"
proof (intro impI, elim conjE)
  assume cb: "ratingsOnly callback" and q: "quitCardGame g pid now callback = Returns g'"
  note f = quitCardGame_frame[OF cb q]
  note f1 = f[THEN conjunct1]
  note f2 = f[THEN conjunct2, THEN conjunct1]
  note f3 = f[THEN conjunct2, THEN conjunct2]
  from f1 obtain a w i e where
    g': "g' = g\<lparr>activePlayers := a, winners := w, moves := moves (quitLogged g pid now),
                  currentPlayerIdx := i, eloRatingChanges := e\<rparr>"
    by blast
  have piles: "hands g' = hands g" "deck g' = deck g" "discardPile g' = discardPile g"
     "currentColor g' = currentColor g" "lastDrawPlayed g' = lastDrawPlayed g"
    by (simp_all add: g')
  show "(\<exists>a w i e. g' = g\<lparr>activePlayers := a, winners := w, moves := moves (quitLogged g pid now),
                         currentPlayerIdx := i, eloRatingChanges := e\<rparr>) \<and>
     hands g' = hands g \<and> deck g' = deck g \<and> discardPile g' = discardPile g \<and>
     currentColor g' = currentColor g \<and> lastDrawPlayed g' = lastDrawPlayed g \<and>
     (length (activePlayers (quitLogged g pid now)) \<noteq> 1 \<longrightarrow>
        (\<exists>i. g' = (quitLogged g pid now)\<lparr>currentPlayerIdx := i\<rparr>) \<and>
        (quitterIdx g pid \<noteq> currentPlayerIdx g \<longrightarrow> g' = quitLogged g pid now) \<and>
        (quitterIdx g pid = currentPlayerIdx g \<longrightarrow> advanceMove (quitLogged g pid now) = Returns g')) \<and>
     (length (activePlayers (quitLogged g pid now)) = 1 \<longrightarrow>
        (\<exists>e. g' = (quitLogged g pid now)
                 \<lparr>winners := winners g @ [activePlayers (quitLogged g pid now) ! 0],
                  activePlayers := [], eloRatingChanges := e\<rparr>))"
    apply (rule conjI, rule f1)
    apply (rule conjI, rule piles)+
    apply (rule conjI, rule f2)
    apply (rule f3)
    done
qed

text \<open>
  Carol, who owes two cards, quits a three-player game on her turn: the turn passes to
  Alice, the two cards are still owed, and every hand is as it was.
\<close>

theorem quit_moves_no_cards_witness:
  "\<exists>g'. quitCardGame (threePlayerGame\<lparr>currentPlayerIdx := 2, lastDrawPlayed := Some 2\<rparr>)
           (Some ''carol@example.com'') 7 (onGameEnd nearestPower) = Returns g' \<and>
        currentPlayerIdx g' = 0 \<and> activePlayers g' = [0, 1] \<and>
        lastDrawPlayed g' = Some 2 \<and> hands g' = hands threePlayerGame \<and>
        deck g' = deck threePlayerGame \<and> discardPile g' = discardPile threePlayerGame"
proof -
  obtain g' where r: "quitCardGame (threePlayerGame\<lparr>currentPlayerIdx := 2, lastDrawPlayed := Some 2\<rparr>)
           (Some ''carol@example.com'') 7 (onGameEnd nearestPower) = Returns g'"
    and c: "currentPlayerIdx g' = 0" "activePlayers g' = [0, 1]"
    by (simp add: game_defs op_defs)
  from quit_moves_no_cards
         [of "onGameEnd nearestPower" "threePlayerGame\<lparr>currentPlayerIdx := 2, lastDrawPlayed := Some 2\<rparr>"
             "Some ''carol@example.com''" 7 g']
    ratingsOnly_onGameEnd r
  have "hands g' = hands threePlayerGame \<and> deck g' = deck threePlayerGame \<and>
        discardPile g' = discardPile threePlayerGame \<and> lastDrawPlayed g' = Some 2"
    by simp
  with r c show ?thesis by blast
qed

text \<open>
  Bob quits the two-player game: the game ends, Alice is the winner, and the callback
  has written the rating changes.
\<close>

theorem quit_writes_rating_changes_counterexample:
  "quitCardGame twoPlayerGame (Some ''bob@example.com'') 7 (onGameEnd nearestPower) =
     Returns (twoPlayerGame
       \<lparr>activePlayers := [], winners := [0],
        moves := [\<lparr>movePlayerId = Some ''bob@example.com'', timestamp = 7, move = QuitMove\<rparr>],
        eloRatingChanges :=
          [\<lparr>changePlayer = alice, prevElo = Finite 1000, newElo = Finite 1025\<rparr>,
           \<lparr>changePlayer = bob, prevElo = Finite 1000, newElo = Finite 975\<rparr>]\<rparr>) \<and>
   eloRatingChanges (twoPlayerGame
       \<lparr>activePlayers := [], winners := [0],
        moves := [\<lparr>movePlayerId = Some ''bob@example.com'', timestamp = 7, move = QuitMove\<rparr>],
        eloRatingChanges :=
          [\<lparr>changePlayer = alice, prevElo = Finite 1000, newElo = Finite 1025\<rparr>,
           \<lparr>changePlayer = bob, prevElo = Finite 1000, newElo = Finite 975\<rparr>]\<rparr>)
     \<noteq> eloRatingChanges twoPlayerGame"
  by (simp add: game_defs op_defs elo_defs floor_eq_iff)

section \<open>The seats of a game\<close>

lemma sameSeats_refl [simp]: "sameSeats g g"
  by (simp add: sameSeats_def)

lemma sameSeats_trans: "sameSeats g g1 \<Longrightarrow> sameSeats g1 g2 \<Longrightarrow> sameSeats g g2"
  by (simp add: sameSeats_def)

lemma sameSeats_seatsOk: "sameSeats g g' \<Longrightarrow> seatsOk g \<Longrightarrow> seatsOk g'"
  by (simp add: sameSeats_def seatsOk_def)

lemma seats_advanceMove: "afterCall (advanceMove g) g' \<Longrightarrow> sameSeats g g'"
  by (auto simp: advanceMove_def sameSeats_def split: if_splits option.splits)

lemma seats_refillDeck: "afterCall (refillDeck rnd g) g' \<Longrightarrow> sameSeats g g'"
  by (auto simp: refillDeck_def Let_def sameSeats_def split: if_splits)

lemma seats_takeTopCard: "afterCall (takeTopCard g) g' \<Longrightarrow> sameSeats g g'"
  by (auto simp: takeTopCard_def sameSeats_def split: if_splits option.splits)

lemma seats_drawCard: "afterCall (drawCard rnd g) g' \<Longrightarrow> sameSeats g g'"
  unfolding drawCard_def afterCall_andThen
  by (elim disjE exE conjE)
     (metis afterCall_simps(2) seats_refillDeck,
      metis afterCall_simps(1) seats_refillDeck seats_takeTopCard sameSeats_trans)

lemma seats_drawLoop: "afterCall (drawLoop rnds i k g) g' \<Longrightarrow> sameSeats g g'"
proof (induction k arbitrary: i g)
  case 0
  then show ?case by simp
next
  case (Suc k)
  from Suc.prems show ?case
    unfolding drawLoop.simps afterCall_andThen
  proof (elim disjE exE conjE)
    fix e assume "drawCard (rnds i) g = Throws e g'"
    then show ?thesis by (metis afterCall_simps(2) seats_drawCard)
  next
    fix s assume "drawCard (rnds i) g = Returns s" "afterCall (drawLoop rnds (i + 1) k s) g'"
    then show ?thesis
      by (metis afterCall_simps(1) seats_drawCard Suc.IH sameSeats_trans)
  qed
qed

lemma seats_playDrawMove: "afterCall (playDrawMove rnds g) g' \<Longrightarrow> sameSeats g g'"
  unfolding playDrawMove_def afterCall_andThen
proof (elim disjE exE conjE)
  fix e assume "drawLoop rnds 0 (numDraws (lastDrawPlayed g)) g = Throws e g'"
  then show ?thesis by (metis afterCall_simps(2) seats_drawLoop)
next
  fix s assume 1: "drawLoop rnds 0 (numDraws (lastDrawPlayed g)) g = Returns s"
    and 2: "afterCall (advanceMove (s\<lparr>lastDrawPlayed := None\<rparr>)) g'"
  from 1 have "sameSeats g s" by (metis afterCall_simps(1) seats_drawLoop)
  moreover have "sameSeats s (s\<lparr>lastDrawPlayed := None\<rparr>)" by (simp add: sameSeats_def)
  moreover from 2 have "sameSeats (s\<lparr>lastDrawPlayed := None\<rparr>) g'" by (rule seats_advanceMove)
  ultimately show ?thesis by (blast intro: sameSeats_trans)
qed

lemma list_all_splice1: "list_all P xs \<Longrightarrow> list_all P (splice1 xs i)"
  using set_splice1[of xs i] by (auto simp: list_all_iff)

lemma seatsOk_updateIfGameEnded:
  assumes "ratingsOnly callback" "afterCall (updateIfGameEnded g callback) g'"
    "list_all (\<lambda>a. 0 \<le> a \<and> a < int (length (players g))) (activePlayers g)"
  shows "seatsOk g'"
proof (cases "length (activePlayers g) = 1")
  case True
  with assms(2) have "afterCall (callback (g\<lparr>winners := winners g @ [activePlayers g ! 0], activePlayers := []\<rparr>)) g'"
    by (simp add: updateIfGameEnded_def)
  from ratingsOnly_afterCall[OF assms(1) this]
  have "activePlayers g' = []"
    by (metis (no_types, lifting) ongoingCardGame.select_convs(3) ongoingCardGame.surjective
        ongoingCardGame.update_convs(3,15))
  then show ?thesis by (simp add: seatsOk_def)
next
  case False
  with assms(2,3) show ?thesis by (simp add: updateIfGameEnded_def seatsOk_def)
qed

lemma seatsOk_winCheck:
  assumes "ratingsOnly callback" "seatsOk g" "afterCall (winCheck activeIdx callback newHand g) g'"
  shows "seatsOk g'"
proof (cases "length newHand = 0")
  case True
  with assms(3) have "afterCall (updateIfGameEnded
             (g\<lparr>winners := winners g @ [currentPlayerIdx g],
                activePlayers := splice1 (activePlayers g) activeIdx\<rparr>) callback) g'"
    by (simp add: winCheck_def)
  from seatsOk_updateIfGameEnded[OF assms(1) this] assms(2) show ?thesis
    by (simp add: seatsOk_def list_all_splice1)
next
  case False
  with assms(2,3) show ?thesis by (simp add: winCheck_def)
qed

lemma seats_reverseEffect: "afterCall (reverseEffect curCard g) g' \<Longrightarrow> sameSeats g g'"
  by (auto simp: reverseEffect_def split: if_splits dest: seats_advanceMove)
     (simp add: sameSeats_def)

lemma seats_skipEffect: "afterCall (skipEffect curCard g) g' \<Longrightarrow> sameSeats g g'"
  by (auto simp: skipEffect_def split: if_splits dest: seats_advanceMove)

lemma seats_drawEffect: "sameSeats g (drawEffect curCard g)"
  by (simp add: drawEffect_def sameSeats_def)

lemma seats_cardEffects:
  assumes "afterCall (cardEffects curCard g) g'"
  shows "sameSeats g g'"
  using assms unfolding cardEffects_def afterCall_andThen
proof (elim disjE exE conjE)
  fix e assume "reverseEffect curCard g = Throws e g'"
  then show ?thesis by (metis afterCall_simps(2) seats_reverseEffect)
next
  fix s e assume "reverseEffect curCard g = Returns s" "skipEffect curCard s = Throws e g'"
  then show ?thesis
    by (metis afterCall_simps(1,2) seats_reverseEffect seats_skipEffect sameSeats_trans)
next
  fix s s' assume "reverseEffect curCard g = Returns s" "skipEffect curCard s = Returns s'"
    "afterCall (advanceMove (drawEffect curCard s')) g'"
  then show ?thesis
    by (metis afterCall_simps(1) seats_reverseEffect seats_skipEffect seats_drawEffect
        seats_advanceMove sameSeats_trans)
qed

lemma seatsOk_applyCard:
  assumes "ratingsOnly callback" "seatsOk g"
    "afterCall (applyCard activeIdx callback hand c curCard g) g'"
  shows "seatsOk g'"
proof -
  have ok: "seatsOk (removeCard g hand c curCard)"
    using assms(2) by (simp add: seatsOk_def removeCard_def)
  from assms(3) show ?thesis
    unfolding applyCard_def discardStage_def afterCall_andThen
  proof (elim disjE exE conjE)
    fix e assume "winCheck activeIdx callback (splice1 hand c) (removeCard g hand c curCard) = Throws e g'"
    then have "afterCall (winCheck activeIdx callback (splice1 hand c) (removeCard g hand c curCard)) g'"
      by simp
    from seatsOk_winCheck[OF assms(1) ok this] show ?thesis .
  next
    fix s assume w: "winCheck activeIdx callback (splice1 hand c) (removeCard g hand c curCard) = Returns s"
      and e: "afterCall (cardEffects curCard s) g'"
    from w have "afterCall (winCheck activeIdx callback (splice1 hand c) (removeCard g hand c curCard)) s"
      by simp
    from seatsOk_winCheck[OF assms(1) ok this] seats_cardEffects[OF e]
    show ?thesis by (rule sameSeats_seatsOk[rotated])
  qed
qed

lemma seatsOk_playMove:
  assumes "ratingsOnly callback" "seatsOk g" "afterCall (playMove g mv rnds callback) g'"
  shows "seatsOk g'"
proof (cases "moveType mv = DRAW")
  case True
  with assms(3) have "afterCall (playDrawMove rnds g) g'" by (simp add: playMove_def)
  from seats_playDrawMove[OF this] assms(2) show ?thesis by (rule sameSeats_seatsOk)
next
  case False
  have col: "seatsOk (g\<lparr>currentColor := col\<rparr>)" for col
    using assms(2) by (simp add: seatsOk_def)
  from False assms(3) consider "g' = g"
    | hand c curCard where "afterCall (applyCard (findIndex (\<lambda>n. n = currentPlayerIdx g) (activePlayers g))
         callback hand c curCard g) g'"
    | hand c curCard col where "afterCall (applyCard (findIndex (\<lambda>n. n = currentPlayerIdx g) (activePlayers g))
         callback hand c curCard (g\<lparr>currentColor := col\<rparr>)) g'"
    by (auto simp: playMove_def Let_def split: option.splits if_splits)
  then show ?thesis
  proof cases
    case 1
    with assms(2) show ?thesis by simp
  next
    case 2
    from seatsOk_applyCard[OF assms(1,2) this] show ?thesis .
  next
    case 3
    from seatsOk_applyCard[OF assms(1) col this] show ?thesis .
  qed
qed

lemma quitter_in_range:
  assumes "seatsOk g" "findIndex (\<lambda>n. n = quitterIdx g pid) (activePlayers g) \<noteq> - 1"
  shows "jsIndex (players g) (quitterIdx g pid) \<noteq> None"
proof -
  from assms(2) have "quitterIdx g pid \<in> set (activePlayers g)"
    by (auto simp: findIndex_none)
  with assms(1) show ?thesis
    by (auto simp: seatsOk_def list_all_iff jsIndex_def)
qed

lemma seatsOk_quitCardGame:
  assumes "ratingsOnly callback" "seatsOk g" "afterCall (quitCardGame g pid now callback) g'"
  shows "seatsOk g'"
proof (cases "findIndex (\<lambda>n. n = quitterIdx g pid) (activePlayers g) = - 1")
  case True
  with assms(2,3) show ?thesis by (simp add: quitCardGame_unfold)
next
  case False
  note p = quitter_in_range[OF assms(2) False]
  have range: "list_all (\<lambda>a. 0 \<le> a \<and> a < int (length (players (quitLogged g pid now))))
                 (activePlayers (quitLogged g pid now))"
    using assms(2) by (simp add: quitLogged_def seatsOk_def list_all_splice1)
  from assms(3) False p have
    "afterCall (andThen (updateIfGameEnded (quitLogged g pid now) callback)
             (\<lambda>g2. if quitterIdx g pid = currentPlayerIdx g2 then advanceMove g2 else Returns g2)) g'"
    by (simp add: quitCardGame_unfold)
  then show ?thesis
    unfolding afterCall_andThen
  proof (elim disjE exE conjE)
    fix e assume "updateIfGameEnded (quitLogged g pid now) callback = Throws e g'"
    then have "afterCall (updateIfGameEnded (quitLogged g pid now) callback) g'" by simp
    from seatsOk_updateIfGameEnded[OF assms(1) this range] show ?thesis .
  next
    fix s assume u: "updateIfGameEnded (quitLogged g pid now) callback = Returns s"
      and a: "afterCall (if quitterIdx g pid = currentPlayerIdx s then advanceMove s else Returns s) g'"
    from u have "afterCall (updateIfGameEnded (quitLogged g pid now) callback) s" by simp
    from seatsOk_updateIfGameEnded[OF assms(1) this range] have s: "seatsOk s" .
    from a have "sameSeats s g'"
      by (auto split: if_splits dest: seats_advanceMove)
    from this s show ?thesis by (rule sameSeats_seatsOk)
  qed
qed

lemma set_replaceFirst: "set (replaceFirst P y xs) \<subseteq> insert y (set xs)"
  by (induction xs) auto

lemma find_Some_in_set: "find P xs = Some x \<Longrightarrow> x \<in> set xs"
  by (auto simp: find_Some_iff)

lemma gamesOk_putGame: "gamesOk a \<Longrightarrow> seatsOk g \<Longrightarrow> gamesOk (putGame a gid g)"
  using set_replaceFirst[of "\<lambda>game. gameId game = gid" g "ongoingGames a"]
  by (auto simp: gamesOk_def putGame_def list_all_iff)

lemma gamesOk_find: "gamesOk a \<Longrightarrow> find P (ongoingGames a) = Some g \<Longrightarrow> seatsOk g"
  by (auto simp: gamesOk_def list_all_iff dest: find_Some_in_set)

lemma afterCall_inArea:
  "afterCall (inArea a gid r) a' \<longleftrightarrow> (\<exists>g'. afterCall r g' \<and> a' = putGame a gid g')"
  by (cases r) (auto simp: inArea_def)

lemma gamesOk_areaPlayMove:
  assumes "gamesOk a" "afterCall (areaPlayMove pw a gid pl mv rnds now) a'"
  shows "gamesOk a'"
proof (cases "find (\<lambda>game. gameId game = gid) (ongoingGames a)")
  case None
  with assms show ?thesis by (simp add: areaPlayMove_def)
next
  case (Some g)
  note ok = gamesOk_find[OF assms(1) Some]
  from assms(2) Some consider "a' = a"
    | g' where "afterCall (andThen (playMove g mv rnds (onGameEnd pw))
                        (\<lambda>g'. Returns (g'\<lparr>moves := moves g' @
                                 [\<lparr>movePlayerId = googleEmail pl, timestamp = now,
                                   move = Playable mv\<rparr>]\<rparr>))) g'" "a' = putGame a gid g'"
    by (auto simp: areaPlayMove_def afterCall_inArea split: if_splits option.splits)
  then show ?thesis
  proof cases
    case 1
    with assms(1) show ?thesis by simp
  next
    case 2
    from 2(1) have "seatsOk g'"
      unfolding afterCall_andThen
    proof (elim disjE exE conjE)
      fix e assume "playMove g mv rnds (onGameEnd pw) = Throws e g'"
      then have "afterCall (playMove g mv rnds (onGameEnd pw)) g'" by simp
      from seatsOk_playMove[OF ratingsOnly_onGameEnd ok this] show ?thesis .
    next
      fix s assume p: "playMove g mv rnds (onGameEnd pw) = Returns s"
        and r: "afterCall (Returns (s\<lparr>moves := moves s @
                  [\<lparr>movePlayerId = googleEmail pl, timestamp = now, move = Playable mv\<rparr>]\<rparr>)) g'"
      from p have "afterCall (playMove g mv rnds (onGameEnd pw)) s" by simp
      from seatsOk_playMove[OF ratingsOnly_onGameEnd ok this] r show ?thesis
        by (auto simp: seatsOk_def)
    qed
    with 2(2) assms(1) show ?thesis by (simp add: gamesOk_putGame)
  qed
qed

lemma gamesOk_skipMove:
  assumes "gamesOk a" "afterCall (skipMove a gid rnds now) a'"
  shows "gamesOk a'"
proof (cases "find (\<lambda>game. gameId game = gid) (ongoingGames a)")
  case None
  with assms show ?thesis by (simp add: skipMove_def)
next
  case (Some g)
  note ok = gamesOk_find[OF assms(1) Some]
  from assms(2) Some consider "a' = a"
    | g' m where "afterCall (playDrawMove rnds (g\<lparr>moves := m\<rparr>)) g'" "a' = putGame a gid g'"
    by (auto simp: skipMove_def afterCall_inArea split: if_splits option.splits)
  then show ?thesis
  proof cases
    case 1
    with assms(1) show ?thesis by simp
  next
    case 2
    have "seatsOk (g\<lparr>moves := m\<rparr>)" using ok by (simp add: seatsOk_def)
    with seats_playDrawMove[OF 2(1)] have "seatsOk g'" by (rule sameSeats_seatsOk)
    with 2(2) assms(1) show ?thesis by (simp add: gamesOk_putGame)
  qed
qed

lemma gamesOk_quitOngoingCardGame:
  assumes "gamesOk a" "afterCall (quitOngoingCardGame pw a gid pl now) a'"
  shows "gamesOk a'"
proof (cases "find (\<lambda>game. gameId game = gid) (ongoingGames a)")
  case None
  with assms show ?thesis by (simp add: quitOngoingCardGame_def)
next
  case (Some g)
  note ok = gamesOk_find[OF assms(1) Some]
  from assms(2) Some consider "a' = a"
    | g' where "afterCall (quitCardGame g (googleEmail pl) now (onGameEnd pw)) g'" "a' = putGame a gid g'"
    by (auto simp: quitOngoingCardGame_def afterCall_inArea split: if_splits)
  then show ?thesis
  proof cases
    case 1
    with assms(1) show ?thesis by simp
  next
    case 2
    from seatsOk_quitCardGame[OF ratingsOnly_onGameEnd ok 2(1)] 2(2) assms(1)
    show ?thesis by (simp add: gamesOk_putGame)
  qed
qed

lemma gamesOk_spectate:
  assumes "gamesOk a" "afterCall (spectateCardGame a gid pl) a'"
  shows "gamesOk a'"
proof (cases "find (\<lambda>game. gameId game = gid) (ongoingGames a)")
  case None
  with assms show ?thesis by (simp add: spectateCardGame_def)
next
  case (Some g)
  note ok = gamesOk_find[OF assms(1) Some]
  have "seatsOk (g\<lparr>spectators := s\<rparr>)" for s using ok by (simp add: seatsOk_def)
  with assms Some show ?thesis
    by (auto simp: spectateCardGame_def gamesOk_putGame split: if_splits)
qed

lemma gamesOk_stopSpectating:
  assumes "gamesOk a" "afterCall (stopSpectatingCardGame a gid pl) a'"
  shows "gamesOk a'"
proof (cases "find (\<lambda>game. gameId game = gid) (ongoingGames a)")
  case None
  with assms show ?thesis by (simp add: stopSpectatingCardGame_def)
next
  case (Some g)
  note ok = gamesOk_find[OF assms(1) Some]
  have "seatsOk (g\<lparr>spectators := s\<rparr>)" for s using ok by (simp add: seatsOk_def)
  with assms Some show ?thesis
    by (auto simp: stopSpectatingCardGame_def Let_def gamesOk_putGame split: if_splits)
qed

lemma gamesOk_ratingsArrive: "gamesOk a \<Longrightarrow> gamesOk (ratingsArrive a gid elos)"
proof (cases "find (\<lambda>game. gameId game = gid) (ongoingGames a)")
  case None
  then show "gamesOk a \<Longrightarrow> gamesOk (ratingsArrive a gid elos)" by (simp add: ratingsArrive_def)
next
  case (Some g)
  assume a: "gamesOk a"
  from gamesOk_find[OF a Some] have "seatsOk (storePrevEloRatings elos g)"
    by (simp add: seatsOk_def storePrevEloRatings_def)
  with a Some show "gamesOk (ratingsArrive a gid elos)"
    by (simp add: ratingsArrive_def gamesOk_putGame)
qed

lemma gamesOk_pending:
  "gamesOk a \<Longrightarrow> afterCall (createCardGame a pl newId) a' \<Longrightarrow> gamesOk a'"
  "gamesOk a \<Longrightarrow> afterCall (joinCardGame a gid pl) a' \<Longrightarrow> gamesOk a'"
  "gamesOk a \<Longrightarrow> afterCall (leaveNonStartedCardGame a gid pl) a' \<Longrightarrow> gamesOk a'"
  by (auto simp: createCardGame_def joinCardGame_def leaveNonStartedCardGame_def Let_def gamesOk_def
        split: option.splits if_splits prod.splits)

lemma seatsOk_newGame:
  "MIN_PLAYERS \<le> length (nsPlayers cardGame) \<Longrightarrow> seatsOk (newGame cardGame cards now)"
  by (simp add: newGame_def Let_def seatsOk_def MIN_PLAYERS_def list_all_iff)

lemma gamesOk_startCardGame:
  "gamesOk a \<Longrightarrow> afterCall (startCardGame a gid color rnds now) a' \<Longrightarrow> gamesOk a'"
  by (auto simp: startCardGame_def Let_def gamesOk_def seatsOk_newGame
        split: option.splits if_splits)

lemma reachableArea_gamesOk: "reachableArea pw a \<Longrightarrow> gamesOk a"
proof (induction rule: reachableArea.induct)
  case r_empty
  show ?case by (simp add: gamesOk_def)
next
  case (r_clear a)
  show ?case by (simp add: gamesOk_def clearGames_def)
qed (auto intro: gamesOk_pending gamesOk_startCardGame gamesOk_ratingsArrive gamesOk_areaPlayMove
       gamesOk_skipMove gamesOk_quitOngoingCardGame gamesOk_spectate gamesOk_stopSpectating)

section \<open>Playing a card\<close>

lemma playMove_accepted:
  assumes "moveType mv = PLAY" "moveCard mv = Some c" "\<not> rejected g mv"
    "jsIndex (hands g) (currentPlayerIdx g) = Some hand" "jsIndex hand c = Some curCard"
    "\<not> isWild curCard"
  shows "playMove g mv rnds callback =
           andThen (discardStage (findIndex (\<lambda>n. n = currentPlayerIdx g) (activePlayers g))
                      callback hand c curCard g)
                   (cardEffects curCard)"
  using assms
  by (auto simp: playMove_def rejected_def playedCard_def isWild_def applyCard_def PLAY_def DRAW_def
        split: option.splits)

lemma reverse_two:
  "length (activePlayers g1) = 2 \<Longrightarrow>
   cardEffects (ReverseCard col) g1 = andThen (advanceMove g1) advanceMove"
  by (cases "advanceMove g1")
     (simp_all add: cardEffects_def reverseEffect_def skipEffect_def drawEffect_def)

lemma reverse_more:
  "length (activePlayers g1) \<noteq> 2 \<Longrightarrow>
   cardEffects (ReverseCard col) g1 = advanceMove (g1\<lparr>playerDirection := \<not> playerDirection g1\<rparr>)"
  by (simp add: cardEffects_def reverseEffect_def skipEffect_def drawEffect_def)

lemma direction_advanceMove:
  "advanceMove g = Returns g' \<Longrightarrow> playerDirection g' = playerDirection g"
  by (auto dest!: advanceMove_Returns_ex)

lemma direction_advance_twice:
  "andThen (advanceMove g) advanceMove = Returns g' \<Longrightarrow> playerDirection g' = playerDirection g"
  by (auto simp: andThen_Returns_iff dest!: direction_advanceMove)

lemma discardStage_Returns:
  assumes "ratingsOnly callback" "discardStage activeIdx callback hand c curCard g = Returns g1"
  shows "playerDirection g1 = playerDirection g \<and> currentPlayerIdx g1 = currentPlayerIdx g \<and>
         players g1 = players g \<and>
         (splice1 hand c \<noteq> [] \<longrightarrow> activePlayers g1 = activePlayers g \<and> winners g1 = winners g) \<and>
         (splice1 hand c = [] \<and> length (splice1 (activePlayers g) activeIdx) \<noteq> 1 \<longrightarrow>
            activePlayers g1 = splice1 (activePlayers g) activeIdx \<and>
            winners g1 = winners g @ [currentPlayerIdx g]) \<and>
         (splice1 hand c = [] \<and> length (splice1 (activePlayers g) activeIdx) = 1 \<longrightarrow>
            activePlayers g1 = [] \<and>
            winners g1 = winners g @ [currentPlayerIdx g, splice1 (activePlayers g) activeIdx ! 0])"
proof (cases "splice1 hand c = []")
  case False
  with assms(2) show ?thesis
    by (auto simp: discardStage_def winCheck_def removeCard_def)
next
  case True
  let ?g0 = "(removeCard g hand c curCard)
               \<lparr>winners := winners (removeCard g hand c curCard) @ [currentPlayerIdx (removeCard g hand c curCard)],
                activePlayers := splice1 (activePlayers (removeCard g hand c curCard)) activeIdx\<rparr>"
  from True assms(2) have u: "updateIfGameEnded ?g0 callback = Returns g1"
    by (simp add: discardStage_def winCheck_def)
  from updateIfGameEnded_Returns[OF assms(1) u] True show ?thesis
    by (elim disjE conjE exE) (simp_all add: removeCard_def)
qed

lemma stepsFrom_back:
  assumes "0 \<le> idx" "idx < n" "0 < k" "int k \<le> n" "stepsFrom dir n idx k = idx"
  shows "int k = n"
proof -
  have "n dvd int k"
  proof (cases dir)
    case True
    with assms(5) have "(idx + int k) mod n = idx mod n" using assms(1,2) by (simp add: stepsFrom_def)
    then have "n dvd (idx + int k) - idx" by (simp add: mod_eq_dvd_iff)
    then show ?thesis by simp
  next
    case False
    with assms(5) have "(idx - int k) mod n = idx mod n" using assms(1,2) by (simp add: stepsFrom_def)
    then have "n dvd (idx - int k) - idx" by (simp add: mod_eq_dvd_iff)
    then show ?thesis by simp
  qed
  with assms(3) have "n \<le> int k" by (intro zdvd_imp_le) simp_all
  with assms(4) show ?thesis by simp
qed

lemma advanceMove_other:
  assumes "set (activePlayers g) = {a, b}" "a \<noteq> b" "indicesInRange g" "currentPlayerIdx g = a"
  shows "advanceMove g = Returns (g\<lparr>currentPlayerIdx := b\<rparr>)"
proof -
  let ?n = "int (length (players g))" and ?d = "playerDirection g"
  from assms(1) have ne: "activePlayers g \<noteq> []" by auto
  from assms(1,3) have rb: "0 \<le> b" "b < ?n" and ra: "0 \<le> a" "a < ?n"
    by (auto simp: indicesInRange_def list_all_iff)
  from advanceMove_returns[OF ne assms(3)] assms(4)
  obtain k where k: "0 < k" "k \<le> length (players g)"
    and r: "advanceMove g = Returns (g\<lparr>currentPlayerIdx := stepsFrom ?d ?n a k\<rparr>)"
    and m: "stepsFrom ?d ?n a k \<in> set (activePlayers g)"
    and least: "\<forall>j. 0 < j \<and> j < k \<longrightarrow> stepsFrom ?d ?n a j \<notin> set (activePlayers g)"
    by auto
  have "stepsFrom ?d ?n a k \<noteq> a"
  proof
    assume bk: "stepsFrom ?d ?n a k = a"
    from stepsFrom_back[OF ra k(1) _ bk] k(2) have kn: "int k = ?n" by simp
    from reach_active[OF ra rb, of ?d] obtain k' where k': "0 < k'" "k' \<le> nat ?n"
      "stepsFrom ?d ?n a k' = b" by blast
    from k'(3) bk assms(2) have "k' \<noteq> k" by auto
    with k'(2) kn have "k' < k" by simp
    with least k'(1) have "stepsFrom ?d ?n a k' \<notin> set (activePlayers g)" by blast
    with k'(3) assms(1) show False by simp
  qed
  with m assms(1) have "stepsFrom ?d ?n a k = b" by auto
  with r show ?thesis by simp
qed

lemma advanceMove_back_and_forth:
  assumes "set (activePlayers g) = {a, b}" "a \<noteq> b" "indicesInRange g" "currentPlayerIdx g = a"
  shows "andThen (advanceMove g) advanceMove = Returns g"
proof -
  have 1: "advanceMove g = Returns (g\<lparr>currentPlayerIdx := b\<rparr>)"
    by (rule advanceMove_other[OF assms])
  have "advanceMove (g\<lparr>currentPlayerIdx := b\<rparr>) = Returns (g\<lparr>currentPlayerIdx := b\<rparr>\<lparr>currentPlayerIdx := a\<rparr>)"
  proof (rule advanceMove_other)
    show "set (activePlayers (g\<lparr>currentPlayerIdx := b\<rparr>)) = {b, a}" using assms(1) by auto
    show "b \<noteq> a" using assms(2) by simp
    show "indicesInRange (g\<lparr>currentPlayerIdx := b\<rparr>)"
      using assms(1,3) by (auto simp: indicesInRange_def list_all_iff)
    show "currentPlayerIdx (g\<lparr>currentPlayerIdx := b\<rparr>) = b" by simp
  qed
  with 1 assms(4) show ?thesis by simp
qed

lemma playMove_play:
  assumes "moveType mv = PLAY" "moveCard mv = Some c" "\<not> rejected g mv"
  shows "\<exists>curCard. playedCard g c = Some curCard \<and>
           jsIndex (hands g) (currentPlayerIdx g) = Some (currentHand g) \<and>
           jsIndex (currentHand g) c = Some curCard \<and>
           playMove g mv rnds callback =
             andThen (discardStage (currentActiveIdx g) callback (currentHand g) c curCard
                        (withColor g mv curCard))
                     (cardEffects curCard)"
  using assms
  by (auto simp: playMove_def rejected_def playedCard_def isWild_def applyCard_def PLAY_def DRAW_def
        currentActiveIdx_def currentHand_def withColor_def
        split: option.splits if_splits)

lemma withColor_fields [simp]:
  "activePlayers (withColor g mv cd) = activePlayers g"
  "winners (withColor g mv cd) = winners g"
  "players (withColor g mv cd) = players g"
  "currentPlayerIdx (withColor g mv cd) = currentPlayerIdx g"
  "playerDirection (withColor g mv cd) = playerDirection g"
  "hands (withColor g mv cd) = hands g"
  by (simp_all add: withColor_def split: option.splits)

lemma withColor_not_wild [simp]: "\<not> isWild cd \<Longrightarrow> withColor g mv cd = g"
  by (simp add: withColor_def split: option.splits)

lemma splice1_single: "jsIndex hand c = Some x \<Longrightarrow> length hand = 1 \<Longrightarrow> splice1 hand c = []"
  by (cases hand) (auto simp: jsIndex_def splice1_def Let_def split: if_splits)

lemma splice1_more: "jsIndex hand c = Some x \<Longrightarrow> 1 < length hand \<Longrightarrow> splice1 hand c \<noteq> []"
  using length_splice1_valid[of c hand] by (auto simp: jsIndex_Some)

lemma currentActiveIdx_valid:
  "currentPlayerIdx g \<in> set (activePlayers g) \<Longrightarrow>
   0 \<le> currentActiveIdx g \<and> currentActiveIdx g < int (length (activePlayers g))"
  unfolding currentActiveIdx_def
  using findIndex_found[of "\<lambda>n. n = currentPlayerIdx g" "activePlayers g"]
  by (auto simp: findIndex_none)

lemma play_last_card_of_two:
  assumes "ratingsOnly callback" "moveType mv = PLAY" "moveCard mv = Some c" "\<not> rejected g mv"
    "length (currentHand g) = 1" "length (activePlayers g) = 2"
    "currentPlayerIdx g \<in> set (activePlayers g)"
    "playMove g mv rnds callback = Returns g'"
  shows "activePlayers g' = [] \<and>
         winners g' = winners g @
            [currentPlayerIdx g, splice1 (activePlayers g) (currentActiveIdx g) ! 0]"
proof -
  from playMove_play[OF assms(2,3,4), of rnds callback] obtain curCard where
    cc: "jsIndex (currentHand g) c = Some curCard"
    and pm: "playMove g mv rnds callback =
             andThen (discardStage (currentActiveIdx g) callback (currentHand g) c curCard
                        (withColor g mv curCard))
                     (cardEffects curCard)"
    by blast
  from assms(8)[unfolded pm] obtain g1 where
    d: "discardStage (currentActiveIdx g) callback (currentHand g) c curCard (withColor g mv curCard)
          = Returns g1"
    and e: "cardEffects curCard g1 = Returns g'"
    by (auto simp: andThen_Returns_iff)
  have emp: "splice1 (currentHand g) c = []" by (rule splice1_single[OF cc assms(5)])
  from currentActiveIdx_valid[OF assms(7)] assms(6)
  have one: "length (splice1 (activePlayers g) (currentActiveIdx g)) = 1"
    using length_splice1_valid[of "currentActiveIdx g" "activePlayers g"] by simp
  from discardStage_Returns[OF assms(1) d] emp one
  have "activePlayers g1 = [] \<and>
        winners g1 = winners g @ [currentPlayerIdx g, splice1 (activePlayers g) (currentActiveIdx g) ! 0]"
    by simp
  moreover have "sameSeats g1 g'" by (rule seats_cardEffects[of curCard]) (simp add: e)
  ultimately show ?thesis by (simp add: sameSeats_def)
qed

lemma quit_one_of_two:
  assumes "length (activePlayers g) = 2" "quitterIdx g pid \<in> set (activePlayers g)"
  shows "length (activePlayers (quitLogged g pid now)) = 1"
proof -
  from assms(2) have "findIndex (\<lambda>n. n = quitterIdx g pid) (activePlayers g) \<noteq> - 1"
    by (auto simp: findIndex_none)
  from findIndex_found[OF this] assms(1)
  show ?thesis
    using length_splice1_valid[of "findIndex (\<lambda>n. n = quitterIdx g pid) (activePlayers g)" "activePlayers g"]
    by (simp add: quitLogged_def)
qed

lemma reverse_play:
  assumes "ratingsOnly callback" "moveType mv = PLAY" "moveCard mv = Some c" "\<not> rejected g mv"
    "playedCard g c = Some (ReverseCard col)"
  shows "playMove g mv rnds callback =
           andThen (discardStage (currentActiveIdx g) callback (currentHand g) c (ReverseCard col) g)
                   (cardEffects (ReverseCard col))"
    and "jsIndex (currentHand g) c = Some (ReverseCard col)"
proof -
  from playMove_play[OF assms(2,3,4), of rnds callback] assms(5)
  show "playMove g mv rnds callback =
           andThen (discardStage (currentActiveIdx g) callback (currentHand g) c (ReverseCard col) g)
                   (cardEffects (ReverseCard col))"
    and "jsIndex (currentHand g) c = Some (ReverseCard col)"
    by (auto simp: isWild_def)
qed

lemma reverse_after_discard:
  assumes "ratingsOnly callback" "moveType mv = PLAY" "moveCard mv = Some c" "\<not> rejected g mv"
    "playedCard g c = Some (ReverseCard col)"
    "discardStage (currentActiveIdx g) callback (currentHand g) c (ReverseCard col) g = Returns g1"
  shows "playerDirection g1 = playerDirection g"
    and "1 < length (currentHand g) \<longrightarrow> g1 = removeCard g (currentHand g) c (ReverseCard col)"
    and "length (activePlayers g1) = 2 \<longrightarrow>
           playMove g mv rnds callback = andThen (advanceMove g1) advanceMove \<and>
           (\<forall>g'. playMove g mv rnds callback = Returns g' \<longrightarrow> playerDirection g' = playerDirection g)"
    and "length (activePlayers g1) \<noteq> 2 \<longrightarrow>
           playMove g mv rnds callback = advanceMove (g1\<lparr>playerDirection := \<not> playerDirection g\<rparr>) \<and>
           (\<forall>g'. playMove g mv rnds callback = Returns g' \<longrightarrow>
                 playerDirection g' = (\<not> playerDirection g))"
proof -
  note pm = reverse_play[OF assms(1-5)]
  from discardStage_Returns[OF assms(1,6)] show dir: "playerDirection g1 = playerDirection g" by simp
  show "1 < length (currentHand g) \<longrightarrow> g1 = removeCard g (currentHand g) c (ReverseCard col)"
    using assms(6) splice1_more[OF pm(2)]
    by (auto simp: discardStage_def winCheck_def)
  from pm(1) assms(6) have eq: "playMove g mv rnds callback = cardEffects (ReverseCard col) g1"
    by simp
  show "length (activePlayers g1) = 2 \<longrightarrow>
           playMove g mv rnds callback = andThen (advanceMove g1) advanceMove \<and>
           (\<forall>g'. playMove g mv rnds callback = Returns g' \<longrightarrow> playerDirection g' = playerDirection g)"
    using eq dir by (auto simp: reverse_two dest: direction_advance_twice)
  show "length (activePlayers g1) \<noteq> 2 \<longrightarrow>
           playMove g mv rnds callback = advanceMove (g1\<lparr>playerDirection := \<not> playerDirection g\<rparr>) \<and>
           (\<forall>g'. playMove g mv rnds callback = Returns g' \<longrightarrow>
                 playerDirection g' = (\<not> playerDirection g))"
    using eq dir by (auto simp: reverse_more dest: direction_advanceMove)
qed

lemma reverse_two_player_game:
  assumes "ratingsOnly callback" "moveType mv = PLAY" "moveCard mv = Some c" "\<not> rejected g mv"
    "playedCard g c = Some (ReverseCard col)"
    "1 < length (currentHand g)" "set (activePlayers g) = {a, b}" "a \<noteq> b"
    "length (activePlayers g) = 2" "indicesInRange g" "currentPlayerIdx g = a"
  shows "playMove g mv rnds callback = Returns (removeCard g (currentHand g) c (ReverseCard col))"
proof -
  let ?g1 = "removeCard g (currentHand g) c (ReverseCard col)"
  note pm = reverse_play[OF assms(1-5)]
  have d: "discardStage (currentActiveIdx g) callback (currentHand g) c (ReverseCard col) g = Returns ?g1"
    using splice1_more[OF pm(2) assms(6)] by (simp add: discardStage_def winCheck_def)
  have f: "activePlayers ?g1 = activePlayers g" "currentPlayerIdx ?g1 = currentPlayerIdx g"
    "players ?g1 = players g"
    by (simp_all add: removeCard_def)
  from reverse_after_discard(3)[OF assms(1-5) d, of rnds] f assms(9)
  have "playMove g mv rnds callback = andThen (advanceMove ?g1) advanceMove" by simp
  also have "\<dots> = Returns ?g1"
    by (rule advanceMove_back_and_forth[of _ a b])
       (use f assms(7,8,10,11) in \<open>simp_all add: indicesInRange_def\<close>)
  finally show ?thesis .
qed

section \<open>Dealing\<close>

lemma swapAt_same: "i < length xs \<Longrightarrow> swapAt i i xs = xs"
  by (simp add: swapAt_def)

lemma shuffleFrom_zero:
  assumes "\<forall>i. rnd i = 0"
  shows "shuffleFrom rnd i xs = xs"
proof (induction "length xs - i" arbitrary: i)
  case 0
  then show ?case by (subst shuffleFrom.simps) simp
next
  case (Suc d)
  show ?case
  proof (cases "i + 1 < length xs")
    case True
    then have "shuffleFrom rnd i xs = shuffleFrom rnd (i + 1) (swapAt i i xs)"
      using assms by (subst shuffleFrom.simps) simp
    also have "\<dots> = shuffleFrom rnd (i + 1) xs" using True by (simp add: swapAt_same)
    also have "\<dots> = xs" using Suc.hyps(2) by (intro Suc.hyps(1)) simp
    finally show ?thesis .
  next
    case False
    then show ?thesis by (subst shuffleFrom.simps) simp
  qed
qed

lemma shuffleFrom_before: "p < i \<Longrightarrow> shuffleFrom rnd i xs ! p = xs ! p"
proof (induction rnd i xs rule: shuffleFrom.induct)
  case (1 rnd i cards)
  show ?case
  proof (cases "i + 1 < length cards")
    case True
    have "shuffleFrom rnd i cards ! p
            = shuffleFrom rnd (i + 1) (swapAt i (i + rnd i mod (length cards - i)) cards) ! p"
      using True by (subst shuffleFrom.simps) simp
    also have "\<dots> = swapAt i (i + rnd i mod (length cards - i)) cards ! p"
      using 1(1)[OF True] 1(2) by simp
    also have "\<dots> = cards ! p"
      using 1(2) by (simp add: swapAt_def)
    finally show ?thesis .
  next
    case False
    then show ?thesis by (subst shuffleFrom.simps) simp
  qed
qed

lemma shuffleFrom_zero_prefix:
  "(\<forall>i'. i \<le> i' \<and> i' < m \<longrightarrow> rnd i' = 0) \<Longrightarrow> i \<le> m \<Longrightarrow> m < length xs \<Longrightarrow>
   shuffleFrom rnd i xs = shuffleFrom rnd m xs"
proof (induction "m - i" arbitrary: i)
  case 0
  then show ?case by simp
next
  case (Suc d)
  then have lt: "i < m" and z: "rnd i = 0" by auto
  with Suc.prems have "i + 1 < length xs" by simp
  then have "shuffleFrom rnd i xs = shuffleFrom rnd (i + 1) (swapAt i i xs)"
    using z by (subst shuffleFrom.simps) simp
  also have "\<dots> = shuffleFrom rnd (i + 1) xs"
    using Suc.prems lt by (simp add: swapAt_same)
  also have "\<dots> = shuffleFrom rnd m xs"
    using Suc.hyps(2) Suc.prems lt by (intro Suc.hyps(1)) auto
  finally show ?case .
qed

lemma genUnoDeck_64: "genUnoDeck None ! 64 = WildCard"
proof -
  let ?front = "concat (map (\<lambda>cardColor. colorCards (actualColor None cardColor)) ALL_CARD_COLORS)"
  have "length ?front = 64"
    by (simp add: ALL_CARD_COLORS_def length_colorCards)
  then have "genUnoDeck None ! 64 = concat (replicate 4 [WildCard, WildDrawFourCard]) ! 0"
    unfolding genUnoDeck_def by (simp add: nth_append)
  then show ?thesis by (simp add: numeral_eq_Suc)
qed

lemma first_shuffle_wild: "shuffleCards (wildOnTop 0) (genUnoDeck None) ! 14 = WildCard"
proof -
  let ?d = "genUnoDeck None"
  have len: "length ?d = 72" by (rule length_genUnoDeck_None)
  have "shuffleFrom (wildOnTop 0) 0 ?d = shuffleFrom (wildOnTop 0) 14 ?d"
    by (rule shuffleFrom_zero_prefix) (simp_all add: wildOnTop_def len)
  also have "\<dots> = shuffleFrom (wildOnTop 0) 15 (swapAt 14 64 ?d)"
    by (subst shuffleFrom.simps) (simp add: len wildOnTop_def)
  finally have "shuffleCards (wildOnTop 0) ?d ! 14 = swapAt 14 64 ?d ! 14"
    by (simp add: shuffleCards_def shuffleFrom_before)
  also have "\<dots> = ?d ! 64" by (simp add: swapAt_def len)
  finally show ?thesis by (simp add: genUnoDeck_64)
qed

lemma dealLoop_stuck:
  "isWild (cards ! (n * DEFAULT_HAND_SIZE)) \<Longrightarrow> (\<forall>j' \<ge> j. \<forall>i. rnds j' i = 0) \<Longrightarrow>
   dealLoop rnds n k j cards = None"
proof (induction k arbitrary: j)
  case 0
  show ?case by simp
next
  case (Suc k)
  from Suc.prems(2) have "shuffleCards (rnds j) cards = cards"
    by (simp add: shuffleCards_def shuffleFrom_zero)
  with Suc.prems Suc.IH[of "j + 1"] show ?case by simp
qed

lemma dealLoop_None_iff:
  "dealLoop rnds n k j cards = None \<longleftrightarrow>
     (\<forall>m < k. isWild (laterDeck rnds j cards m ! (n * DEFAULT_HAND_SIZE)))"
proof (induction k arbitrary: j cards)
  case 0
  show ?case by simp
next
  case (Suc k)
  have "(\<forall>m < Suc k. isWild (laterDeck rnds j cards m ! (n * DEFAULT_HAND_SIZE))) \<longleftrightarrow>
        isWild (laterDeck rnds j cards 0 ! (n * DEFAULT_HAND_SIZE)) \<and>
        (\<forall>m < k. isWild (laterDeck rnds j cards (Suc m) ! (n * DEFAULT_HAND_SIZE)))"
    by (metis less_Suc_eq_0_disj)
  with Suc.IH[of "j + 1" "shuffleCards (rnds j) cards"] show ?case
    by (simp add: Let_def)
qed

lemma dealLoop_Some:
  "dealLoop rnds n k j cards = Some d \<Longrightarrow>
     \<exists>m < k. d = laterDeck rnds j cards m \<and> \<not> isWild (d ! (n * DEFAULT_HAND_SIZE)) \<and>
       (\<forall>m' < m. isWild (laterDeck rnds j cards m' ! (n * DEFAULT_HAND_SIZE)))"
proof (induction k arbitrary: j cards)
  case 0
  then show ?case by simp
next
  case (Suc k)
  show ?case
  proof (cases "isWild (shuffleCards (rnds j) cards ! (n * DEFAULT_HAND_SIZE))")
    case False
    with Suc.prems have "d = laterDeck rnds j cards 0" by (simp add: Let_def)
    with False show ?thesis by (intro exI[of _ 0]) simp
  next
    case True
    with Suc.prems have "dealLoop rnds n k (j + 1) (shuffleCards (rnds j) cards) = Some d"
      by (simp add: Let_def)
    from Suc.IH[OF this] obtain m where m: "m < k"
      "d = laterDeck rnds (j + 1) (shuffleCards (rnds j) cards) m"
      "\<not> isWild (d ! (n * DEFAULT_HAND_SIZE))"
      "\<forall>m' < m. isWild (laterDeck rnds (j + 1) (shuffleCards (rnds j) cards) m' ! (n * DEFAULT_HAND_SIZE))"
      by blast
    have "\<forall>m' < Suc m. isWild (laterDeck rnds j cards m' ! (n * DEFAULT_HAND_SIZE))"
    proof (intro allI impI)
      fix m' assume "m' < Suc m"
      then show "isWild (laterDeck rnds j cards m' ! (n * DEFAULT_HAND_SIZE))"
        using True m(4) by (cases m') auto
    qed
    with m show ?thesis by (intro exI[of _ "Suc m"]) simp
  qed
qed

lemma length_laterDeck [simp]: "length (laterDeck rnds j cards m) = length cards"
  by (induction m arbitrary: j cards) simp_all

lemma set_shuffleCards [simp]: "set (shuffleCards rnd xs) = set xs"
  by (metis mset_shuffleCards set_mset_mset)

lemma set_laterDeck [simp]: "set (laterDeck rnds j cards m) = set cards"
  by (induction m arbitrary: j cards) simp_all

lemma length_genUnoDeck_ge: "64 \<le> length (genUnoDeck color)"
  by (cases color) (simp_all add: length_genUnoDeck_None length_genUnoDeck_Some)

lemma deal_indices_in_deck:
  "n \<le> MAX_PLAYERS \<Longrightarrow>
   n * DEFAULT_HAND_SIZE + 2 < length (laterDeck rnds j (genUnoDeck color) m)"
  using length_genUnoDeck_ge[of color] by (simp add: MAX_PLAYERS_def DEFAULT_HAND_SIZE_def)

lemma startCardGame_valid:
  assumes "findIndex (\<lambda>game. nsId game = gid) (nonStartedGames a) \<noteq> - 1"
    "MIN_PLAYERS \<le> length (nsPlayers (nonStartedGames a ! nat (findIndex (\<lambda>game. nsId game = gid) (nonStartedGames a))))"
    "length (nsPlayers (nonStartedGames a ! nat (findIndex (\<lambda>game. nsId game = gid) (nonStartedGames a)))) \<le> MAX_PLAYERS"
  shows "startCardGame a gid color rnds now =
     (case dealLoop rnds
             (length (nsPlayers (nonStartedGames a ! nat (findIndex (\<lambda>game. nsId game = gid) (nonStartedGames a)))))
             100 0 (genUnoDeck color) of
        None \<Rightarrow> Throws FailedToDealCards
                  (a\<lparr>nonStartedGames := splice1 (nonStartedGames a)
                        (findIndex (\<lambda>game. nsId game = gid) (nonStartedGames a))\<rparr>)
      | Some cards \<Rightarrow>
          Returns (a\<lparr>nonStartedGames := splice1 (nonStartedGames a)
                        (findIndex (\<lambda>game. nsId game = gid) (nonStartedGames a)),
                     ongoingGames := ongoingGames a @
                       [newGame (nonStartedGames a ! nat (findIndex (\<lambda>game. nsId game = gid) (nonStartedGames a)))
                          cards now]\<rparr>))"
  using assms by (simp add: startCardGame_def Let_def split: option.splits)

lemma startCardGame_fails_iff:
  assumes "findIndex (\<lambda>game. nsId game = gid) (nonStartedGames a) \<noteq> - 1"
    "MIN_PLAYERS \<le> length (nsPlayers (nonStartedGames a ! nat (findIndex (\<lambda>game. nsId game = gid) (nonStartedGames a))))"
    "length (nsPlayers (nonStartedGames a ! nat (findIndex (\<lambda>game. nsId game = gid) (nonStartedGames a)))) \<le> MAX_PLAYERS"
  shows "(\<exists>a'. startCardGame a gid color rnds now = Throws FailedToDealCards a') \<longleftrightarrow>
         (\<forall>m < 100. isWild (laterDeck rnds 0 (genUnoDeck color) m !
            (length (nsPlayers (nonStartedGames a ! nat (findIndex (\<lambda>game. nsId game = gid) (nonStartedGames a))))
               * DEFAULT_HAND_SIZE)))"
    and "startCardGame a gid color rnds now = Throws e a' \<Longrightarrow>
           e = FailedToDealCards \<and>
           a' = a\<lparr>nonStartedGames := splice1 (nonStartedGames a)
                        (findIndex (\<lambda>game. nsId game = gid) (nonStartedGames a))\<rparr>"
  unfolding startCardGame_valid[OF assms] dealLoop_None_iff[symmetric]
  by (auto split: option.splits)

lemma no_wild_filtered: "c \<in> set (genUnoDeck (Some col)) \<Longrightarrow> \<not> isWild c"
  using no_wild_genUnoDeck_Some[of col] by (cases c) (auto simp: isWild_def)

lemma dealLoop_filtered:
  assumes "n \<le> MAX_PLAYERS" "0 < k"
  shows "dealLoop rnds n k 0 (genUnoDeck (Some col)) \<noteq> None"
proof -
  let ?d = "laterDeck rnds 0 (genUnoDeck (Some col)) 0"
  from deal_indices_in_deck[OF assms(1), of rnds 0 "Some col" 0]
  have "?d ! (n * DEFAULT_HAND_SIZE) \<in> set ?d" by (intro nth_mem) simp
  then have "\<not> isWild (?d ! (n * DEFAULT_HAND_SIZE))"
    by (intro no_wild_filtered[of _ col]) simp
  with assms(2) show ?thesis
    unfolding dealLoop_None_iff by blast
qed

lemma pendingArea_reachable: "reachableArea pw pendingArea"
proof -
  have 0: "reachableArea pw \<lparr>nonStartedGames = [], ongoingGames = []\<rparr>" by (rule r_empty)
  have "createCardGame \<lparr>nonStartedGames = [], ongoingGames = []\<rparr> aliceUser ''game''
          = Returns \<lparr>nonStartedGames = [\<lparr>nsId = ''game'', nsPlayers = [alice]\<rparr>], ongoingGames = []\<rparr>"
    by (simp add: createCardGame_def aliceUser_def alice_def)
  with 0 have 1: "reachableArea pw \<lparr>nonStartedGames = [\<lparr>nsId = ''game'', nsPlayers = [alice]\<rparr>], ongoingGames = []\<rparr>"
    by (auto intro: r_create[where pl = aliceUser and newId = "''game''"])
  have "joinCardGame \<lparr>nonStartedGames = [\<lparr>nsId = ''game'', nsPlayers = [alice]\<rparr>], ongoingGames = []\<rparr>
          ''game'' bobUser = Returns pendingArea"
    by (simp add: joinCardGame_def bobUser_def bob_def alice_def pendingArea_def)
  with 1 show ?thesis
    by (auto intro: r_join[where gid = "''game''" and pl = bobUser])
qed

lemma start_pendingArea:
  "startCardGame pendingArea ''game'' color rnds now =
     (case dealLoop rnds 2 100 0 (genUnoDeck color) of
        None \<Rightarrow> Throws FailedToDealCards \<lparr>nonStartedGames = [], ongoingGames = []\<rparr>
      | Some cards \<Rightarrow>
          Returns \<lparr>nonStartedGames = [],
                    ongoingGames = [newGame \<lparr>nsId = ''game'', nsPlayers = [alice, bob]\<rparr> cards now]\<rparr>)"
  by (simp add: startCardGame_def pendingArea_def findIndex_def MIN_PLAYERS_def MAX_PLAYERS_def
        splice1_def Let_def numeral_2_eq_2 split: option.splits)

lemma pendingArea_starts:
  "\<exists>cards. startCardGame pendingArea ''game'' (Some ''red'') rnds now =
     Returns \<lparr>nonStartedGames = [],
               ongoingGames = [newGame \<lparr>nsId = ''game'', nsPlayers = [alice, bob]\<rparr> cards now]\<rparr>"
proof -
  from dealLoop_filtered[of 2 100 rnds "''red''"]
  obtain cards where "dealLoop rnds 2 100 0 (genUnoDeck (Some ''red'')) = Some cards"
    by (auto simp: MAX_PLAYERS_def)
  then show ?thesis by (auto simp: start_pendingArea)
qed

lemma failing_deal:
  "startCardGame pendingArea ''game'' None wildOnTop 0 =
     Throws FailedToDealCards \<lparr>nonStartedGames = [], ongoingGames = []\<rparr>"
proof -
  have w: "isWild (shuffleCards (wildOnTop 0) (genUnoDeck None) ! (2 * DEFAULT_HAND_SIZE))"
    by (simp add: DEFAULT_HAND_SIZE_def first_shuffle_wild isWild_def)
  have "dealLoop wildOnTop 2 (Suc 99) 0 (genUnoDeck None)
          = dealLoop wildOnTop 2 99 1 (shuffleCards (wildOnTop 0) (genUnoDeck None))"
    by (subst dealLoop.simps) (simp add: Let_def w del: dealLoop.simps)
  also have "\<dots> = None"
    by (rule dealLoop_stuck[OF w]) (simp add: wildOnTop_def)
  finally have stuck: "dealLoop wildOnTop 2 (Suc 99) 0 (genUnoDeck None) = None" .
  have h: "(100::nat) = Suc 99" by simp
  have "dealLoop wildOnTop 2 100 0 (genUnoDeck None) = None"
    by (subst h) (rule stuck)
  then show ?thesis by (simp add: start_pendingArea)
qed

lemma retry_fails:
  "startCardGame \<lparr>nonStartedGames = [], ongoingGames = []\<rparr> ''game'' None wildOnTop 1 =
     Throws NoGameWithThisId \<lparr>nonStartedGames = [], ongoingGames = []\<rparr>"
  by (simp add: startCardGame_def findIndex_def)

section \<open>The end of a game\<close>

text \<open>
  C6. In every state an area reaches, each ongoing game has no active player or at least
  two. The mechanism: \<^verbatim>\<open>updateIfGameEnded\<close>, on a game with exactly one active player,
  hands the callback the game with that player appended to the winners and
  \<^verbatim>\<open>activePlayers\<close> emptied; so a play move that returns after the current player, one of
  two active players, has played the last card leaves \<^verbatim>\<open>activePlayers\<close> empty and has
  appended the winner and then the other player to \<^verbatim>\<open>winners\<close>, and a quit of one of two
  active players that returns leaves \<^verbatim>\<open>activePlayers\<close> empty and has appended the other
  player to \<^verbatim>\<open>winners\<close>.
\<close>

theorem active_players_never_exactly_one:
  "(reachableArea pw a \<longrightarrow>
      (\<forall>g \<in> set (ongoingGames a). activePlayers g = [] \<or> 2 \<le> length (activePlayers g))) \<and>
   (length (activePlayers g) = 1 \<longrightarrow>
      updateIfGameEnded g callback =
        callback (g\<lparr>winners := winners g @ [activePlayers g ! 0], activePlayers := []\<rparr>)) \<and>
   (ratingsOnly callback \<and> moveType mv = PLAY \<and> moveCard mv = Some c \<and> \<not> rejected g mv \<and>
    length (currentHand g) = 1 \<and> length (activePlayers g) = 2 \<and>
    currentPlayerIdx g \<in> set (activePlayers g) \<and>
    playMove g mv rnds callback = Returns g' \<longrightarrow>
      activePlayers g' = [] \<and>
      winners g' = winners g @
        [currentPlayerIdx g, splice1 (activePlayers g) (currentActiveIdx g) ! 0]) \<and>
   (ratingsOnly callback \<and> length (activePlayers g) = 2 \<and>
    quitterIdx g pid \<in> set (activePlayers g) \<and>
    quitCardGame g pid now callback = Returns g'' \<longrightarrow>
      activePlayers g'' = [] \<and>
      winners g'' = winners g @ [activePlayers (quitLogged g pid now) ! 0])"
proof (intro conjI impI)
  assume "reachableArea pw a"
  from reachableArea_gamesOk[OF this]
  show "\<forall>g \<in> set (ongoingGames a). activePlayers g = [] \<or> 2 \<le> length (activePlayers g)"
  proof (intro ballI)
    fix g assume "gamesOk a" "g \<in> set (ongoingGames a)"
    then have "length (activePlayers g) \<noteq> 1"
      by (auto simp: gamesOk_def seatsOk_def list_all_iff)
    then have "length (activePlayers g) = 0 \<or> 2 \<le> length (activePlayers g)"
      by linarith
    then show "activePlayers g = [] \<or> 2 \<le> length (activePlayers g)"
      by simp
  qed
next
  assume "length (activePlayers g) = 1"
  then show "updateIfGameEnded g callback =
        callback (g\<lparr>winners := winners g @ [activePlayers g ! 0], activePlayers := []\<rparr>)"
    by (simp add: updateIfGameEnded_def)
next
  assume a: "ratingsOnly callback \<and> moveType mv = PLAY \<and> moveCard mv = Some c \<and> \<not> rejected g mv \<and>
    length (currentHand g) = 1 \<and> length (activePlayers g) = 2 \<and>
    currentPlayerIdx g \<in> set (activePlayers g) \<and>
    playMove g mv rnds callback = Returns g'"
  then have r: "activePlayers g' = [] \<and>
      winners g' = winners g @
        [currentPlayerIdx g, splice1 (activePlayers g) (currentActiveIdx g) ! 0]"
    by (intro play_last_card_of_two[of callback mv c g rnds g']) simp_all
  from r show "activePlayers g' = []" by simp
  from r show "winners g' = winners g @
        [currentPlayerIdx g, splice1 (activePlayers g) (currentActiveIdx g) ! 0]" by simp
next
  assume a: "ratingsOnly callback \<and> length (activePlayers g) = 2 \<and>
    quitterIdx g pid \<in> set (activePlayers g) \<and>
    quitCardGame g pid now callback = Returns g''"
  then have one: "length (activePlayers (quitLogged g pid now)) = 1"
    by (intro quit_one_of_two) simp_all
  from a have "ratingsOnly callback" "quitCardGame g pid now callback = Returns g''" by simp_all
  note f = quitCardGame_frame[OF this, THEN conjunct2, THEN conjunct2, rule_format, OF one]
  from f obtain e where
    g: "g'' = (quitLogged g pid now)
                 \<lparr>winners := winners g @ [activePlayers (quitLogged g pid now) ! 0],
                  activePlayers := [], eloRatingChanges := e\<rparr>"
    by blast
  show "activePlayers g'' = []" by (simp add: g)
  show "winners g'' = winners g @ [activePlayers (quitLogged g pid now) ! 0]" by (simp add: g)
qed

text \<open>
  Alice and Bob create, join and start a game: the area reached holds one game, with
  two active players. And Alice, one of two active players, plays her last card: the game
  is over, with Alice first and Bob second.
\<close>

theorem active_players_never_exactly_one_witness:
  "(\<exists>a'. startCardGame pendingArea ''game'' (Some ''red'') noShuffle 0 = Returns a' \<and>
         length (ongoingGames a') = 1 \<and>
         list_all (\<lambda>g. activePlayers g = [] \<or> 2 \<le> length (activePlayers g)) (ongoingGames a')) \<and>
   (\<exists>g'. playMove (twoPlayerGame\<lparr>hands := [[NumberCard ''red'' 3], [SkipCard ''blue'']]\<rparr>)
            \<lparr>moveType = False, moveCard = Some 0, moveColor = None\<rparr> noShuffle (onGameEnd nearestPower)
          = Returns g' \<and>
         activePlayers g' = [] \<and> winners g' = [0, 1])"
proof -
  from pendingArea_starts[of noShuffle 0] obtain a' where
    s: "startCardGame pendingArea ''game'' (Some ''red'') noShuffle 0 = Returns a'"
    and l: "length (ongoingGames a') = 1"
    by auto
  from s have "afterCall (startCardGame pendingArea ''game'' (Some ''red'') noShuffle 0) a'"
    by simp
  with pendingArea_reachable have "reachableArea nearestPower a'" by (rule r_start)
  from active_players_never_exactly_one[where a = a', THEN conjunct1, rule_format, OF this]
  have "list_all (\<lambda>g. activePlayers g = [] \<or> 2 \<le> length (activePlayers g)) (ongoingGames a')"
    by (simp add: list_all_iff)
  with s l have 1: "\<exists>a'. startCardGame pendingArea ''game'' (Some ''red'') noShuffle 0 = Returns a' \<and>
         length (ongoingGames a') = 1 \<and>
         list_all (\<lambda>g. activePlayers g = [] \<or> 2 \<le> length (activePlayers g)) (ongoingGames a')"
    by blast
  let ?g = "twoPlayerGame\<lparr>hands := [[NumberCard ''red'' 3], [SkipCard ''blue'']]\<rparr>"
  let ?mv = "\<lparr>moveType = False, moveCard = Some 0, moveColor = None\<rparr>"
  obtain g' where r: "playMove ?g ?mv noShuffle (onGameEnd nearestPower) = Returns g'"
    by (simp add: game_defs op_defs elo_defs floor_eq_iff)
  have hyps: "moveType ?mv = PLAY" "moveCard ?mv = Some 0" "\<not> rejected ?g ?mv"
    "length (currentHand ?g) = 1" "length (activePlayers ?g) = 2"
    "currentPlayerIdx ?g \<in> set (activePlayers ?g)"
    by (simp_all add: PLAY_def rejected_def playedCard_def currentHand_def jsIndex_def isWild_def
          game_defs)
  have "activePlayers g' = [] \<and>
        winners g' = winners ?g @ [currentPlayerIdx ?g, splice1 (activePlayers ?g) (currentActiveIdx ?g) ! 0]"
    by (rule active_players_never_exactly_one
         [where g = ?g and mv = ?mv and c = 0 and callback = "onGameEnd nearestPower" and rnds = noShuffle
            and g' = g', THEN conjunct2, THEN conjunct2, THEN conjunct1, rule_format])
       (intro conjI ratingsOnly_onGameEnd hyps r)
  then have "activePlayers g' = [] \<and> winners g' = [0, 1]"
    by (simp add: game_defs currentActiveIdx_def findIndex_def splice1_def)
  with r have 2: "\<exists>g'. playMove ?g ?mv noShuffle (onGameEnd nearestPower) = Returns g' \<and>
         activePlayers g' = [] \<and> winners g' = [0, 1]"
    by blast
  from 1 2 show ?thesis by (rule conjI)
qed

section \<open>The reverse card\<close>

text \<open>
  C5. A reverse card is played and the move is not rejected. Let \<open>g1\<close> be the game at the
  point where the card takes effect: the card is on the discard pile and, if it was the
  player's last card, the player has left \<^verbatim>\<open>activePlayers\<close>. \<^verbatim>\<open>playerDirection\<close> has not
  changed so far. If exactly two active players remain in \<open>g1\<close>, \<^verbatim>\<open>playMove\<close> is
  \<^verbatim>\<open>advanceMove\<close> run twice on \<open>g1\<close> (the skip and the move's own advance), and
  \<^verbatim>\<open>playerDirection\<close> is the same after the move as before. If their number is another
  one (more than two, or none because the game has just ended), \<^verbatim>\<open>playMove\<close> flips
  \<^verbatim>\<open>playerDirection\<close> and runs \<^verbatim>\<open>advanceMove\<close> once. In particular, in a game of two
  active players the player who plays a reverse card and keeps a card is to move again:
  the move returns the game as it was after the card was discarded, turn and direction
  unchanged.
\<close>

theorem reverse_with_two_active_players:
  "ratingsOnly callback \<and> moveType mv = PLAY \<and> moveCard mv = Some c \<and> \<not> rejected g mv \<and>
   playedCard g c = Some (ReverseCard col) \<longrightarrow>
     playMove g mv rnds callback =
       andThen (discardStage (currentActiveIdx g) callback (currentHand g) c (ReverseCard col) g)
               (cardEffects (ReverseCard col)) \<and>
     (\<forall>g1. discardStage (currentActiveIdx g) callback (currentHand g) c (ReverseCard col) g
             = Returns g1 \<longrightarrow>
        playerDirection g1 = playerDirection g \<and>
        (1 < length (currentHand g) \<longrightarrow> g1 = removeCard g (currentHand g) c (ReverseCard col)) \<and>
        (length (activePlayers g1) = 2 \<longrightarrow>
           playMove g mv rnds callback = andThen (advanceMove g1) advanceMove \<and>
           (\<forall>g'. playMove g mv rnds callback = Returns g' \<longrightarrow>
                 playerDirection g' = playerDirection g)) \<and>
        (length (activePlayers g1) \<noteq> 2 \<longrightarrow>
           playMove g mv rnds callback = advanceMove (g1\<lparr>playerDirection := \<not> playerDirection g\<rparr>) \<and>
           (\<forall>g'. playMove g mv rnds callback = Returns g' \<longrightarrow>
                 playerDirection g' = (\<not> playerDirection g)))) \<and>
     (1 < length (currentHand g) \<and> set (activePlayers g) = {a, b} \<and> a \<noteq> b \<and>
      length (activePlayers g) = 2 \<and> indicesInRange g \<and> currentPlayerIdx g = a \<longrightarrow>
        playMove g mv rnds callback = Returns (removeCard g (currentHand g) c (ReverseCard col)))"
proof (intro impI, elim conjE, intro conjI allI impI)
  assume h: "ratingsOnly callback" "moveType mv = PLAY" "moveCard mv = Some c" "\<not> rejected g mv"
    "playedCard g c = Some (ReverseCard col)"
  show "playMove g mv rnds callback =
       andThen (discardStage (currentActiveIdx g) callback (currentHand g) c (ReverseCard col) g)
               (cardEffects (ReverseCard col))"
    by (rule reverse_play(1)[OF h])
  {
    fix g1
    assume d: "discardStage (currentActiveIdx g) callback (currentHand g) c (ReverseCard col) g
                 = Returns g1"
    note r = reverse_after_discard[OF h d]
    show "playerDirection g1 = playerDirection g" by (rule r(1))
    show "1 < length (currentHand g) \<Longrightarrow> g1 = removeCard g (currentHand g) c (ReverseCard col)"
      using r(2) by simp
    show "length (activePlayers g1) = 2 \<Longrightarrow>
            playMove g mv rnds callback = andThen (advanceMove g1) advanceMove"
      using r(3) by simp
    show "length (activePlayers g1) = 2 \<Longrightarrow> playMove g mv rnds callback = Returns g' \<Longrightarrow>
            playerDirection g' = playerDirection g" for g'
      using r(3) by simp
    show "length (activePlayers g1) \<noteq> 2 \<Longrightarrow>
            playMove g mv rnds callback = advanceMove (g1\<lparr>playerDirection := \<not> playerDirection g\<rparr>)"
      using r(4) by simp
    show "length (activePlayers g1) \<noteq> 2 \<Longrightarrow> playMove g mv rnds callback = Returns g' \<Longrightarrow>
            playerDirection g' = (\<not> playerDirection g)" for g'
      using r(4) by simp
  }
  assume "1 < length (currentHand g) \<and> set (activePlayers g) = {a, b} \<and> a \<noteq> b \<and>
      length (activePlayers g) = 2 \<and> indicesInRange g \<and> currentPlayerIdx g = a"
  then show "playMove g mv rnds callback = Returns (removeCard g (currentHand g) c (ReverseCard col))"
    by (intro reverse_two_player_game[OF h, of a b]) simp_all
qed

text \<open>
  Alice plays her reverse card against Bob alone: it is her turn again, the direction is
  as before. She plays it in the three-player game: the direction is flipped and Carol,
  not Bob, is next.
\<close>

theorem reverse_with_two_active_players_witness:
  "playMove twoPlayerGame \<lparr>moveType = False, moveCard = Some 1, moveColor = None\<rparr>
     noShuffle (onGameEnd nearestPower)
     = Returns (twoPlayerGame
         \<lparr>hands := [[NumberCard ''red'' 3, WildCard], [SkipCard ''blue'', NumberCard ''red'' 9]],
          discardPile := [NumberCard ''red'' 5, ReverseCard ''red'']\<rparr>) \<and>
   (\<exists>g'. playMove threePlayerGame \<lparr>moveType = False, moveCard = Some 1, moveColor = None\<rparr>
            noShuffle (onGameEnd nearestPower) = Returns g' \<and>
         playerDirection g' = False \<and> currentPlayerIdx g' = 2)"
proof -
  let ?mv = "\<lparr>moveType = False, moveCard = Some 1, moveColor = None\<rparr>"
  have hyps2: "moveType ?mv = PLAY" "moveCard ?mv = Some 1" "\<not> rejected twoPlayerGame ?mv"
    "playedCard twoPlayerGame 1 = Some (ReverseCard ''red'')"
    "1 < length (currentHand twoPlayerGame)" "set (activePlayers twoPlayerGame) = {0, 1}"
    "length (activePlayers twoPlayerGame) = 2" "indicesInRange twoPlayerGame"
    "currentPlayerIdx twoPlayerGame = 0"
    by (auto simp: PLAY_def rejected_def playedCard_def currentHand_def jsIndex_def isWild_def
          indicesInRange_def game_defs)
  note t2 = reverse_with_two_active_players
         [where g = twoPlayerGame and mv = ?mv and c = 1 and col = "''red''" and a = 0 and b = 1
            and callback = "onGameEnd nearestPower" and rnds = noShuffle, rule_format,
          OF conjI[OF ratingsOnly_onGameEnd conjI[OF hyps2(1) conjI[OF hyps2(2) conjI[OF hyps2(3) hyps2(4)]]]]]
  have "playMove twoPlayerGame ?mv noShuffle (onGameEnd nearestPower)
          = Returns (removeCard twoPlayerGame (currentHand twoPlayerGame) 1 (ReverseCard ''red''))"
    by (rule t2[THEN conjunct2, THEN conjunct2, rule_format])
       (intro conjI hyps2, simp)
  then have 1: "playMove twoPlayerGame ?mv noShuffle (onGameEnd nearestPower)
     = Returns (twoPlayerGame
         \<lparr>hands := [[NumberCard ''red'' 3, WildCard], [SkipCard ''blue'', NumberCard ''red'' 9]],
          discardPile := [NumberCard ''red'' 5, ReverseCard ''red'']\<rparr>)"
    by (simp add: removeCard_def currentHand_def jsIndex_def splice1_def game_defs)
  obtain g' where r: "playMove threePlayerGame ?mv noShuffle (onGameEnd nearestPower) = Returns g'"
    and c: "currentPlayerIdx g' = 2"
    by (simp add: game_defs op_defs)
  have hyps3: "moveType ?mv = PLAY" "moveCard ?mv = Some 1" "\<not> rejected threePlayerGame ?mv"
    "playedCard threePlayerGame 1 = Some (ReverseCard ''red'')"
    by (auto simp: PLAY_def rejected_def playedCard_def jsIndex_def isWild_def game_defs)
  have d: "discardStage (currentActiveIdx threePlayerGame) (onGameEnd nearestPower) (currentHand threePlayerGame) 1
             (ReverseCard ''red'') threePlayerGame
           = Returns (removeCard threePlayerGame (currentHand threePlayerGame) 1 (ReverseCard ''red''))"
    by (simp add: discardStage_def winCheck_def currentHand_def jsIndex_def splice1_def game_defs)
  have n: "length (activePlayers (removeCard threePlayerGame (currentHand threePlayerGame) 1
             (ReverseCard ''red''))) \<noteq> 2"
    by (simp add: removeCard_def game_defs)
  note t3 = reverse_with_two_active_players
         [where g = threePlayerGame and mv = ?mv and c = 1 and col = "''red''"
            and callback = "onGameEnd nearestPower" and rnds = noShuffle, rule_format,
          OF conjI[OF ratingsOnly_onGameEnd conjI[OF hyps3(1) conjI[OF hyps3(2) conjI[OF hyps3(3) hyps3(4)]]]]]
  note t3' = t3[THEN conjunct2, THEN conjunct1, rule_format, OF d]
  have "playerDirection g' = (\<not> playerDirection threePlayerGame)"
    by (rule t3'[THEN conjunct2, THEN conjunct2, THEN conjunct2, rule_format, OF n, THEN conjunct2,
                 rule_format, OF r])
  then have "playerDirection g' = False" by (simp add: game_defs)
  with r c have 2: "\<exists>g'. playMove threePlayerGame ?mv noShuffle (onGameEnd nearestPower) = Returns g' \<and>
         playerDirection g' = False \<and> currentPlayerIdx g' = 2"
    by blast
  from 1 2 show ?thesis by (rule conjI)
qed

section \<open>A deal that fails\<close>

text \<open>
  C2, at an input where the deal fails. Alice and Bob are in a pending game; the random
  numbers put a wild card at index 14 in the first shuffle and every later shuffle leaves
  the deck alone, so each of the hundred attempts turns over a wild card.
  \<^verbatim>\<open>startCardGame\<close> throws \<open>FailedToDealCards\<close>, and the area it leaves behind has lost the
  pending game: starting the game again fails with \<open>NoGameWithThisId\<close>.
\<close>

theorem startCardGame_failed_deal_loses_pending_game:
  "startCardGame pendingArea ''game'' None wildOnTop 0 =
     Throws FailedToDealCards \<lparr>nonStartedGames = [], ongoingGames = []\<rparr> \<and>
   nonStartedGames pendingArea = [\<lparr>nsId = ''game'', nsPlayers = [alice, bob]\<rparr>] \<and>
   startCardGame \<lparr>nonStartedGames = [], ongoingGames = []\<rparr> ''game'' None wildOnTop 1 =
     Throws NoGameWithThisId \<lparr>nonStartedGames = [], ongoingGames = []\<rparr>"
  using failing_deal retry_fails by (simp add: pendingArea_def)

section \<open>Ratings at the end of a game\<close>

text \<open>
  For up to eight players \<^verbatim>\<open>_choose2\<close> is the binomial coefficient, computed without
  rounding; the loop of \<^verbatim>\<open>_calculateNewEloRatingChange\<close> adds up the expected scores
  against the other players in the order of the previous ratings.
\<close>

lemma roundDouble_nat:
  "n < 9007199254740992 \<Longrightarrow> roundDouble False (real n) = Finite (real n)"
proof (cases "n = 0")
  case True
  then show ?thesis by (simp add: signedZero_def)
next
  case False
  assume "n < 9007199254740992"
  with False roundDouble_int[of "int n" False] show ?thesis by simp
qed

lemma choose2_binomial:
  assumes "1 \<le> n" "n \<le> MAX_PLAYERS"
  shows "choose2 (ofNat n) = ofNat (n choose 2)"
proof -
  from assms(2) have n: "n \<le> 8" by (simp add: MAX_PLAYERS_def)
  have a: "numSub (ofNat n) (Finite 1) = Finite (real (n - 1))"
    using assms(1) n roundDouble_nat[of "n - 1"] by (simp add: ofNat_def of_nat_diff)
  have "n * (n - 1) \<le> 8 * 8" using n by (intro mult_mono) simp_all
  then have p: "n * (n - 1) < 9007199254740992" by simp
  have b: "numMul (ofNat n) (Finite (real (n - 1))) = Finite (real (n * (n - 1)))"
    using roundDouble_nat[OF p] by (simp add: ofNat_def)
  have "even (n * (n - 1))" using assms(1) by (cases n) simp_all
  then have e: "real (n * (n - 1)) / 2 = real (n choose 2)"
    unfolding choose_two using real_of_nat_div[of 2 "n * (n - 1)"] by simp
  have "n choose 2 \<le> n * (n - 1)" by (simp add: choose_two)
  with p have c: "n choose 2 < 9007199254740992" by simp
  have h: "numDiv (Finite x) (Finite 2) = roundDouble False (x / 2)" if "0 \<le> x" for x
    using that by simp
  have "numDiv (Finite (real (n * (n - 1)))) (Finite 2) = Finite (real (n choose 2))"
    unfolding h[OF of_nat_0_le_iff] e by (rule roundDouble_nat[OF c])
  with a b show ?thesis by (simp add: choose2_def ofNat_def)
qed

lemma foldl_expected:
  "foldl (\<lambda>total elo.
            if pid \<noteq> eloPlayerId elo
            then (let ratingDifference = numDiv (numSub (rating elo) s) (Finite 400)
                  in numAdd total
                       (numDiv (Finite 1) (numAdd (Finite 1) (tenToThe pw ratingDifference))))
            else total) acc elos
   = foldl numAdd acc
       (map (\<lambda>r. numDiv (Finite 1)
                    (numAdd (Finite 1) (tenToThe pw (numDiv (numSub r s) (Finite 400)))))
          (map rating (filter (\<lambda>elo. eloPlayerId elo \<noteq> pid) elos)))"
  by (induction elos arbitrary: acc) (auto simp: Let_def)

lemma calculateNewEloRatingChange_formula:
  assumes f: "find (\<lambda>elo. eloPlayerId elo = pid) (prevEloRatings g) = Some pe"
    and n: "length (prevEloRatings g) \<le> MAX_PLAYERS"
  shows "calculateNewEloRatingChange pw pid rank g =
     Inr \<lparr>changePlayer =
            \<lparr>playerId = pid, username = usernameOrAnonymous (players g) (eloPlayerId pe)\<rparr>,
          prevElo = rating pe,
          newElo = specNewRating pw (rating pe) (opponentRatings pid g)
                     (length (prevEloRatings g)) rank\<rparr>"
proof -
  from f have "prevEloRatings g \<noteq> []" by auto
  then have "1 \<le> length (prevEloRatings g)" by (cases "prevEloRatings g") simp_all
  from choose2_binomial[OF this n]
  have c: "choose2 (ofNat (length (prevEloRatings g))) = ofNat (length (prevEloRatings g) choose 2)" .
  show ?thesis
    unfolding calculateNewEloRatingChange_def f option.case Let_def c totalExpectedScore_def
      foldl_expected[unfolded Let_def] specNewRating_def specActualScore_def specExpectedScore_def
      opponentRatings_def map_map comp_def
    by simp
qed

text \<open>
  The two loops of \<^verbatim>\<open>_calculateNewElos\<close>: the winners in order, each at the rank of its
  position, then every player who has no entry yet at rank \<^verbatim>\<open>winners.length\<close>.
\<close>

lemma find_distinct_nth:
  "distinct (map f xs) \<Longrightarrow> k < length xs \<Longrightarrow> find (\<lambda>x. f x = f (xs ! k)) xs = Some (xs ! k)"
proof (induction xs arbitrary: k)
  case Nil
  then show ?case by simp
next
  case (Cons x xs)
  show ?case
  proof (cases k)
    case 0
    then show ?thesis by simp
  next
    case (Suc j)
    with Cons.prems have j: "j < length xs" by simp
    then have "xs ! j \<in> set xs" by simp
    with Cons.prems(1) have "f x \<noteq> f (xs ! j)" by auto
    with Cons.IH[OF _ j] Cons.prems(1) Suc show ?thesis by simp
  qed
qed

lemma change_loaded:
  assumes L: "ratingsLoaded g" and D: "distinct (map playerId (players g))"
    and N: "length (players g) \<le> MAX_PLAYERS" and k: "k < length (players g)"
  shows "calculateNewEloRatingChange pw (playerId (players g ! k)) rank g
           = Inr (specChange pw g k rank)"
proof -
  from L have len: "length (prevEloRatings g) = length (players g)"
    unfolding ratingsLoaded_def by (metis length_map)
  have ids: "eloPlayerId (prevEloRatings g ! k) = playerId (players g ! k)"
    using L k len unfolding ratingsLoaded_def by (metis nth_map)
  from L D have D': "distinct (map eloPlayerId (prevEloRatings g))"
    by (simp add: ratingsLoaded_def)
  have fnd: "find (\<lambda>elo. eloPlayerId elo = playerId (players g ! k)) (prevEloRatings g)
               = Some (prevEloRatings g ! k)"
    using find_distinct_nth[OF D', of k] k len ids by simp
  have usr: "usernameOrAnonymous (players g) (playerId (players g ! k))
               = (if username (players g ! k) = [] then ''Anonymous''
                  else username (players g ! k))"
    using find_distinct_nth[OF D k] by (simp add: usernameOrAnonymous_def)
  from N len have N': "length (prevEloRatings g) \<le> MAX_PLAYERS" by simp
  show ?thesis
    unfolding calculateNewEloRatingChange_formula[OF fnd N'] specChange_def ids usr len ..
qed

lemma winnersLoop_exact:
  assumes c: "\<And>k rank. k < length (players g) \<Longrightarrow>
                calculateNewEloRatingChange pw (playerId (players g ! k)) rank g
                  = Inr (specChange pw g k rank)"
    and w: "list_all (\<lambda>w. 0 \<le> w \<and> w < int (length (players g))) ws"
  shows "winnersLoop pw g ws r acc =
           Inr (acc @ map (\<lambda>i. specChange pw g (nat (ws ! i)) (r + i)) [0..<length ws])"
  using w
proof (induction ws arbitrary: r acc)
  case Nil
  then show ?case by simp
next
  case (Cons x xs)
  from Cons.prems have x: "0 \<le> x" "x < int (length (players g))" and xs:
    "list_all (\<lambda>w. 0 \<le> w \<and> w < int (length (players g))) xs" by simp_all
  from x have j: "jsIndex (players g) x = Some (players g ! nat x)"
    by (simp add: jsIndex_def)
  from x have "nat x < length (players g)" by simp
  note cx = c[OF this, of r]
  have m: "map (\<lambda>i. specChange pw g (nat ((x # xs) ! i)) (r + i)) [0..<length (x # xs)]
         = specChange pw g (nat x) r #
           map (\<lambda>i. specChange pw g (nat (xs ! i)) (r + 1 + i)) [0..<length xs]"
    by (simp add: map_upt_Suc del: upt_Suc)
  show ?case
    unfolding m by (simp add: j cx Cons.IH[OF xs])
qed

lemma playersLoop_exact:
  assumes c: "\<And>p. p \<in> set ps \<Longrightarrow>
                calculateNewEloRatingChange pw (playerId p) (length (winners g)) g = Inr (c p) \<and>
                playerId (changePlayer (c p)) = playerId p"
    and d: "distinct (map playerId ps)"
  shows "playersLoop pw g ps acc =
           Inr (acc @ map c (filter (\<lambda>p. playerId p \<notin> (\<lambda>ch. playerId (changePlayer ch)) ` set acc) ps))"
  using c d
proof (induction ps arbitrary: acc)
  case Nil
  then show ?case by simp
next
  case (Cons p ps)
  have IH: "playersLoop pw g ps acc' =
           Inr (acc' @ map c (filter (\<lambda>p. playerId p \<notin> (\<lambda>ch. playerId (changePlayer ch)) ` set acc') ps))"
    for acc'
    using Cons.prems by (intro Cons.IH) simp_all
  from Cons.prems(1)[of p] have cp:
    "calculateNewEloRatingChange pw (playerId p) (length (winners g)) g = Inr (c p)"
    "playerId (changePlayer (c p)) = playerId p" by simp_all
  show ?case
  proof (cases "playerId p \<in> (\<lambda>ch. playerId (changePlayer ch)) ` set acc")
    case True
    then have "list_ex (\<lambda>elo. playerId (changePlayer elo) = playerId p) acc"
      by (auto simp: list_ex_iff)
    with True show ?thesis by (simp add: IH)
  next
    case False
    then have n: "\<not> list_ex (\<lambda>elo. playerId (changePlayer elo) = playerId p) acc"
      by (auto simp: list_ex_iff image_iff)
    from Cons.prems(2) have "playerId p \<notin> playerId ` set ps" by simp
    then have "\<forall>q \<in> set ps. playerId q \<noteq> playerId p" by (metis imageI)
    then have f: "filter (\<lambda>q. playerId q \<notin> (\<lambda>ch. playerId (changePlayer ch)) ` set (acc @ [c p])) ps
                = filter (\<lambda>q. playerId q \<notin> (\<lambda>ch. playerId (changePlayer ch)) ` set acc) ps"
      by (intro filter_cong) (auto simp: cp(2))
    have "playersLoop pw g (p # ps) acc = playersLoop pw g ps (acc @ [c p])"
      using n by (simp add: cp(1))
    also have "\<dots> = Inr ((acc @ [c p]) @ map c
        (filter (\<lambda>q. playerId q \<notin> (\<lambda>ch. playerId (changePlayer ch)) ` set (acc @ [c p])) ps))"
      by (rule IH)
    also have "\<dots> = Inr (acc @ map c
        (filter (\<lambda>p. playerId p \<notin> (\<lambda>ch. playerId (changePlayer ch)) ` set acc) (p # ps)))"
      unfolding f using False by simp
    finally show ?thesis .
  qed
qed

lemma findIndex_distinct:
  assumes "distinct ws" "i < length ws"
  shows "nat (findIndex (\<lambda>w. w = ws ! i) ws) = i"
proof -
  have "ws ! i \<in> set ws" using assms(2) by simp
  then have "findIndex (\<lambda>w. w = ws ! i) ws \<noteq> - 1" by (simp add: findIndex_none)
  from findIndex_found[OF this]
  have "nat (findIndex (\<lambda>w. w = ws ! i) ws) < length ws"
    "ws ! nat (findIndex (\<lambda>w. w = ws ! i) ws) = ws ! i" by auto
  with assms show ?thesis by (simp add: nth_eq_iff_index_eq)
qed

lemma specChange_playerId [simp]:
  "playerId (changePlayer (specChange pw g k rank)) = playerId (players g ! k)"
  by (simp add: specChange_def)

lemma elo_at_end:
  assumes L: "ratingsLoaded g" and D: "distinct (map playerId (players g))"
    and N: "length (players g) \<le> MAX_PLAYERS"
    and W1: "distinct (winners g)"
    and W2: "list_all (\<lambda>w. 0 \<le> w \<and> w < int (length (players g))) (winners g)"
  shows "onGameEnd pw g = Returns (g\<lparr>eloRatingChanges := specChanges pw g\<rparr>)"
proof -
  let ?ws = "winners g" and ?n = "length (players g)"
  let ?ch = "\<lambda>k. specChange pw g k (finalRank g (int k))"
  let ?ids = "\<lambda>acc. (\<lambda>ch. playerId (changePlayer ch)) ` set acc"
  note c = change_loaded[OF L D N, where pw = pw]
  from W2 have inr: "\<And>w. w \<in> set ?ws \<Longrightarrow> 0 \<le> w \<and> nat w < ?n"
    by (auto simp: list_all_iff)
  define acc where "acc = map (\<lambda>i. specChange pw g (nat (?ws ! i)) (0 + i)) [0..<length ?ws]"
  have wl: "winnersLoop pw g ?ws 0 [] = Inr acc"
    using winnersLoop_exact[of g pw ?ws 0 "[]", OF c W2] by (simp add: acc_def)
  have acc: "acc = map ?ch (map nat ?ws)"
  proof (rule nth_equalityI)
    show "length acc = length (map ?ch (map nat ?ws))" by (simp add: acc_def)
  next
    fix i assume "i < length acc"
    then have i: "i < length ?ws" by (simp add: acc_def)
    then have m: "?ws ! i \<in> set ?ws" by simp
    with inr have "int (nat (?ws ! i)) = ?ws ! i" by simp
    moreover have "finalRank g (?ws ! i) = i"
      using m findIndex_distinct[OF W1 i] by (simp add: finalRank_def)
    ultimately show "acc ! i = map ?ch (map nat ?ws) ! i" using i by (simp add: acc_def)
  qed
  have ids: "?ids acc = (\<lambda>w. playerId (players g ! nat w)) ` set ?ws"
    unfolding acc by (simp add: image_image)
  have member: "playerId (players g ! k) \<in> ?ids acc \<longleftrightarrow> int k \<in> set ?ws" if k: "k < ?n" for k
  proof
    assume "playerId (players g ! k) \<in> ?ids acc"
    then obtain w where w: "w \<in> set ?ws" "playerId (players g ! nat w) = playerId (players g ! k)"
      unfolding ids by auto
    from inr[OF w(1)] have r: "0 \<le> w" "nat w < ?n" by simp_all
    from w(2) r(2) k D have "nat w = k"
      by (metis distinct_conv_nth length_map nth_map)
    with r(1) w(1) show "int k \<in> set ?ws" by auto
  next
    assume "int k \<in> set ?ws"
    then show "playerId (players g ! k) \<in> ?ids acc" unfolding ids by force
  qed
  define c' where "c' p = (case calculateNewEloRatingChange pw (playerId p) (length ?ws) g of
                            Inr ch \<Rightarrow> ch)" for p :: cardGamePlayer
  have c'k: "c' (players g ! k) = specChange pw g k (length ?ws)" if "k < ?n" for k
    by (simp add: c'_def c[OF that])
  have cp: "calculateNewEloRatingChange pw (playerId p) (length ?ws) g = Inr (c' p) \<and>
            playerId (changePlayer (c' p)) = playerId p" if "p \<in> set (players g)" for p
  proof -
    from that obtain k where k: "k < ?n" "p = players g ! k" by (auto simp: in_set_conv_nth)
    with c[OF k(1), of "length ?ws"] c'k[OF k(1)] show ?thesis by simp
  qed
  have pl: "playersLoop pw g (players g) acc =
      Inr (acc @ map c' (filter (\<lambda>p. playerId p \<notin> ?ids acc) (players g)))"
    by (rule playersLoop_exact[OF cp D])
  have "map c' (filter (\<lambda>p. playerId p \<notin> ?ids acc) (map (nth (players g)) [0..<?n]))
      = map ?ch (filter (\<lambda>k. int k \<notin> set ?ws) [0..<?n])"
    unfolding filter_map map_map
  proof (rule map_cong)
    show "filter ((\<lambda>p. playerId p \<notin> ?ids acc) \<circ> nth (players g)) [0..<?n]
        = filter (\<lambda>k. int k \<notin> set ?ws) [0..<?n]"
      by (rule filter_cong) (simp_all add: member)
  next
    fix k assume "k \<in> set (filter (\<lambda>k. int k \<notin> set ?ws) [0..<?n])"
    then have "k < ?n" "int k \<notin> set ?ws" by simp_all
    then show "(c' \<circ> nth (players g)) k = ?ch k" by (simp add: c'k finalRank_def)
  qed
  then have rest: "map c' (filter (\<lambda>p. playerId p \<notin> ?ids acc) (players g))
      = map ?ch (filter (\<lambda>k. int k \<notin> set ?ws) [0..<?n])"
    by (simp only: map_nth)
  have "calculateNewElos pw g = Inr (specChanges pw g)"
    unfolding calculateNewElos_def wl sum.case pl rest
    by (simp add: specChanges_def standings_def acc)
  then show ?thesis by (simp add: onGameEnd_def)
qed

text \<open>Two players, both rated 1000; and \<^verbatim>\<open>Math.round\<close>.\<close>

lemma two_player_ratings:
  "specNewRating pw (Finite 1000) [Finite 1000] 2 0 = Finite 1025"
  "specNewRating pw (Finite 1000) [Finite 1000] 2 (Suc 0) = Finite 975"
  by (simp_all add: specNewRating_def specActualScore_def specExpectedScore_def ofNat_def
      signedZero_def)

lemma list_of_two: "length xs = 2 \<Longrightarrow> \<exists>a b. xs = [a, b]"
  by (cases xs; cases "tl xs") auto

lemma two_player_opponents:
  assumes L: "ratingsLoaded g" and D: "distinct (map playerId (players g))"
    and N: "length (players g) = 2"
    and R: "map rating (prevEloRatings g) = [Finite 1000, Finite 1000]"
    and k: "k < 2"
  shows "rating (prevEloRatings g ! k) = Finite 1000"
    and "opponentRatings (playerId (players g ! k)) g = [Finite 1000]"
proof -
  from R have "length (map rating (prevEloRatings g)) = 2" by simp
  then have "length (prevEloRatings g) = 2" by (simp only: length_map)
  from list_of_two[OF this] obtain a b where ab: "prevEloRatings g = [a, b]" by blast
  from R have r: "rating a = Finite 1000" "rating b = Finite 1000" by (simp_all add: ab)
  from list_of_two[OF N] obtain p q where pq: "players g = [p, q]" by blast
  from L have ids: "eloPlayerId a = playerId p" "eloPlayerId b = playerId q"
    by (simp_all add: ratingsLoaded_def ab pq)
  from D have ne: "playerId p \<noteq> playerId q" by (simp add: pq)
  from k have k01: "k = 0 \<or> k = 1" by linarith
  then show "rating (prevEloRatings g ! k) = Finite 1000"
    by (rule disjE) (simp_all add: ab r)
  from k01 show "opponentRatings (playerId (players g ! k)) g = [Finite 1000]"
  proof
    assume "k = 0"
    then show ?thesis using ne by (simp add: opponentRatings_def ab pq ids r)
  next
    assume "k = 1"
    then show ?thesis using ne by (simp add: opponentRatings_def ab pq ids r)
  qed
qed

lemma two_player_elo:
  assumes L: "ratingsLoaded g" and D: "distinct (map playerId (players g))"
    and N: "length (players g) = 2"
    and R: "map rating (prevEloRatings g) = [Finite 1000, Finite 1000]"
    and W: "winners g = [int w, int l]" and wl: "w < 2" "l < 2" "w \<noteq> l"
  shows "specChanges pw g = [specChange pw g w 0, specChange pw g l 1]"
    and "prevElo (specChange pw g w 0) = Finite 1000"
    and "newElo (specChange pw g w 0) = Finite 1025"
    and "prevElo (specChange pw g l 1) = Finite 1000"
    and "newElo (specChange pw g l 1) = Finite 975"
    and "onGameEnd pw g = Returns (g\<lparr>eloRatingChanges := [specChange pw g w 0, specChange pw g l 1]\<rparr>)"
proof -
  have rw: "finalRank g (int w) = 0" and rl: "finalRank g (int l) = 1"
    using W wl by (simp_all add: finalRank_def findIndex_def)
  from wl have "(w = 0 \<and> l = 1) \<or> (w = 1 \<and> l = 0)" by linarith
  then have "filter (\<lambda>k. int k \<notin> set (winners g)) [0..<length (players g)] = []"
    by (auto simp: N W numeral_2_eq_2)
  then have st: "standings g = [w, l]" by (simp add: standings_def W)
  show sc: "specChanges pw g = [specChange pw g w 0, specChange pw g l 1]"
    by (simp add: specChanges_def st rw rl)
  show "prevElo (specChange pw g w 0) = Finite 1000"
    by (simp add: specChange_def two_player_opponents(1)[OF L D N R wl(1)])
  show "prevElo (specChange pw g l 1) = Finite 1000"
    by (simp add: specChange_def two_player_opponents(1)[OF L D N R wl(2)])
  show "newElo (specChange pw g w 0) = Finite 1025"
    by (simp add: specChange_def two_player_opponents[OF L D N R wl(1)] N two_player_ratings)
  show "newElo (specChange pw g l 1) = Finite 975"
    by (simp add: specChange_def two_player_opponents[OF L D N R wl(2)] N two_player_ratings)
  have W1: "distinct (winners g)" using W wl by simp
  have W2: "list_all (\<lambda>w. 0 \<le> w \<and> w < int (length (players g))) (winners g)"
    using W wl N by simp
  from N have N': "length (players g) \<le> MAX_PLAYERS" by (simp add: MAX_PLAYERS_def)
  from elo_at_end[OF L D N' W1 W2, of pw]
  show "onGameEnd pw g = Returns (g\<lparr>eloRatingChanges := [specChange pw g w 0, specChange pw g l 1]\<rparr>)"
    unfolding sc .
qed

lemma mathRound_nearest:
  "\<exists>k. valueOf (mathRound (Finite x)) = of_int k \<and> \<bar>of_int k - x\<bar> \<le> 1 / 2"
proof (intro exI conjI)
  show "valueOf (mathRound (Finite x)) = of_int \<lfloor>x + 1 / 2\<rfloor>"
    by (simp add: floor_eq_iff)
  show "\<bar>of_int \<lfloor>x + 1 / 2\<rfloor> - x\<bar> \<le> 1 / 2" by linarith
qed

text \<open>
  C8. At the end of a game whose prior ratings have been stored (one per player, in the
  order of the players), with distinct player ids, at most eight players and winners that
  are distinct indices of players, \<^verbatim>\<open>_onGameEnd\<close> returns and writes exactly one rating
  change per player, in the order of the standings: the winners in their order, each at
  the rank of its position, then the other players at the rank \<^verbatim>\<open>winners.length\<close>. A
  change carries the prior rating and, as new rating, \<^verbatim>\<open>Math.round\<close> of
  \<open>prior + (50 * (n - 1)) * (actualScore - expectedScore)\<close> evaluated in double precision,
  every operation rounded to the nearest double and \<^verbatim>\<open>**\<close> as the engine approximates
  it, where \<open>n\<close> is the number of players, \<open>expectedScore\<close> is the sum over the other
  players of \<open>1 / (1 + 10 ** ((opponent - prior) / 400))\<close> divided by \<open>C(n, 2)\<close>, and
  \<open>actualScore\<close> is \<open>(n - rank - 1) / C(n, 2)\<close>. \<^verbatim>\<open>Math.round\<close> returns an integer within
  one half of its argument. In a game of two players both rated 1000, the winner's new
  rating is exactly 1025 and the loser's exactly 975, whatever the engine's \<^verbatim>\<open>**\<close>.
\<close>

theorem elo_ratings_at_game_end:
  "(ratingsLoaded g \<and> distinct (map playerId (players g)) \<and>
    length (players g) \<le> MAX_PLAYERS \<and> distinct (winners g) \<and>
    list_all (\<lambda>w. 0 \<le> w \<and> w < int (length (players g))) (winners g) \<longrightarrow>
      onGameEnd pw g = Returns (g\<lparr>eloRatingChanges := specChanges pw g\<rparr>))
   \<and> (\<forall>x. \<exists>k. valueOf (mathRound (Finite x)) = of_int k \<and> \<bar>of_int k - x\<bar> \<le> 1 / 2)
   \<and> (ratingsLoaded g \<and> distinct (map playerId (players g)) \<and> length (players g) = 2 \<and>
      map rating (prevEloRatings g) = [Finite 1000, Finite 1000] \<and>
      winners g = [int w, int l] \<and> w < 2 \<and> l < 2 \<and> w \<noteq> l \<longrightarrow>
        specChanges pw g = [specChange pw g w 0, specChange pw g l 1] \<and>
        prevElo (specChange pw g w 0) = Finite 1000 \<and>
        newElo (specChange pw g w 0) = Finite 1025 \<and>
        prevElo (specChange pw g l 1) = Finite 1000 \<and>
        newElo (specChange pw g l 1) = Finite 975 \<and>
        onGameEnd pw g =
          Returns (g\<lparr>eloRatingChanges := [specChange pw g w 0, specChange pw g l 1]\<rparr>))"
  apply (rule conjI)
   apply (rule impI)
   apply (elim conjE)
   apply (rule elo_at_end; assumption)
  apply (rule conjI)
   apply (rule allI, rule mathRound_nearest)
  apply (rule impI)
  apply (elim conjE)
  apply (intro conjI)
       apply (rule two_player_elo(1); assumption)
      apply (rule two_player_elo(2); assumption)
     apply (rule two_player_elo(3); assumption)
    apply (rule two_player_elo(4); assumption)
   apply (rule two_player_elo(5); assumption)
  apply (rule two_player_elo(6); assumption)
  done

lemmas rating_defs = specChanges_def specChange_def standings_def finalRank_def
  opponentRatings_def specNewRating_def specActualScore_def specExpectedScore_def
  ofNat_def signedZero_def findIndex_def

text \<open>
  Bob wins against Alice, both rated 1000: Bob's new rating is 1025, Alice's is 975.
\<close>

theorem elo_ratings_at_game_end_witness:
  "ratingsLoaded bobWins \<and> distinct (map playerId (players bobWins)) \<and>
   length (players bobWins) \<le> MAX_PLAYERS \<and> distinct (winners bobWins) \<and>
   list_all (\<lambda>w. 0 \<le> w \<and> w < int (length (players bobWins))) (winners bobWins) \<and>
   length (players bobWins) = 2 \<and>
   map rating (prevEloRatings bobWins) = [Finite 1000, Finite 1000] \<and>
   winners bobWins = [1, 0] \<and>
   onGameEnd nearestPower bobWins =
     Returns (bobWins\<lparr>eloRatingChanges :=
        [\<lparr>changePlayer = bob, prevElo = Finite 1000, newElo = Finite 1025\<rparr>,
         \<lparr>changePlayer = alice, prevElo = Finite 1000, newElo = Finite 975\<rparr>]\<rparr>) \<and>
   newElo (specChange nearestPower bobWins 1 0) = Finite 1025 \<and>
   newElo (specChange nearestPower bobWins 0 1) = Finite 975"
proof -
  have h: "ratingsLoaded bobWins" "distinct (map playerId (players bobWins))"
    "length (players bobWins) \<le> MAX_PLAYERS" "distinct (winners bobWins)"
    "list_all (\<lambda>w. 0 \<le> w \<and> w < int (length (players bobWins))) (winners bobWins)"
    by (simp_all add: bobWins_def ratingsLoaded_def game_defs MAX_PLAYERS_def)
  have h2: "length (players bobWins) = 2"
    "map rating (prevEloRatings bobWins) = [Finite 1000, Finite 1000]"
    "winners bobWins = [int 1, int 0]"
    by (simp_all add: bobWins_def game_defs)
  have n: "(1::nat) < 2" "(0::nat) < 2" "(1::nat) \<noteq> 0" by simp_all
  have e: "specChanges nearestPower bobWins =
        [\<lparr>changePlayer = bob, prevElo = Finite 1000, newElo = Finite 1025\<rparr>,
         \<lparr>changePlayer = alice, prevElo = Finite 1000, newElo = Finite 975\<rparr>]"
    by (simp add: bobWins_def game_defs rating_defs numeral_2_eq_2)
  note t = elo_ratings_at_game_end[where g = bobWins and pw = nearestPower,
      THEN conjunct1, rule_format]
  have "onGameEnd nearestPower bobWins =
          Returns (bobWins\<lparr>eloRatingChanges := specChanges nearestPower bobWins\<rparr>)"
    by (rule t) (intro conjI h)
  then have 1: "onGameEnd nearestPower bobWins =
     Returns (bobWins\<lparr>eloRatingChanges :=
        [\<lparr>changePlayer = bob, prevElo = Finite 1000, newElo = Finite 1025\<rparr>,
         \<lparr>changePlayer = alice, prevElo = Finite 1000, newElo = Finite 975\<rparr>]\<rparr>)"
    by (simp only: e)
  note u = elo_ratings_at_game_end[where g = bobWins and pw = nearestPower and w = 1 and l = 0,
      THEN conjunct2, THEN conjunct2, rule_format]
  have "specChanges nearestPower bobWins =
          [specChange nearestPower bobWins 1 0, specChange nearestPower bobWins 0 1] \<and>
        prevElo (specChange nearestPower bobWins 1 0) = Finite 1000 \<and>
        newElo (specChange nearestPower bobWins 1 0) = Finite 1025 \<and>
        prevElo (specChange nearestPower bobWins 0 1) = Finite 1000 \<and>
        newElo (specChange nearestPower bobWins 0 1) = Finite 975 \<and>
        onGameEnd nearestPower bobWins =
          Returns (bobWins\<lparr>eloRatingChanges :=
            [specChange nearestPower bobWins 1 0, specChange nearestPower bobWins 0 1]\<rparr>)"
    by (rule u) (intro conjI h(1,2) h2 n)
  then have 2: "newElo (specChange nearestPower bobWins 1 0) = Finite 1025"
    "newElo (specChange nearestPower bobWins 0 1) = Finite 975" by simp_all
  have w: "winners bobWins = [1, 0]" using h2(3) by simp
  from h h2(1,2) w 1 2 show ?thesis by (intro conjI)
qed

text \<open>
  The formula over the real numbers fails in two ways. Bob quits the two-player game
  before the answers of the rating store have arrived: the game ends, the callback throws
  a \<open>TypeError\<close> and no rating change is written. And when both players are rated
  \<open>2 ^ 53\<close>, the winner's \<open>2 ^ 53 + 25\<close> is no double: the code gives
  \<open>9007199254741016\<close> where the formula gives \<open>9007199254741017\<close>.
\<close>

theorem elo_ratings_counterexample:
  "quitCardGame unratedGame (Some ''bob@example.com'') 7 (onGameEnd nearestPower) =
     Throws TypeError
       (unratedGame
          \<lparr>activePlayers := [], winners := [0],
           moves := [\<lparr>movePlayerId = Some ''bob@example.com'', timestamp = 7,
                      move = QuitMove\<rparr>]\<rparr>) \<and>
   onGameEnd nearestPower highRatedGame =
     Returns (highRatedGame\<lparr>eloRatingChanges :=
        [\<lparr>changePlayer = bob, prevElo = Finite 9007199254740992,
          newElo = Finite 9007199254741016\<rparr>,
         \<lparr>changePlayer = alice, prevElo = Finite 9007199254740992,
          newElo = Finite 9007199254740967\<rparr>]\<rparr>) \<and>
   claimedNewRating 9007199254740992 [9007199254740992] 2 0 = 9007199254741017 \<and>
   claimedNewRating 9007199254740992 [9007199254740992] 2 1 = 9007199254740967"
proof -
  have 1: "quitCardGame unratedGame (Some ''bob@example.com'') 7 (onGameEnd nearestPower) =
     Throws TypeError
       (unratedGame
          \<lparr>activePlayers := [], winners := [0],
           moves := [\<lparr>movePlayerId = Some ''bob@example.com'', timestamp = 7,
                      move = QuitMove\<rparr>]\<rparr>)"
    by (simp add: unratedGame_def game_defs op_defs elo_defs)
  have 2: "onGameEnd nearestPower highRatedGame =
     Returns (highRatedGame\<lparr>eloRatingChanges :=
        [\<lparr>changePlayer = bob, prevElo = Finite 9007199254740992,
          newElo = Finite 9007199254741016\<rparr>,
         \<lparr>changePlayer = alice, prevElo = Finite 9007199254740992,
          newElo = Finite 9007199254740967\<rparr>]\<rparr>)"
    by (simp add: highRatedGame_def bobWins_def game_defs elo_defs jsIndex_def roundDouble_tie)
  have 3: "claimedNewRating 9007199254740992 [9007199254740992] 2 0 = 9007199254741017"
    "claimedNewRating 9007199254740992 [9007199254740992] 2 1 = 9007199254740967"
    by (simp_all add: claimedNewRating_def claimedActualScore_def claimedExpectedScore_def
        floor_eq_iff)
  from 1 2 3 show ?thesis by (intro conjI)
qed

section \<open>The movement of the cards\<close>

text \<open>
  Advancing the turn, recording a win, the effects of a card and the callback leave the
  deck, the discard pile and the hands alone; a play takes the card at its index out of
  the current hand and puts it on the discard pile.
\<close>

lemma cardsOf_advanceMove: "advanceMove g = Returns g' \<Longrightarrow> cardsOf g' = cardsOf g"
  using advanceMove_Returns_ex[of g g'] by (auto simp: cardsOf_def)

lemma cardsOf_updateIfGameEnded:
  assumes "ratingsOnly callback" "updateIfGameEnded g callback = Returns g'"
  shows "cardsOf g' = cardsOf g"
  using updateIfGameEnded_Returns[OF assms] by (auto simp: cardsOf_def)

lemma cardsOf_winCheck:
  assumes "ratingsOnly callback" "winCheck activeIdx callback newHand g = Returns g'"
  shows "cardsOf g' = cardsOf g"
proof (cases "length newHand = 0")
  case True
  with assms(2) have "updateIfGameEnded
             (g\<lparr>winners := winners g @ [currentPlayerIdx g],
                activePlayers := splice1 (activePlayers g) activeIdx\<rparr>) callback = Returns g'"
    by (simp add: winCheck_def)
  from cardsOf_updateIfGameEnded[OF assms(1) this] show ?thesis by (simp add: cardsOf_def)
next
  case False
  with assms(2) show ?thesis by (simp add: winCheck_def)
qed

lemma cardsOf_cardEffects:
  assumes "cardEffects curCard g = Returns g'"
  shows "cardsOf g' = cardsOf g"
proof -
  from assms obtain g2 g3 where 1: "reverseEffect curCard g = Returns g2"
    and 2: "skipEffect curCard g2 = Returns g3"
    and 3: "advanceMove (drawEffect curCard g3) = Returns g'"
    by (auto simp: cardEffects_def andThen_Returns_iff)
  from 1 have "cardsOf g2 = cardsOf g"
    by (auto simp: reverseEffect_def cardsOf_advanceMove split: if_splits) (simp add: cardsOf_def)
  moreover from 2 have "cardsOf g3 = cardsOf g2"
    by (auto simp: skipEffect_def cardsOf_advanceMove split: if_splits)
  moreover have "cardsOf (drawEffect curCard g3) = cardsOf g3"
    by (simp add: drawEffect_def cardsOf_def)
  ultimately show ?thesis using cardsOf_advanceMove[OF 3] by simp
qed

lemma cardsOf_applyCard:
  assumes r: "ratingsOnly callback"
    and h: "jsIndex (hands g) (currentPlayerIdx g) = Some hand" and cc: "jsIndex hand c = Some curCard"
    and a: "applyCard activeIdx callback hand c curCard g = Returns g'"
  shows "cardsOf g' = (deck g, discardPile g @ [curCard],
           (hands g)[nat (currentPlayerIdx g) := take (nat c) hand @ drop (Suc (nat c)) hand])"
proof -
  from a obtain g1 where
    1: "winCheck activeIdx callback (splice1 hand c) (removeCard g hand c curCard) = Returns g1"
    and 2: "cardEffects curCard g1 = Returns g'"
    by (auto simp: applyCard_def discardStage_def andThen_Returns_iff)
  from cc have c: "0 \<le> c" "c < int (length hand)" by (auto simp: jsIndex_Some)
  have "cardsOf (removeCard g hand c curCard) = (deck g, discardPile g @ [curCard],
           (hands g)[nat (currentPlayerIdx g) := take (nat c) hand @ drop (Suc (nat c)) hand])"
    by (simp add: removeCard_def cardsOf_def splice1_valid[OF c])
  with cardsOf_winCheck[OF r 1] cardsOf_cardEffects[OF 2] show ?thesis by simp
qed

lemma play_moves_one_card:
  assumes r: "ratingsOnly callback" and p: "moveType mv = PLAY"
    and m: "playMove g mv rnds callback = Returns g'"
  shows "\<exists>c hand curCard. moveCard mv = Some c \<and>
           jsIndex (hands g) (currentPlayerIdx g) = Some hand \<and> jsIndex hand c = Some curCard \<and>
           cardsOf g' = (deck g, discardPile g @ [curCard],
             (hands g)[nat (currentPlayerIdx g) := take (nat c) hand @ drop (Suc (nat c)) hand])"
proof -
  from p have nd: "moveType mv \<noteq> DRAW" by (simp add: PLAY_def DRAW_def)
  with m obtain c hand curCard where
    mc: "moveCard mv = Some c"
    and h: "jsIndex (hands g) (currentPlayerIdx g) = Some hand" and cc: "jsIndex hand c = Some curCard"
    and app: "applyCard (findIndex (\<lambda>n. n = currentPlayerIdx g) (activePlayers g)) callback hand c curCard g = Returns g'
       \<or> (\<exists>col. applyCard (findIndex (\<lambda>n. n = currentPlayerIdx g) (activePlayers g)) callback hand c curCard
              (g\<lparr>currentColor := col\<rparr>) = Returns g')"
    by (auto simp: playMove_def Let_def split: option.splits if_splits)
  from app have "cardsOf g' = (deck g, discardPile g @ [curCard],
             (hands g)[nat (currentPlayerIdx g) := take (nat c) hand @ drop (Suc (nat c)) hand])"
  proof
    assume "applyCard (findIndex (\<lambda>n. n = currentPlayerIdx g) (activePlayers g)) callback hand c curCard g = Returns g'"
    from cardsOf_applyCard[OF r h cc this] show ?thesis .
  next
    assume "\<exists>col. applyCard (findIndex (\<lambda>n. n = currentPlayerIdx g) (activePlayers g)) callback hand c curCard
              (g\<lparr>currentColor := col\<rparr>) = Returns g'"
    then obtain col where a: "applyCard (findIndex (\<lambda>n. n = currentPlayerIdx g) (activePlayers g)) callback hand c curCard
              (g\<lparr>currentColor := col\<rparr>) = Returns g'" by blast
    have "jsIndex (hands (g\<lparr>currentColor := col\<rparr>)) (currentPlayerIdx (g\<lparr>currentColor := col\<rparr>)) = Some hand"
      by (simp add: h)
    from cardsOf_applyCard[OF r this cc a] show ?thesis by simp
  qed
  with mc h cc show ?thesis by blast
qed

lemma draw_is_playDrawMove:
  "moveType mv = DRAW \<Longrightarrow> playMove g mv rnds callback = playDrawMove rnds g"
  by (simp add: playMove_def)

lemma playDrawMove_cards:
  assumes "playDrawMove rnds g = Returns g'"
  shows "\<exists>g1. drawLoop rnds 0 (numDraws (lastDrawPlayed g)) g = Returns g1 \<and> cardsOf g' = cardsOf g1"
proof -
  from assms obtain g1 where 1: "drawLoop rnds 0 (numDraws (lastDrawPlayed g)) g = Returns g1"
    and 2: "advanceMove (g1\<lparr>lastDrawPlayed := None\<rparr>) = Returns g'"
    by (auto simp: playDrawMove_def andThen_Returns_iff)
  from cardsOf_advanceMove[OF 2] have "cardsOf g' = cardsOf g1" by (simp add: cardsOf_def)
  with 1 show ?thesis by blast
qed

lemma draw_moves_one_card:
  assumes "deck g \<noteq> []" "jsIndex (hands g) (currentPlayerIdx g) = Some hand"
  shows "\<exists>g1. drawCard rnd g = Returns g1 \<and>
           cardsOf g1 = (tl (deck g), discardPile g,
             (hands g)[nat (currentPlayerIdx g) := hand @ [hd (deck g)]])"
  using assms by (simp add: drawCard_def refillDeck_def takeTopCard_def andThen_def cardsOf_def)

lemma reshuffle_moves_discards:
  assumes "deck g = []" "discardPile g \<noteq> []"
  shows "\<exists>g1. refillDeck rnd g = Returns g1 \<and>
           deck g1 = shuffleCards rnd (butlast (discardPile g)) \<and>
           mset (deck g1) = mset (butlast (discardPile g)) \<and>
           discardPile g1 = [last (discardPile g)] \<and> hands g1 = hands g \<and>
           currentPlayerIdx g1 = currentPlayerIdx g \<and>
           drawCard rnd g = takeTopCard g1 \<and>
           (deck g1 \<noteq> [] \<and> jsIndex (hands g) (currentPlayerIdx g) = Some hand \<longrightarrow>
              (\<exists>g2. drawCard rnd g = Returns g2 \<and>
                 cardsOf g2 = (tl (deck g1), [last (discardPile g)],
                   (hands g)[nat (currentPlayerIdx g) := hand @ [hd (deck g1)]])))"
  using assms
  by (simp add: drawCard_def refillDeck_def takeTopCard_def andThen_def cardsOf_def Let_def)

lemma quit_moves_nothing:
  assumes "ratingsOnly callback" "quitCardGame g pid now callback = Returns g'"
  shows "cardsOf g' = cardsOf g"
proof -
  from quitCardGame_frame[OF assms] obtain a w i e where
    "g' = g\<lparr>activePlayers := a, winners := w, moves := moves (quitLogged g pid now),
              currentPlayerIdx := i, eloRatingChanges := e\<rparr>" by blast
  then show ?thesis by (simp add: cardsOf_def)
qed

text \<open>
  C7. The number of cards in the deck, the discard pile and all hands together is the
  same after every sequence of play, draw (the draw move, also played for a player who
  timed out) and quit operations that return, for every callback that writes nothing but
  the rating changes (as both callbacks of the repository do). A play that returns has
  moved the card at the given index from the current player's hand to the end of the
  discard pile and nothing else. A draw move is \<^verbatim>\<open>playDrawMove\<close>, which leaves the cards as
  its loop of \<^verbatim>\<open>drawCard\<close> calls leaves them. \<^verbatim>\<open>drawCard\<close> on a non-empty deck moves the
  first card of the deck to the end of the current hand; on an empty deck with a
  non-empty discard pile it first makes the deck a shuffle of all but the last card of
  the discard pile and leaves that last card as the discard pile, then draws from the new
  deck if it has a card; with a single card on the discard pile it changes nothing. A
  quit that returns leaves the deck, the discard pile and the hands as they were.
\<close>

theorem total_cards_invariant:
  "(ratingsOnly callback \<and> applyOps callback g ops = Returns g' \<longrightarrow>
      totalCards g' = totalCards g)
   \<and> (ratingsOnly callback \<and> moveType mv = PLAY \<and> playMove g mv rnds callback = Returns g' \<longrightarrow>
        (\<exists>c hand curCard. moveCard mv = Some c \<and>
           jsIndex (hands g) (currentPlayerIdx g) = Some hand \<and> jsIndex hand c = Some curCard \<and>
           cardsOf g' = (deck g, discardPile g @ [curCard],
             (hands g)[nat (currentPlayerIdx g) := take (nat c) hand @ drop (Suc (nat c)) hand])))
   \<and> (moveType mv = DRAW \<longrightarrow> playMove g mv rnds callback = playDrawMove rnds g)
   \<and> (playDrawMove rnds g = Returns g' \<longrightarrow>
        (\<exists>g1. drawLoop rnds 0 (numDraws (lastDrawPlayed g)) g = Returns g1 \<and>
              cardsOf g' = cardsOf g1))
   \<and> drawLoop rnds i 0 g = Returns g
   \<and> drawLoop rnds i (Suc k) g = andThen (drawCard (rnds i) g) (drawLoop rnds (i + 1) k)
   \<and> (deck g \<noteq> [] \<and> jsIndex (hands g) (currentPlayerIdx g) = Some hand \<longrightarrow>
        (\<exists>g1. drawCard rnd g = Returns g1 \<and>
           cardsOf g1 = (tl (deck g), discardPile g,
             (hands g)[nat (currentPlayerIdx g) := hand @ [hd (deck g)]])))
   \<and> (deck g = [] \<and> discardPile g \<noteq> [] \<longrightarrow>
        (\<exists>g1. refillDeck rnd g = Returns g1 \<and>
           deck g1 = shuffleCards rnd (butlast (discardPile g)) \<and>
           mset (deck g1) = mset (butlast (discardPile g)) \<and>
           discardPile g1 = [last (discardPile g)] \<and> hands g1 = hands g \<and>
           currentPlayerIdx g1 = currentPlayerIdx g \<and>
           drawCard rnd g = takeTopCard g1 \<and>
           (deck g1 \<noteq> [] \<and> jsIndex (hands g) (currentPlayerIdx g) = Some hand \<longrightarrow>
              (\<exists>g2. drawCard rnd g = Returns g2 \<and>
                 cardsOf g2 = (tl (deck g1), [last (discardPile g)],
                   (hands g)[nat (currentPlayerIdx g) := hand @ [hd (deck g1)]])))))
   \<and> (deck g = [] \<and> length (discardPile g) = 1 \<longrightarrow> drawCard rnd g = Returns g)
   \<and> (ratingsOnly callback \<and> quitCardGame g pid now callback = Returns g' \<longrightarrow>
        cardsOf g' = cardsOf g)"
  apply (intro conjI impI)
           apply (elim conjE, rule totalCards_applyOps; assumption)
          apply (elim conjE, rule play_moves_one_card; assumption)
         apply (rule draw_is_playDrawMove; assumption)
        apply (rule playDrawMove_cards; assumption)
       apply (rule drawLoop.simps(1))
      apply (rule drawLoop.simps(2))
     apply (elim conjE, rule draw_moves_one_card; assumption)
    apply (elim conjE, rule reshuffle_moves_discards; assumption)
   apply (elim conjE, rule drawCard_one_discard; assumption)
  apply (elim conjE, rule quit_moves_nothing; assumption)
  done

text \<open>
  Alice plays her red 3, Bob draws a card, Carol quits: nine cards before, nine after.
  Alice's red 3 goes from her hand to the discard pile; a draw gives her the yellow 1
  from the deck; an empty deck is rebuilt from the red 5 and the blue 2 under the red 7;
  with only one card on the discard pile a draw changes nothing; Carol's quit moves no
  card.
\<close>

theorem total_cards_invariant_witness:
  "(\<exists>g'. applyOps (onGameEnd nearestPower) threePlayerGame
           [PlayOp \<lparr>moveType = False, moveCard = Some 0, moveColor = None\<rparr> noShuffle,
            PlayOp \<lparr>moveType = True, moveCard = None, moveColor = None\<rparr> noShuffle,
            QuitOp (Some ''carol@example.com'') 7] = Returns g' \<and>
        totalCards g' = 9) \<and>
   (\<exists>g'. playMove threePlayerGame \<lparr>moveType = False, moveCard = Some 0, moveColor = None\<rparr>
           noShuffle (onGameEnd nearestPower) = Returns g' \<and>
         cardsOf g' =
           ([NumberCard ''yellow'' 1, NumberCard ''yellow'' 2],
            [NumberCard ''red'' 5, NumberCard ''red'' 3],
            [[ReverseCard ''red'', WildCard],
             [SkipCard ''blue'', NumberCard ''red'' 9],
             [NumberCard ''green'' 7]])) \<and>
   (\<exists>g1. drawCard (noShuffle 0) threePlayerGame = Returns g1 \<and>
         cardsOf g1 =
           ([NumberCard ''yellow'' 2],
            [NumberCard ''red'' 5],
            [[NumberCard ''red'' 3, ReverseCard ''red'', WildCard, NumberCard ''yellow'' 1],
             [SkipCard ''blue'', NumberCard ''red'' 9],
             [NumberCard ''green'' 7]])) \<and>
   (\<exists>g1. refillDeck (noShuffle 0)
           (threePlayerGame\<lparr>deck := [],
              discardPile := [NumberCard ''red'' 5, NumberCard ''blue'' 2, NumberCard ''red'' 7]\<rparr>)
           = Returns g1 \<and>
         mset (deck g1) = {#NumberCard ''red'' 5, NumberCard ''blue'' 2#} \<and>
         discardPile g1 = [NumberCard ''red'' 7] \<and>
         hands g1 = hands threePlayerGame) \<and>
   drawCard (noShuffle 0) (threePlayerGame\<lparr>deck := []\<rparr>) = Returns (threePlayerGame\<lparr>deck := []\<rparr>) \<and>
   (\<exists>g'. quitCardGame threePlayerGame (Some ''carol@example.com'') 7 (onGameEnd nearestPower)
           = Returns g' \<and>
         cardsOf g' =
           ([NumberCard ''yellow'' 1, NumberCard ''yellow'' 2],
            [NumberCard ''red'' 5],
            [[NumberCard ''red'' 3, ReverseCard ''red'', WildCard],
             [SkipCard ''blue'', NumberCard ''red'' 9],
             [NumberCard ''green'' 7]]))"
proof -
  note ro = ratingsOnly_onGameEnd[of nearestPower]
  let ?play = "\<lparr>moveType = False, moveCard = Some 0, moveColor = None\<rparr>"
  let ?ops = "[PlayOp ?play noShuffle,
            PlayOp \<lparr>moveType = True, moveCard = None, moveColor = None\<rparr> noShuffle,
            QuitOp (Some ''carol@example.com'') 7]"
  let ?e = "threePlayerGame\<lparr>deck := [],
              discardPile := [NumberCard ''red'' 5, NumberCard ''blue'' 2, NumberCard ''red'' 7]\<rparr>"
  obtain g' where r: "applyOps (onGameEnd nearestPower) threePlayerGame ?ops = Returns g'"
    by (simp add: game_defs op_defs)
  have "totalCards threePlayerGame = 9"
    by (simp add: totalCards_def threePlayerGame_def)
  moreover have "totalCards g' = totalCards threePlayerGame"
    by (rule total_cards_invariant[THEN conjunct1, rule_format, OF conjI[OF ro r]])
  ultimately have 1: "\<exists>g'. applyOps (onGameEnd nearestPower) threePlayerGame ?ops = Returns g' \<and>
        totalCards g' = 9" using r by (intro exI[of _ g']) simp
  obtain g2 where p: "playMove threePlayerGame ?play noShuffle (onGameEnd nearestPower) = Returns g2"
    by (simp add: game_defs op_defs)
  have pl: "moveType ?play = PLAY" by (simp add: PLAY_def)
  from total_cards_invariant[THEN conjunct2, THEN conjunct1, rule_format, OF conjI[OF ro conjI[OF pl p]]]
  obtain c hand curCard where "moveCard ?play = Some c"
    "jsIndex (hands threePlayerGame) (currentPlayerIdx threePlayerGame) = Some hand"
    "jsIndex hand c = Some curCard"
    "cardsOf g2 = (deck threePlayerGame, discardPile threePlayerGame @ [curCard],
       (hands threePlayerGame)[nat (currentPlayerIdx threePlayerGame) :=
          take (nat c) hand @ drop (Suc (nat c)) hand])"
    by blast
  then have "cardsOf g2 =
           ([NumberCard ''yellow'' 1, NumberCard ''yellow'' 2],
            [NumberCard ''red'' 5, NumberCard ''red'' 3],
            [[ReverseCard ''red'', WildCard],
             [SkipCard ''blue'', NumberCard ''red'' 9],
             [NumberCard ''green'' 7]])"
    by (auto simp: threePlayerGame_def jsIndex_def)
  with p have 2: "\<exists>g'. playMove threePlayerGame ?play noShuffle (onGameEnd nearestPower) = Returns g' \<and>
         cardsOf g' =
           ([NumberCard ''yellow'' 1, NumberCard ''yellow'' 2],
            [NumberCard ''red'' 5, NumberCard ''red'' 3],
            [[ReverseCard ''red'', WildCard],
             [SkipCard ''blue'', NumberCard ''red'' 9],
             [NumberCard ''green'' 7]])" by blast
  have d: "deck threePlayerGame \<noteq> []"
    "jsIndex (hands threePlayerGame) (currentPlayerIdx threePlayerGame)
       = Some [NumberCard ''red'' 3, ReverseCard ''red'', WildCard]"
    by (simp_all add: threePlayerGame_def jsIndex_def)
  from total_cards_invariant[THEN conjunct2, THEN conjunct2, THEN conjunct2, THEN conjunct2,
      THEN conjunct2, THEN conjunct2, THEN conjunct1, rule_format, OF conjI[OF d],
      where rnd = "noShuffle 0"]
  have 3: "\<exists>g1. drawCard (noShuffle 0) threePlayerGame = Returns g1 \<and>
         cardsOf g1 =
           ([NumberCard ''yellow'' 2],
            [NumberCard ''red'' 5],
            [[NumberCard ''red'' 3, ReverseCard ''red'', WildCard, NumberCard ''yellow'' 1],
             [SkipCard ''blue'', NumberCard ''red'' 9],
             [NumberCard ''green'' 7]])"
    by (simp add: threePlayerGame_def)
  have e: "deck ?e = []" "discardPile ?e \<noteq> []" by simp_all
  from total_cards_invariant[THEN conjunct2, THEN conjunct2, THEN conjunct2, THEN conjunct2,
      THEN conjunct2, THEN conjunct2, THEN conjunct2, THEN conjunct1, rule_format, OF conjI[OF e],
      where rnd = "noShuffle 0"]
  obtain g1 where "refillDeck (noShuffle 0) ?e = Returns g1"
    "mset (deck g1) = mset (butlast (discardPile ?e))"
    "discardPile g1 = [last (discardPile ?e)]" "hands g1 = hands ?e"
    by blast
  then have 4: "\<exists>g1. refillDeck (noShuffle 0) ?e = Returns g1 \<and>
         mset (deck g1) = {#NumberCard ''red'' 5, NumberCard ''blue'' 2#} \<and>
         discardPile g1 = [NumberCard ''red'' 7] \<and>
         hands g1 = hands threePlayerGame"
    by (intro exI[of _ g1]) (simp add: add_mset_commute)
  have n: "deck (threePlayerGame\<lparr>deck := []\<rparr>) = []"
    "length (discardPile (threePlayerGame\<lparr>deck := []\<rparr>)) = 1"
    by (simp_all add: threePlayerGame_def)
  have 5: "drawCard (noShuffle 0) (threePlayerGame\<lparr>deck := []\<rparr>) = Returns (threePlayerGame\<lparr>deck := []\<rparr>)"
    by (rule total_cards_invariant[THEN conjunct2, THEN conjunct2, THEN conjunct2,
          THEN conjunct2, THEN conjunct2, THEN conjunct2, THEN conjunct2, THEN conjunct2,
          THEN conjunct1, rule_format, OF conjI[OF n]])
  obtain g3 where q: "quitCardGame threePlayerGame (Some ''carol@example.com'') 7
      (onGameEnd nearestPower) = Returns g3"
    by (simp add: game_defs op_defs)
  have "cardsOf g3 = cardsOf threePlayerGame"
    by (rule total_cards_invariant[THEN conjunct2, THEN conjunct2, THEN conjunct2,
          THEN conjunct2, THEN conjunct2, THEN conjunct2, THEN conjunct2, THEN conjunct2,
          THEN conjunct2, rule_format, OF conjI[OF ro q]])
  then have "cardsOf g3 =
           ([NumberCard ''yellow'' 1, NumberCard ''yellow'' 2],
            [NumberCard ''red'' 5],
            [[NumberCard ''red'' 3, ReverseCard ''red'', WildCard],
             [SkipCard ''blue'', NumberCard ''red'' 9],
             [NumberCard ''green'' 7]])"
    by (simp add: cardsOf_def threePlayerGame_def)
  with q have 6: "\<exists>g'. quitCardGame threePlayerGame (Some ''carol@example.com'') 7 (onGameEnd nearestPower)
           = Returns g' \<and>
         cardsOf g' =
           ([NumberCard ''yellow'' 1, NumberCard ''yellow'' 2],
            [NumberCard ''red'' 5],
            [[NumberCard ''red'' 3, ReverseCard ''red'', WildCard],
             [SkipCard ''blue'', NumberCard ''red'' 9],
             [NumberCard ''green'' 7]])" by blast
  from 1 2 3 4 5 6 show ?thesis by (intro conjI)
qed

end
